theory Spec2Isabelle
  imports Main "HOL-Library.Sublist"
begin

section \<open>Strings as the scanner uses them\<close>

text \<open>
  File contents and paths are \<^typ>\<open>string\<close>: one \<^typ>\<open>char\<close> per code unit, so the model
  covers text whose code units lie below 256. The string operations of the source are the
  JavaScript built-ins \<open>includes\<close>, \<open>split\<close>, \<open>toLowerCase\<close>, \<open>parseInt\<close> and the \<open>join\<close>
  of arrays.
\<close>

fun str_includes :: "string \<Rightarrow> string \<Rightarrow> bool" where
  "str_includes [] sub = (sub = [])"
| "str_includes (c # cs) sub = (prefix sub (c # cs) \<or> str_includes cs sub)"

definition is_space :: "char \<Rightarrow> bool" where
  \<comment> \<open>the regex class \<open>\s\<close> below 256: TAB, LF, VT, FF, CR, SP, NBSP\<close>
  "is_space c = (c \<in> set [CHR 0x09, CHR 0x0A, CHR 0x0B, CHR 0x0C, CHR 0x0D, CHR 0x20, CHR 0xA0])"

definition is_digit :: "char \<Rightarrow> bool" where
  \<comment> \<open>the regex class \<open>\d\<close>\<close>
  "is_digit c = (c \<in> set ''0123456789'')"

definition is_word :: "char \<Rightarrow> bool" where
  \<comment> \<open>the regex class \<open>\w\<close>\<close>
  "is_word c = (c \<in> set ''abcdefghijklmnopqrstuvwxyzABCDEFGHIJKLMNOPQRSTUVWXYZ0123456789_'')"

definition upper_letters :: string where
  \<comment> \<open>the capital letters below 256: A to Z, and the accented capitals 0xC0 to 0xDE without 0xD7\<close>
  "upper_letters =
     ''ABCDEFGHIJKLMNOPQRSTUVWXYZ''
     @ [CHR 0xC0, CHR 0xC1, CHR 0xC2, CHR 0xC3, CHR 0xC4, CHR 0xC5, CHR 0xC6, CHR 0xC7, CHR 0xC8,
        CHR 0xC9, CHR 0xCA, CHR 0xCB, CHR 0xCC, CHR 0xCD, CHR 0xCE, CHR 0xCF, CHR 0xD0, CHR 0xD1,
        CHR 0xD2, CHR 0xD3, CHR 0xD4, CHR 0xD5, CHR 0xD6, CHR 0xD8, CHR 0xD9, CHR 0xDA, CHR 0xDB,
        CHR 0xDC, CHR 0xDD, CHR 0xDE]"

definition lower_letters :: string where
  \<comment> \<open>their small letters, each 32 above\<close>
  "lower_letters =
     ''abcdefghijklmnopqrstuvwxyz''
     @ [CHR 0xE0, CHR 0xE1, CHR 0xE2, CHR 0xE3, CHR 0xE4, CHR 0xE5, CHR 0xE6, CHR 0xE7, CHR 0xE8,
        CHR 0xE9, CHR 0xEA, CHR 0xEB, CHR 0xEC, CHR 0xED, CHR 0xEE, CHR 0xEF, CHR 0xF0, CHR 0xF1,
        CHR 0xF2, CHR 0xF3, CHR 0xF4, CHR 0xF5, CHR 0xF6, CHR 0xF8, CHR 0xF9, CHR 0xFA, CHR 0xFB,
        CHR 0xFC, CHR 0xFD, CHR 0xFE]"

definition toLowerChar :: "char \<Rightarrow> char" where
  "toLowerChar c = (case map_of (zip upper_letters lower_letters) c of None \<Rightarrow> c | Some l \<Rightarrow> l)"

definition toLowerCase :: "string \<Rightarrow> string" where
  "toLowerCase s = map toLowerChar s"

definition digit_val :: "char \<Rightarrow> nat" where
  "digit_val c = of_char c - 48"

definition parseInt :: "string \<Rightarrow> nat" where
  \<comment> \<open>\<open>parseInt\<close> on a non-empty run of decimal digits (the only argument the source gives it).
      JavaScript returns a double: the natural number kept here is that double when the run
      denotes a number below \<open>2^53\<close>. From there on the program holds the nearest double and
      prints that one; such literals are outside the model, and what is proved of a cited number
      is proved of files without them.\<close>
  "parseInt ds = fold (\<lambda>c n. 10 * n + digit_val c) ds 0"

function show_nat :: "nat \<Rightarrow> string" where
  \<comment> \<open>a number inside a template literal: its decimal digits\<close>
  "show_nat n =
     (if n < 10 then [''0123456789'' ! n] else show_nat (n div 10) @ [''0123456789'' ! (n mod 10)])"
  by pat_completeness auto
termination
  by (relation "measure id") auto

declare show_nat.simps [simp del]

fun split_on :: "char \<Rightarrow> string \<Rightarrow> string list" where
  \<comment> \<open>\<open>s.split(c)\<close>: always at least one piece\<close>
  "split_on d [] = [[]]"
| "split_on d (c # cs) =
     (if c = d then [] # split_on d cs
      else (case split_on d cs of [] \<Rightarrow> [[c]] | p # ps \<Rightarrow> (c # p) # ps))"

definition split_lines :: "string \<Rightarrow> string list" where
  "split_lines s = split_on (CHR 0x0A) s"

definition line_of :: "string \<Rightarrow> nat \<Rightarrow> nat" where
  \<comment> \<open>\<open>code.substring(0, index).split("\n").length\<close>\<close>
  "line_of code index = length (split_lines (take index code))"

fun join_with :: "string \<Rightarrow> string list \<Rightarrow> string" where
  \<comment> \<open>\<open>xs.join(sep)\<close>\<close>
  "join_with sep [] = []"
| "join_with sep [x] = x"
| "join_with sep (x # y # ys) = x @ sep @ join_with sep (y # ys)"

subsection \<open>Regular expressions\<close>

text \<open>
  A regular expression of the source is modelled by its anchored matcher: a function that, given
  the text from some position on, returns the captured group and the length of the match there.
  The quantifiers of the source's patterns are greedy and each is followed by a character
  outside its class, so the anchored match is unique where no search is written out below.
\<close>

type_synonym 'a matcher = "string \<Rightarrow> ('a \<times> nat) option"

fun strip_prefix :: "string \<Rightarrow> string \<Rightarrow> string option" where
  "strip_prefix [] s = Some s"
| "strip_prefix (p # ps) [] = None"
| "strip_prefix (p # ps) (c # cs) = (if p = c then strip_prefix ps cs else None)"

fun find_first :: "'a matcher \<Rightarrow> string \<Rightarrow> (nat \<times> 'a \<times> nat) option" where
  \<comment> \<open>the leftmost position at which the pattern matches: \<open>regex.exec\<close> from index 0\<close>
  "find_first m [] = (case m [] of None \<Rightarrow> None | Some r \<Rightarrow> Some (0, r))"
| "find_first m (c # cs) =
     (case m (c # cs) of
        Some r \<Rightarrow> Some (0, r)
      | None \<Rightarrow> (case find_first m cs of None \<Rightarrow> None | Some (i, r) \<Rightarrow> Some (Suc i, r)))"

definition regex_test :: "'a matcher \<Rightarrow> string \<Rightarrow> bool" where
  \<comment> \<open>\<open>regex.test(s)\<close> and the truth value of \<open>s.match(regex)\<close>\<close>
  "regex_test m s = (find_first m s \<noteq> None)"

fun exec_all :: "'a matcher \<Rightarrow> nat \<Rightarrow> nat \<Rightarrow> string \<Rightarrow> (nat \<times> 'a) list" where
  \<comment> \<open>the successive results of \<open>regex.exec\<close> on a global pattern, as (index, capture): after a
      match \<open>lastIndex\<close> is its end, so the \<open>skip\<close> characters inside it start no match.
      \<open>exec_all m skip index rest\<close> reads \<open>rest\<close>, which begins at \<open>index\<close>.\<close>
  "exec_all m skip i [] = []"
| "exec_all m (Suc skip) i (c # cs) = exec_all m skip (Suc i) cs"
| "exec_all m 0 i (c # cs) =
     (case m (c # cs) of
        None \<Rightarrow> exec_all m 0 (Suc i) cs
      | Some (cap, len) \<Rightarrow> (i, cap) # exec_all m (len - 1) (Suc i) cs)"

section \<open>Data model (types.ts)\<close>

datatype severity = Error | Warning | Info

datatype category = Port | Host | StartCommand | EnvVars | StaticFiles | Database

record FixSuggestion =
  description :: string
  before :: "string option"
  after :: "string option"
  steps :: "string list option"

record Issue =
  issue_id :: string
  severity :: severity
  issue_category :: category
  issue_message :: string
  issue_file :: "string option"
  issue_line :: "nat option"
  issue_fix :: FixSuggestion

record PassedCheck =
  passed_id :: string
  passed_category :: string
  passed_message :: string

datatype framework_name = Express | Nextjs | Nestjs | Django | Flask | Fastapi | Unknown

record Framework =
  name :: framework_name
  version :: "string option"
  mainFile :: "string option"

datatype likelihood = WillFail | MightFail | ShouldSucceed

record Summary =
  totalIssues :: nat
  errors :: nat
  warnings_count :: nat
  passed_count :: nat
  deploymentLikelihood :: likelihood

record ScanResult =
  projectPath :: string
  framework :: Framework
  issues :: "Issue list"
  warnings :: "Issue list"
  passed :: "PassedCheck list"
  summary :: Summary

section \<open>The file system and the libraries the scanner calls\<close>

text \<open>
  The parsed package manifest, with the fields the scanner reads. A dependency table maps a
  package name to its version string; a script is absent or a string.
\<close>

record manifest =
  dependencies :: "string \<rightharpoonup> string"
  devDependencies :: "string \<rightharpoonup> string"
  scripts_start :: "string option"
  scripts_build :: "string option"
  main :: "string option"

record glob_options =
  cwd :: string
  ignore :: "string list"
  maxDepth :: nat

text \<open>
  One scan reads a fixed file system. \<open>files\<close> gives the content of each file that can be read,
  by the path the scanner passes to \<open>readFileSync\<close>; \<open>unreadable\<close> holds of the other paths
  that exist (a directory, or a file that cannot be read). \<open>existsSync\<close> is true of both kinds
  and \<open>readFileSync\<close> throws on every path without content. \<open>path_join\<close> is \<open>path.join\<close>
  (it joins with a separator and normalises the result), \<open>glob\<close> is the glob library
  (\<open>None\<close> when it throws) and \<open>JSON_parse\<close> is \<open>JSON.parse\<close> on a manifest text (\<open>None\<close>
  when it throws a syntax error). Manifests whose fields have other JSON types than the record
  above are outside the model.
\<close>

record fs_env =
  files :: "string \<rightharpoonup> string"
  unreadable :: "string \<Rightarrow> bool"
  path_join :: "string \<Rightarrow> string \<Rightarrow> string"
  glob :: "string list \<Rightarrow> glob_options \<Rightarrow> string list option"
  JSON_parse :: "string \<Rightarrow> manifest option"

datatype error = JsonSyntaxError | FileReadError

definition join :: "fs_env \<Rightarrow> string \<Rightarrow> string \<Rightarrow> string" where
  "join env dir leaf = path_join env dir leaf"

definition existsSync :: "fs_env \<Rightarrow> string \<Rightarrow> bool" where
  "existsSync env path = (files env path \<noteq> None \<or> unreadable env path)"

definition readFileSync :: "fs_env \<Rightarrow> string \<Rightarrow> error + string" where
  \<comment> \<open>outside a \<open>try\<close>: the exception of a failed read leaves the caller\<close>
  "readFileSync env path = (case files env path of None \<Rightarrow> Inl FileReadError | Some txt \<Rightarrow> Inr txt)"

definition and_then :: "error + 'a \<Rightarrow> ('a \<Rightarrow> error + 'b) \<Rightarrow> error + 'b" where
  \<comment> \<open>sequencing of two steps either of which may throw\<close>
  "and_then m f = (case m of Inl e \<Rightarrow> Inl e | Inr x \<Rightarrow> f x)"

definition truthy :: "string option \<Rightarrow> bool" where
  \<comment> \<open>a string-or-undefined value in a condition: undefined and the empty string are false\<close>
  "truthy v = (case v of None \<Rightarrow> False | Some s \<Rightarrow> s \<noteq> [])"

section \<open>Framework detection (scanner/fileDetector.ts)\<close>

fun first_existing :: "fs_env \<Rightarrow> string \<Rightarrow> string list \<Rightarrow> string option" where
  "first_existing env root [] = None"
| "first_existing env root (candidate # rest) =
     (if existsSync env (join env root candidate) then Some candidate
      else first_existing env root rest)"

definition main_field_entry :: "fs_env \<Rightarrow> string \<Rightarrow> string option" where
  \<comment> \<open>the manifest's \<open>main\<close> field, inside \<open>try { ... } catch { }\<close>: a failed read and a parse
      error are ignored\<close>
  "main_field_entry env root =
     (case files env (join env root ''package.json'') of
        None \<Rightarrow> None
      | Some txt \<Rightarrow>
          (case JSON_parse env txt of
             None \<Rightarrow> None
           | Some packageJson \<Rightarrow>
               (case main packageJson of
                  None \<Rightarrow> None
                | Some m \<Rightarrow> if m \<noteq> [] \<and> existsSync env (join env root m) then Some m else None)))"

definition findEntryPoint :: "fs_env \<Rightarrow> string \<Rightarrow> string list \<Rightarrow> string option" where
  "findEntryPoint env root candidates =
     (case first_existing env root candidates of
        Some candidate \<Rightarrow> Some candidate
      | None \<Rightarrow>
          (case main_field_entry env root of
             Some m \<Rightarrow> Some m
           | None \<Rightarrow>
               (case glob env [''**/{server,index,app,main}.{js,ts}'']
                       \<lparr>cwd = root, ignore = [''node_modules/**'', ''dist/**'', ''build/**''],
                        maxDepth = 3\<rparr> of
                  None \<Rightarrow> None
                | Some jsFiles \<Rightarrow> (case jsFiles of [] \<Rightarrow> None | f # _ \<Rightarrow> Some f))))"

definition detectNode :: "fs_env \<Rightarrow> string \<Rightarrow> manifest \<Rightarrow> Framework option" where
  \<comment> \<open>the three Node checks on a parsed manifest; \<open>None\<close> when none of them applies\<close>
  "detectNode env root packageJson =
     (let deps = dependencies packageJson ++ devDependencies packageJson
      in if truthy (deps ''next'') \<or> existsSync env (join env root ''next.config.js'')
            \<or> existsSync env (join env root ''next.config.mjs'')
         then Some \<lparr>name = Nextjs, version = deps ''next'',
                    mainFile =
                      (case findEntryPoint env root
                              [''pages/_app.tsx'', ''pages/_app.js'', ''app/layout.tsx'',
                               ''src/app/layout.tsx''] of
                         None \<Rightarrow> Some ''next.config.js''
                       | Some f \<Rightarrow> if f = [] then Some ''next.config.js'' else Some f)\<rparr>
         else if truthy (deps ''@nestjs/core'')
         then Some \<lparr>name = Nestjs, version = deps ''@nestjs/core'',
                    mainFile = findEntryPoint env root [''src/main.ts'', ''main.ts'']\<rparr>
         else if truthy (deps ''express'')
         then Some \<lparr>name = Express, version = deps ''express'',
                    mainFile =
                      findEntryPoint env root
                        [''server.js'', ''index.js'', ''app.js'', ''src/server.js'', ''src/index.js'',
                         ''src/app.js'', ''server.ts'', ''src/server.ts'']\<rparr>
         else None)"

definition detectPython :: "fs_env \<Rightarrow> string \<Rightarrow> error + Framework" where
  \<comment> \<open>the dependency-list check, and the "unknown" variant after it; the list is read with no
      \<open>try\<close> around the read\<close>
  "detectPython env root =
     (if existsSync env (join env root ''requirements.txt'')
      then and_then (readFileSync env (join env root ''requirements.txt''))
             (\<lambda>txt.
                let requirements = toLowerCase txt
                in if str_includes requirements ''django''
                   then Inr \<lparr>name = Django, version = None,
                             mainFile =
                               (if existsSync env (join env root ''manage.py'') then Some ''manage.py''
                                else None)\<rparr>
                   else if str_includes requirements ''flask''
                   then Inr \<lparr>name = Flask, version = None,
                             mainFile = findEntryPoint env root [''app.py'', ''main.py'', ''wsgi.py'']\<rparr>
                   else if str_includes requirements ''fastapi''
                   then Inr \<lparr>name = Fastapi, version = None,
                             mainFile = findEntryPoint env root [''main.py'', ''app.py'']\<rparr>
                   else Inr \<lparr>name = Unknown, version = None, mainFile = None\<rparr>)
      else Inr \<lparr>name = Unknown, version = None, mainFile = None\<rparr>)"

definition detectFramework :: "fs_env \<Rightarrow> string \<Rightarrow> error + Framework" where
  \<comment> \<open>\<open>readFileSync\<close> and \<open>JSON.parse\<close> are called with no \<open>try\<close> around them: their exceptions
      leave the function\<close>
  "detectFramework env root =
     (if existsSync env (join env root ''package.json'')
      then and_then (readFileSync env (join env root ''package.json''))
             (\<lambda>txt.
                case JSON_parse env txt of
                  None \<Rightarrow> Inl JsonSyntaxError
                | Some packageJson \<Rightarrow>
                    (case detectNode env root packageJson of
                       Some fw \<Rightarrow> Inr fw
                     | None \<Rightarrow> detectPython env root))
      else detectPython env root)"

section \<open>Port check (checks/portCheck.ts)\<close>

definition source_patterns :: "Framework \<Rightarrow> string list" where
  \<comment> \<open>the glob patterns every multi-file check chooses from the framework\<close>
  "source_patterns fw =
     (if name fw = Django \<or> name fw = Flask \<or> name fw = Fastapi then [''**/*.py'']
      else [''**/*.{js,ts,jsx,tsx}''])"

definition scan_ignore :: "string list" where
  "scan_ignore = [''node_modules/**'', ''dist/**'', ''build/**'', ''.next/**'', ''venv/**'',
                  ''__pycache__/**'']"

fun strip_any :: "string list \<Rightarrow> string \<Rightarrow> string option" where
  \<comment> \<open>an alternation of literals: the first alternative that is a prefix\<close>
  "strip_any [] s = None"
| "strip_any (p # ps) s = (case strip_prefix p s of Some r \<Rightarrow> Some r | None \<Rightarrow> strip_any ps s)"

definition digits_then :: "string \<Rightarrow> string \<Rightarrow> (string \<times> nat) option" where
  \<comment> \<open>the tail \<open>\s*(\d+)\<close> of a pattern that has matched all of \<open>s\<close> but \<open>r\<close>\<close>
  "digits_then s r =
     (let r' = dropWhile is_space r; ds = takeWhile is_digit r'
      in if ds = [] then None else Some (ds, length s - length (dropWhile is_digit r')))"

definition listenCallRegex :: "string matcher" where
  \<comment> \<open>\<open>/\.listen\s*\(\s*(\d+)/g\<close>\<close>
  "listenCallRegex s =
     (case strip_prefix ''.listen'' s of
        None \<Rightarrow> None
      | Some r1 \<Rightarrow>
          (case strip_prefix ''('' (dropWhile is_space r1) of
             None \<Rightarrow> None
           | Some r2 \<Rightarrow> digits_then s r2))"

definition portVarRegex :: "string matcher" where
  \<comment> \<open>\<open>/(?:const|let|var)\s+(\w*[pP]ort\w*)\s*=\s*(\d+)/g\<close>, capturing group 2: the name is the
      whole run of word characters after the spaces, and it has to contain \<open>port\<close> or \<open>Port\<close>\<close>
  "portVarRegex s =
     (case strip_any [''const'', ''let'', ''var''] s of
        None \<Rightarrow> None
      | Some r1 \<Rightarrow>
          (let r2 = dropWhile is_space r1; ident = takeWhile is_word r2
           in if length r2 = length r1 then None
              else if \<not> (str_includes ident ''port'' \<or> str_includes ident ''Port'') then None
              else (case strip_prefix ''='' (dropWhile is_space (dropWhile is_word r2)) of
                      None \<Rightarrow> None
                    | Some r3 \<Rightarrow> digits_then s r3)))"

definition port_kwarg :: "string \<Rightarrow> (string \<times> nat) option" where
  \<comment> \<open>\<open>port\s*=\s*(\d+)\<close> at the head of \<open>r\<close>: the digits and the number of characters left\<close>
  "port_kwarg r =
     (case strip_prefix ''port'' r of
        None \<Rightarrow> None
      | Some r1 \<Rightarrow>
          (case strip_prefix ''='' (dropWhile is_space r1) of
             None \<Rightarrow> None
           | Some r2 \<Rightarrow>
               (let r3 = dropWhile is_space r2; ds = takeWhile is_digit r3
                in if ds = [] then None else Some (ds, length (dropWhile is_digit r3)))))"

fun last_port_kwarg :: "string \<Rightarrow> (string \<times> nat) option" where
  \<comment> \<open>\<open>[^)]*port\s*=\s*(\d+)\<close>: the greedy \<open>[^)]*\<close> gives the last place before a closing
      parenthesis at which the keyword argument matches\<close>
  "last_port_kwarg [] = port_kwarg []"
| "last_port_kwarg (c # cs) =
     (case (if c \<noteq> CHR '')'' then last_port_kwarg cs else None) of
        Some r \<Rightarrow> Some r
      | None \<Rightarrow> port_kwarg (c # cs))"

definition pythonPortRegex :: "string matcher" where
  \<comment> \<open>\<open>/(?:app\.run|uvicorn\.run)\s*\([^)]*port\s*=\s*(\d+)/g\<close>\<close>
  "pythonPortRegex s =
     (case strip_any [''app.run'', ''uvicorn.run''] s of
        None \<Rightarrow> None
      | Some r1 \<Rightarrow>
          (case strip_prefix ''('' (dropWhile is_space r1) of
             None \<Rightarrow> None
           | Some r2 \<Rightarrow>
               (case last_port_kwarg r2 of
                  None \<Rightarrow> None
                | Some (ds, left) \<Rightarrow> Some (ds, length s - left))))"

definition first_hardcoded :: "string matcher \<Rightarrow> string \<Rightarrow> (nat \<times> nat) option" where
  \<comment> \<open>one \<open>while ((match = regex.exec(code)) !== null)\<close> loop: the first match whose number is at
      least 1000 ends the loop and gives the port number and the line of the match\<close>
  "first_hardcoded regex code =
     (case find (\<lambda>(index, ds). ds \<noteq> [] \<and> 1000 \<le> parseInt ds) (exec_all regex 0 0 code) of
        None \<Rightarrow> None
      | Some (index, ds) \<Rightarrow> Some (parseInt ds, line_of code index))"

definition hasPortEnvVar :: "string \<Rightarrow> bool" where
  "hasPortEnvVar code =
     (str_includes code ''process.env.PORT'' \<or> str_includes code ''process.env['PORT']''
      \<or> str_includes code ''process.env[\"PORT\"]''
      \<or> str_includes code ''os.environ.get('PORT')'' \<or> str_includes code ''os.environ.get(\"PORT\")''
      \<or> str_includes code ''os.getenv('PORT')'' \<or> str_includes code ''os.getenv(\"PORT\")'')"

definition or_default :: "nat option \<Rightarrow> string \<Rightarrow> string" where
  \<comment> \<open>\<open>${hardcodedPortValue || dflt}\<close>\<close>
  "or_default v dflt = (case v of None \<Rightarrow> dflt | Some n \<Rightarrow> if n = 0 then dflt else show_nat n)"

definition port_hardcoded :: "string \<Rightarrow> nat option \<Rightarrow> nat option \<Rightarrow> Issue" where
  "port_hardcoded filename hardcodedPortValue listenCallLine =
     \<lparr>issue_id = ''port-hardcoded'', severity = Error, issue_category = Port,
      issue_message =
        ''Hardcoded port '' @ or_default hardcodedPortValue ''detected''
          @ ''. Railway requires process.env.PORT'',
      issue_file = Some filename, issue_line = listenCallLine,
      issue_fix =
        \<lparr>description = ''Use process.env.PORT with a fallback for local development'',
         before = Some (''const port = '' @ or_default hardcodedPortValue ''3000'' @ '';''),
         after = Some (''const port = process.env.PORT || '' @ or_default hardcodedPortValue ''3000''
                        @ '';''),
         steps = Some [''Update your server to use: const port = process.env.PORT || ''
                         @ or_default hardcodedPortValue ''3000'',
                       ''Ensure your .listen() call uses this port variable'']\<rparr>\<rparr>"

type_synonym port_state = "bool \<times> nat option \<times> nat option"
  \<comment> \<open>hasHardcodedPort, hardcodedPortValue, listenCallLine\<close>

definition note_port :: "(nat \<times> nat) option \<Rightarrow> port_state \<Rightarrow> port_state" where
  "note_port hit st =
     (case hit of None \<Rightarrow> st | Some (portNumber, ln) \<Rightarrow> (True, Some portNumber, Some ln))"

definition scanFileForPortIssues :: "string \<Rightarrow> string \<Rightarrow> Framework \<Rightarrow> Issue list" where
  "scanFileForPortIssues code filename fw =
     (let st0 = (False, None, None);
          st1 = note_port (first_hardcoded listenCallRegex code) st0;
          st2 = note_port (if hasPortEnvVar code then None else first_hardcoded portVarRegex code) st1;
          st3 = note_port (if hasPortEnvVar code then None else first_hardcoded pythonPortRegex code) st2
      in (case st3 of
            (hasHardcodedPort, hardcodedPortValue, listenCallLine) \<Rightarrow>
              if hasHardcodedPort \<and> \<not> hasPortEnvVar code
              then [port_hardcoded filename hardcodedPortValue listenCallLine]
              else []))"

definition start_script :: "fs_env \<Rightarrow> string \<Rightarrow> string option" where
  \<comment> \<open>\<open>packageJson.scripts?.start || ""\<close> inside \<open>try { ... } catch { }\<close>: \<open>None\<close> when the manifest
      cannot be read or parsed\<close>
  "start_script env root =
     (case files env (join env root ''package.json'') of
        None \<Rightarrow> None
      | Some txt \<Rightarrow>
          (case JSON_parse env txt of
             None \<Rightarrow> None
           | Some packageJson \<Rightarrow>
               (case scripts_start packageJson of None \<Rightarrow> Some [] | Some s \<Rightarrow> Some s)))"

definition nextjs_port_flag :: Issue where
  "nextjs_port_flag =
     \<lparr>issue_id = ''nextjs-port-flag'', severity = Error, issue_category = Port,
      issue_message = ''Next.js start script doesn't use Railway's PORT environment variable'',
      issue_file = Some ''package.json'', issue_line = None,
      issue_fix =
        \<lparr>description = ''Add PORT flag to Next.js start command'',
         before = Some ''\"start\": \"next start\"'',
         after = Some ''\"start\": \"next start --port ${PORT-3000}\"'',
         steps = Some [''Update package.json scripts.start to: \"next start --port ${PORT-3000}\"'']\<rparr>\<rparr>"

definition port_file_step ::
    "fs_env \<Rightarrow> string \<Rightarrow> Framework \<Rightarrow> string \<Rightarrow> Issue list \<times> bool \<Rightarrow> Issue list \<times> bool" where
  \<comment> \<open>one round of the loop over the files: a file that cannot be read is skipped\<close>
  "port_file_step env root fw filename st =
     (case st of
        (iss, foundPortIssues) \<Rightarrow>
          (case files env (join env root filename) of
             None \<Rightarrow> (iss, foundPortIssues)
           | Some code \<Rightarrow>
               (let fileIssues = scanFileForPortIssues code filename fw
                in if length fileIssues > 0 then (iss @ fileIssues, True)
                   else (iss, foundPortIssues))))"

definition checkPortUsage :: "fs_env \<Rightarrow> string \<Rightarrow> Framework \<Rightarrow> Issue list \<times> PassedCheck list" where
  "checkPortUsage env root fw =
     (case glob env (source_patterns fw)
             \<lparr>cwd = root, ignore = scan_ignore @ [''*.test.*'', ''*.spec.*''], maxDepth = 5\<rparr> of
        None \<Rightarrow> ([], [])
      | Some found \<Rightarrow>
          (let st1 = fold (port_file_step env root fw) (take 50 found) ([], False);
               st2 =
                 (if name fw = Nextjs
                  then (case start_script env root of
                          None \<Rightarrow> st1
                        | Some startScript \<Rightarrow>
                            if str_includes startScript ''next start''
                               \<and> \<not> str_includes startScript ''$PORT''
                               \<and> \<not> str_includes startScript ''${PORT''
                            then (fst st1 @ [nextjs_port_flag], True)
                            else st1)
                  else st1)
           in (fst st2,
               if \<not> snd st2
               then [\<lparr>passed_id = ''port-check'', passed_category = ''port'',
                      passed_message = ''PORT configuration looks good''\<rparr>]
               else [])))"

section \<open>Host-binding check (checks/hostCheck.ts)\<close>

definition listenTest :: "unit matcher" where
  \<comment> \<open>\<open>/\.listen\s*\(/\<close>\<close>
  "listenTest s =
     (case strip_prefix ''.listen'' s of
        None \<Rightarrow> None
      | Some r1 \<Rightarrow>
          (case strip_prefix ''('' (dropWhile is_space r1) of
             None \<Rightarrow> None
           | Some r2 \<Rightarrow> Some ((), length s - length r2)))"

definition pythonServerTest :: "unit matcher" where
  \<comment> \<open>\<open>/(?:app\.run|uvicorn\.run|waitress\.serve)\s*\(/\<close>\<close>
  "pythonServerTest s =
     (case strip_any [''app.run'', ''uvicorn.run'', ''waitress.serve''] s of
        None \<Rightarrow> None
      | Some r1 \<Rightarrow>
          (case strip_prefix ''('' (dropWhile is_space r1) of
             None \<Rightarrow> None
           | Some r2 \<Rightarrow> Some ((), length s - length r2)))"

definition listenRegex :: "string matcher" where
  \<comment> \<open>\<open>/\.(?:listen|run)\s*\([^)]+\)/g\<close>, capturing the whole match\<close>
  "listenRegex s =
     (case strip_prefix ''.'' s of
        None \<Rightarrow> None
      | Some r0 \<Rightarrow>
          (case strip_any [''listen'', ''run''] r0 of
             None \<Rightarrow> None
           | Some r1 \<Rightarrow>
               (case strip_prefix ''('' (dropWhile is_space r1) of
                  None \<Rightarrow> None
                | Some r2 \<Rightarrow>
                    (if takeWhile (\<lambda>c. c \<noteq> CHR '')'') r2 = [] then None
                     else (case strip_prefix '')'' (dropWhile (\<lambda>c. c \<noteq> CHR '')'') r2) of
                             None \<Rightarrow> None
                           | Some r3 \<Rightarrow>
                               Some (take (length s - length r3) s, length s - length r3))))))"

definition hasCorrectBinding :: "string \<Rightarrow> bool" where
  "hasCorrectBinding code =
     (str_includes code ''\"0.0.0.0\"'' \<or> str_includes code ([CHR 0x27] @ ''0.0.0.0'' @ [CHR 0x27])
      \<or> str_includes code ''`0.0.0.0`'')"

definition hasLocalhostBinding :: "string \<Rightarrow> bool" where
  "hasLocalhostBinding code =
     (str_includes code ''\"localhost\"'' \<or> str_includes code ([CHR 0x27] @ ''localhost'' @ [CHR 0x27])
      \<or> str_includes code ''\"127.0.0.1\"''
      \<or> str_includes code ([CHR 0x27] @ ''127.0.0.1'' @ [CHR 0x27]))"

definition generateHostBindingFix :: "Framework \<Rightarrow> string option \<Rightarrow> FixSuggestion" where
  "generateHostBindingFix fw listenSnippet =
     (case name fw of
        Express \<Rightarrow>
          \<lparr>description = ''Bind to 0.0.0.0 to accept external connections'',
           before = Some ''app.listen(port)'', after = Some ''app.listen(port, \"0.0.0.0\")'',
           steps = Some [''Update your .listen() call to: app.listen(port, \"0.0.0.0\")'',
                         ''This allows Railway to route traffic to your application'']\<rparr>
      | Nestjs \<Rightarrow>
          \<lparr>description = ''Bind to 0.0.0.0 in your NestJS bootstrap function'',
           before = Some ''await app.listen(port)'',
           after = Some ''await app.listen(port, \"0.0.0.0\")'',
           steps = Some [''In src/main.ts, update: await app.listen(port, \"0.0.0.0\")'',
                         ''This allows Railway to route traffic to your application'']\<rparr>
      | Nextjs \<Rightarrow>
          \<lparr>description = ''Add --hostname flag to Next.js start command'',
           before = Some ''\"start\": \"next start\"'',
           after = Some ''\"start\": \"next start --hostname 0.0.0.0\"'',
           steps = Some [''Update package.json start script to include: --hostname 0.0.0.0'']\<rparr>
      | Django \<Rightarrow>
          \<lparr>description = ''Configure Django to bind to 0.0.0.0'',
           before = None,
           after = Some ''gunicorn myproject.wsgi:application --bind 0.0.0.0:$PORT'',
           steps = Some [''Ensure your start command binds to 0.0.0.0:$PORT'',
                         ''Example: gunicorn myproject.wsgi:application --bind 0.0.0.0:$PORT'']\<rparr>
      | Flask \<Rightarrow>
          \<lparr>description = ''Bind to 0.0.0.0 in Flask app'',
           before = Some ''app.run()'',
           after = Some ''app.run(host=\"0.0.0.0\", port=int(os.environ.get(\"PORT\", 5000)))'',
           steps = Some [''Update app.run() to bind to 0.0.0.0'',
                         ''Use gunicorn in production instead of Flask development server'']\<rparr>
      | Fastapi \<Rightarrow>
          \<lparr>description = ''Bind to 0.0.0.0 in uvicorn'',
           before = Some ''uvicorn.run(app)'',
           after = Some ''uvicorn.run(app, host=\"0.0.0.0\", port=int(os.environ.get(\"PORT\", 8000)))'',
           steps = Some [''Update uvicorn.run() to bind to 0.0.0.0'',
                         ''Use Procfile with proper uvicorn command in production'']\<rparr>
      | Unknown \<Rightarrow>
          \<lparr>description = ''Bind to 0.0.0.0 to accept external connections'',
           before = Some (case listenSnippet of None \<Rightarrow> ''.listen(port)''
                          | Some sn \<Rightarrow> if sn = [] then ''.listen(port)'' else sn),
           after = Some ''.listen(port, \"0.0.0.0\")'',
           steps = Some [''Update your server to listen on 0.0.0.0 instead of localhost'',
                         ''This allows Railway to route traffic to your application'']\<rparr>)"

definition host_binding :: "string \<Rightarrow> bool \<Rightarrow> nat option \<Rightarrow> FixSuggestion \<Rightarrow> Issue" where
  "host_binding filename localhostBinding listenLine fx =
     \<lparr>issue_id = ''host-binding'',
      severity = (if localhostBinding then Error else Warning),
      issue_category = Host,
      issue_message =
        (if localhostBinding
         then ''App binds to localhost/127.0.0.1, which won't work on Railway''
         else ''App may not be binding to 0.0.0.0, which is required for Railway''),
      issue_file = Some filename, issue_line = listenLine, issue_fix = fx\<rparr>"

definition scanFileForHostIssues :: "string \<Rightarrow> string \<Rightarrow> Framework \<Rightarrow> Issue list" where
  "scanFileForHostIssues code filename fw =
     (let hasListenCall = regex_test listenTest code;
          hasPythonServerCall = regex_test pythonServerTest code
      in if (hasListenCall \<or> hasPythonServerCall) \<and> \<not> hasCorrectBinding code
         then (let match = find_first listenRegex code;
                   listenLine = (case match of None \<Rightarrow> None
                                 | Some (index, snippet, len) \<Rightarrow> Some (line_of code index));
                   listenSnippet = (case match of None \<Rightarrow> None
                                    | Some (index, snippet, len) \<Rightarrow> Some snippet)
               in [host_binding filename (hasLocalhostBinding code) listenLine
                     (generateHostBindingFix fw listenSnippet)])
         else [])"

definition nextjs_host_flag :: Issue where
  "nextjs_host_flag =
     \<lparr>issue_id = ''nextjs-host-flag'', severity = Error, issue_category = Host,
      issue_message = ''Next.js start script doesn't bind to 0.0.0.0'',
      issue_file = Some ''package.json'', issue_line = None,
      issue_fix =
        \<lparr>description = ''Add --hostname flag to Next.js start command'',
         before = Some ''\"start\": \"next start\"'',
         after = Some ''\"start\": \"next start --hostname 0.0.0.0 --port ${PORT-3000}\"'',
         steps = Some [''Update package.json scripts.start to include: --hostname 0.0.0.0'']\<rparr>\<rparr>"

definition host_file_step ::
    "fs_env \<Rightarrow> string \<Rightarrow> Framework \<Rightarrow> string \<Rightarrow> Issue list \<times> bool \<Rightarrow> Issue list \<times> bool" where
  "host_file_step env root fw filename st =
     (case st of
        (iss, foundHostIssues) \<Rightarrow>
          (case files env (join env root filename) of
             None \<Rightarrow> (iss, foundHostIssues)
           | Some code \<Rightarrow>
               (let fileIssues = scanFileForHostIssues code filename fw
                in if length fileIssues > 0 then (iss @ fileIssues, True)
                   else (iss, foundHostIssues))))"

definition checkHostBinding :: "fs_env \<Rightarrow> string \<Rightarrow> Framework \<Rightarrow> Issue list \<times> PassedCheck list" where
  "checkHostBinding env root fw =
     (case glob env (source_patterns fw)
             \<lparr>cwd = root, ignore = scan_ignore @ [''*.test.*'', ''*.spec.*''], maxDepth = 5\<rparr> of
        None \<Rightarrow> ([], [])
      | Some found \<Rightarrow>
          (let st1 = fold (host_file_step env root fw) (take 50 found) ([], False);
               st2 =
                 (if name fw = Nextjs
                  then (case start_script env root of
                          None \<Rightarrow> st1
                        | Some startScript \<Rightarrow>
                            if str_includes startScript ''next start''
                               \<and> \<not> str_includes startScript ''--hostname 0.0.0.0''
                               \<and> \<not> str_includes startScript ''-H 0.0.0.0''
                            then (fst st1 @ [nextjs_host_flag], True)
                            else st1)
                  else st1)
           in (fst st2,
               if \<not> snd st2
               then [\<lparr>passed_id = ''host-check'', passed_category = ''host'',
                      passed_message = ''Host binding configuration looks good''\<rparr>]
               else [])))"

section \<open>Start-command check (checks/startCommandCheck.ts)\<close>

definition generateStartScriptFix :: "Framework \<Rightarrow> FixSuggestion" where
  "generateStartScriptFix fw =
     (if name fw = Express
      then \<lparr>description = ''Add start script for Express'', before = None,
            after = Some ''\"scripts\": {\<newline>  \"start\": \"node server.js\"\<newline>}'',
            steps = Some [''Add to package.json: \"start\": \"node server.js\"'',
                          ''Replace server.js with your actual entry point file'']\<rparr>
      else if name fw = Nextjs
      then \<lparr>description = ''Add start and build scripts for Next.js'', before = None,
            after = Some (''\"scripts\": {\<newline>  \"start\": \"next start --hostname 0.0.0.0 --port ${PORT-3000}\",''
                          @ ''\<newline>  \"build\": \"next build\"\<newline>}''),
            steps = Some [''Add start script: \"next start --hostname 0.0.0.0 --port ${PORT-3000}\"'',
                          ''Add build script: \"next build\"'']\<rparr>
      else if name fw = Nestjs
      then \<lparr>description = ''Add start and build scripts for NestJS'', before = None,
            after = Some (''\"scripts\": {\<newline>  \"start\": \"node dist/main.js\",''
                          @ ''\<newline>  \"build\": \"nest build\"\<newline>}''),
            steps = Some [''Add start script: \"node dist/main.js\"'',
                          ''Add build script: \"nest build\"'']\<rparr>
      else \<lparr>description = ''Add start script to package.json'', before = None,
            after = Some ''\"scripts\": {\<newline>  \"start\": \"node index.js\"\<newline>}'',
            steps = Some [''Add a start script to package.json'']\<rparr>)"

definition generateProductionStartScript :: "Framework \<Rightarrow> string" where
  "generateProductionStartScript fw =
     (if name fw = Express then ''\"start\": \"node server.js\"''
      else if name fw = Nextjs then ''\"start\": \"next start --hostname 0.0.0.0 --port ${PORT-3000}\"''
      else if name fw = Nestjs then ''\"start\": \"node dist/main.js\"''
      else ''\"start\": \"node index.js\"'')"

definition generatePythonProcfileFix :: "Framework \<Rightarrow> FixSuggestion" where
  "generatePythonProcfileFix fw =
     (if name fw = Django
      then \<lparr>description = ''Create Procfile for Django'', before = None,
            after = Some ''web: gunicorn myproject.wsgi:application --bind 0.0.0.0:$PORT'',
            steps = Some [''Create a file named 'Procfile' (no extension)'',
                          ''Add: web: gunicorn myproject.wsgi:application --bind 0.0.0.0:$PORT'',
                          ''Replace 'myproject' with your Django project name'']\<rparr>
      else if name fw = Flask
      then \<lparr>description = ''Create Procfile for Flask'', before = None,
            after = Some ''web: gunicorn app:app --bind 0.0.0.0:$PORT'',
            steps = Some [''Create a file named 'Procfile' (no extension)'',
                          ''Add: web: gunicorn app:app --bind 0.0.0.0:$PORT'']\<rparr>
      else if name fw = Fastapi
      then \<lparr>description = ''Create Procfile for FastAPI'', before = None,
            after = Some ''web: uvicorn main:app --host 0.0.0.0 --port $PORT'',
            steps = Some [''Create a file named 'Procfile' (no extension)'',
                          ''Add: web: uvicorn main:app --host 0.0.0.0 --port $PORT'']\<rparr>
      else \<lparr>description = ''Create Procfile'', before = None, after = None,
            steps = Some [''Create a Procfile with your start command'']\<rparr>)"

definition start_issue :: "string \<Rightarrow> severity \<Rightarrow> string \<Rightarrow> string \<Rightarrow> FixSuggestion \<Rightarrow> Issue" where
  \<comment> \<open>an issue of the start-command category on a file, with no line\<close>
  "start_issue ident sev msg path fx =
     \<lparr>issue_id = ident, severity = sev, issue_category = StartCommand, issue_message = msg,
      issue_file = Some path, issue_line = None, issue_fix = fx\<rparr>"

definition start_script_issues :: "Framework \<Rightarrow> string \<Rightarrow> manifest \<Rightarrow> Issue list" where
  \<comment> \<open>the body of the \<open>try\<close> block, on the parsed manifest\<close>
  "start_script_issues fw packageJsonPath packageJson =
     (if \<not> truthy (scripts_start packageJson)
      then [start_issue ''no-start-script'' Error ''No \"start\" script found in package.json''
              packageJsonPath (generateStartScriptFix fw)]
      else
        (let startScript = (case scripts_start packageJson of None \<Rightarrow> [] | Some st \<Rightarrow> st);
             usedDevTool =
               find (\<lambda>tool. str_includes startScript tool)
                 [''nodemon'', ''ts-node-dev'', ''tsx --watch'', ''vite'']
         in (case usedDevTool of
               None \<Rightarrow> []
             | Some tool \<Rightarrow>
                 [start_issue ''dev-tools-in-production'' Error
                    (''Start script uses development tool: '' @ tool) packageJsonPath
                    \<lparr>description = ''Use production-ready start command'',
                     before = Some (''\"start\": \"'' @ startScript @ ''\"''),
                     after = Some (generateProductionStartScript fw),
                     steps = Some [''Remove development tools from start script'',
                                   ''Use node (not nodemon/ts-node-dev) for production'',
                                   ''If using TypeScript, build first then run with node'']\<rparr>])
            @ (if name fw = Nextjs \<and> \<not> str_includes startScript ''next start''
               then [start_issue ''nextjs-wrong-start'' Error
                       ''Next.js project should use 'next start' in production'' packageJsonPath
                       \<lparr>description = ''Use next start for production'',
                        before = Some (''\"start\": \"'' @ startScript @ ''\"''),
                        after = Some ''\"start\": \"next start --hostname 0.0.0.0 --port ${PORT-3000}\"'',
                        steps = Some [''Update start script to: \"next start --hostname 0.0.0.0 --port ${PORT-3000}\"'',
                                      ''Ensure you have a build script: \"build\": \"next build\"'']\<rparr>]
               else [])
            @ (if name fw = Nestjs \<and> str_includes startScript ''nest start''
                  \<and> \<not> str_includes startScript ''nest start --watch''
                  \<and> (case scripts_build packageJson of
                         None \<Rightarrow> True
                       | Some b \<Rightarrow> b = [] \<or> \<not> str_includes b ''nest build'')
               then [start_issue ''nestjs-no-build'' Warning
                       ''NestJS project should have a build script'' packageJsonPath
                       \<lparr>description = ''Add build script for NestJS'', before = None,
                        after = Some ''\"build\": \"nest build\"'',
                        steps = Some [''Add to package.json scripts: \"build\": \"nest build\"'']\<rparr>]
               else [])))
     @ (if name fw = Nextjs \<and> \<not> truthy (scripts_build packageJson)
        then [start_issue ''no-build-script'' Error ''Next.js project missing build script''
                packageJsonPath
                \<lparr>description = ''Add build script for Next.js'', before = None,
                 after = Some ''\"build\": \"next build\"'',
                 steps = Some [''Add to package.json scripts: \"build\": \"next build\"'']\<rparr>]
        else [])"

definition node_start_issues :: "fs_env \<Rightarrow> string \<Rightarrow> Framework \<Rightarrow> Issue list" where
  \<comment> \<open>the manifest is read and parsed inside \<open>try\<close>: a failed read is reported like a syntax
      error\<close>
  "node_start_issues env root fw =
     (let packageJsonPath = join env root ''package.json'';
          invalid =
            [start_issue ''invalid-package-json'' Error
               ''package.json is invalid or cannot be parsed'' packageJsonPath
               \<lparr>description = ''Fix package.json syntax'', before = None, after = None,
                steps = Some [''Validate JSON syntax in package.json'',
                              ''Ensure all quotes and brackets are properly closed'']\<rparr>]
      in if \<not> existsSync env packageJsonPath
         then [start_issue ''no-package-json'' Error ''No package.json found'' packageJsonPath
                 \<lparr>description = ''Create a package.json file'', before = None, after = None,
                  steps = Some [''Run: npm init -y'', ''Add a start script to package.json'']\<rparr>]
         else (case files env packageJsonPath of
                 None \<Rightarrow> invalid
               | Some txt \<Rightarrow>
                   (case JSON_parse env txt of
                      None \<Rightarrow> invalid
                    | Some packageJson \<Rightarrow> start_script_issues fw packageJsonPath packageJson)))"

definition python_start_issues :: "fs_env \<Rightarrow> string \<Rightarrow> Framework \<Rightarrow> error + Issue list" where
  \<comment> \<open>both files are read with no \<open>try\<close> around the read\<close>
  "python_start_issues env root fw =
     (let procfilePath = join env root ''Procfile''; requirementsPath = join env root ''requirements.txt''
      in and_then
           (if \<not> existsSync env procfilePath
            then Inr [start_issue ''python-no-procfile'' Warning
                        ''Python project should have a Procfile for Railway'' procfilePath
                        (generatePythonProcfileFix fw)]
            else and_then (readFileSync env procfilePath)
                   (\<lambda>procfile.
                      if name fw = Django \<and> \<not> str_includes procfile ''gunicorn''
                      then Inr [start_issue ''django-no-gunicorn'' Error
                                  ''Django should use gunicorn in production'' procfilePath
                                  \<lparr>description = ''Use gunicorn for Django production server'',
                                   before = None,
                                   after = Some ''web: gunicorn myproject.wsgi:application --bind 0.0.0.0:$PORT'',
                                   steps = Some [''Add gunicorn to requirements.txt'',
                                                 ''Create/update Procfile with gunicorn command'']\<rparr>]
                      else Inr []))
           (\<lambda>procfileIssues.
              if existsSync env requirementsPath
              then and_then (readFileSync env requirementsPath)
                     (\<lambda>requirements.
                        if name fw = Django \<and> \<not> str_includes requirements ''gunicorn''
                        then Inr (procfileIssues
                                  @ [start_issue ''django-no-gunicorn-requirement'' Error
                                       ''gunicorn not found in requirements.txt'' requirementsPath
                                       \<lparr>description = ''Add gunicorn to requirements.txt'', before = None,
                                        after = Some ''gunicorn'',
                                        steps = Some [''Add 'gunicorn' to requirements.txt'']\<rparr>])
                        else Inr procfileIssues)
              else Inr procfileIssues))"

definition checkStartCommand :: "fs_env \<Rightarrow> string \<Rightarrow> Framework \<Rightarrow> error + Issue list" where
  \<comment> \<open>the Node branch and the Python branch exclude each other, so the early \<open>return\<close> of the
      Node branch skips nothing that would run\<close>
  "checkStartCommand env root fw =
     (if name fw \<in> set [Express, Nextjs, Nestjs] then Inr (node_start_issues env root fw)
      else if name fw \<in> set [Django, Flask, Fastapi] then python_start_issues env root fw
      else Inr [])"

section \<open>Environment-variable check (checks/envVarsCheck.ts)\<close>

definition is_quote :: "char \<Rightarrow> bool" where
  \<comment> \<open>the class \<open>['"]\<close>\<close>
  "is_quote c = (c = CHR 0x27 \<or> c = CHR 0x22)"

definition jsEnvRegex :: "string matcher" where
  \<comment> \<open>\<open>/process\.env\.(\w+)/g\<close>\<close>
  "jsEnvRegex s =
     (case strip_prefix ''process.env.'' s of
        None \<Rightarrow> None
      | Some r \<Rightarrow>
          if takeWhile is_word r = [] then None
          else Some (takeWhile is_word r, length s - length (dropWhile is_word r)))"

definition quoted_word_then :: "string \<Rightarrow> string \<Rightarrow> string \<Rightarrow> (string \<times> nat) option" where
  \<comment> \<open>the tail \<open>['"](\w+)['"]\<close> followed by the literal \<open>close\<close>, of a pattern that has matched
      all of \<open>s\<close> but \<open>r\<close>\<close>
  "quoted_word_then close s r =
     (case r of
        [] \<Rightarrow> None
      | q # r1 \<Rightarrow>
          if \<not> is_quote q \<or> takeWhile is_word r1 = [] then None
          else (case dropWhile is_word r1 of
                  [] \<Rightarrow> None
                | q' # r2 \<Rightarrow>
                    if \<not> is_quote q' then None
                    else (case strip_prefix close r2 of
                            None \<Rightarrow> None
                          | Some r3 \<Rightarrow> Some (takeWhile is_word r1, length s - length r3))))"

definition pyEnvRegex :: "string matcher" where
  \<comment> \<open>\<open>/os\.(?:environ\.get|getenv)\(['"](\w+)['"]\)/g\<close>\<close>
  "pyEnvRegex s =
     (case strip_prefix ''os.'' s of
        None \<Rightarrow> None
      | Some r0 \<Rightarrow>
          (case strip_any [''environ.get'', ''getenv''] r0 of
             None \<Rightarrow> None
           | Some r1 \<Rightarrow>
               (case strip_prefix ''('' r1 of
                  None \<Rightarrow> None
                | Some r2 \<Rightarrow> quoted_word_then '')'' s r2)))"

definition pyEnvBracketRegex :: "string matcher" where
  \<comment> \<open>\<open>/os\.environ\[['"](\w+)['"]\]/g\<close>\<close>
  "pyEnvBracketRegex s =
     (case strip_prefix ''os.environ['' s of
        None \<Rightarrow> None
      | Some r \<Rightarrow> quoted_word_then '']'' s r)"

definition set_add :: "'a \<Rightarrow> 'a list \<Rightarrow> 'a list" where
  \<comment> \<open>\<open>Set.add\<close>: a JavaScript set keeps its elements in insertion order\<close>
  "set_add x xs = (if x \<in> set xs then xs else xs @ [x])"

definition add_matches :: "string matcher \<Rightarrow> string \<Rightarrow> string list \<Rightarrow> string list" where
  "add_matches regex content envVars =
     fold (\<lambda>(index, v) acc. if v \<noteq> [] then set_add v acc else acc) (exec_all regex 0 0 content) envVars"

definition env_file_step :: "fs_env \<Rightarrow> string \<Rightarrow> string \<Rightarrow> string list \<Rightarrow> string list" where
  "env_file_step env root filename envVars =
     (case files env (join env root filename) of
        None \<Rightarrow> envVars
      | Some content \<Rightarrow>
          add_matches pyEnvBracketRegex content
            (add_matches pyEnvRegex content (add_matches jsEnvRegex content envVars)))"

definition findEnvVarReferences :: "fs_env \<Rightarrow> string \<Rightarrow> Framework \<Rightarrow> string list" where
  "findEnvVarReferences env root fw =
     (case glob env (source_patterns fw) \<lparr>cwd = root, ignore = scan_ignore, maxDepth = 5\<rparr> of
        None \<Rightarrow> []
      | Some found \<Rightarrow> fold (env_file_step env root) (take 50 found) [])"

definition env_file_not_ignored :: "string \<Rightarrow> Issue" where
  "env_file_not_ignored gitignorePath =
     \<lparr>issue_id = ''env-file-not-ignored'', severity = Warning, issue_category = EnvVars,
      issue_message = ''.env file exists but is not in .gitignore (security risk)'',
      issue_file = Some gitignorePath, issue_line = None,
      issue_fix =
        \<lparr>description = ''Add .env to .gitignore to prevent committing secrets'',
         before = None, after = Some ''.env'',
         steps = Some [''Add '.env' to your .gitignore file'',
                       ''Never commit .env files to version control'',
                       ''Use Railway environment variables instead'']\<rparr>\<rparr>"

definition env_vars_needed :: "string list \<Rightarrow> string list \<Rightarrow> Issue" where
  "env_vars_needed envVars otherVars =
     \<lparr>issue_id = ''env-vars-needed'', severity = Info, issue_category = EnvVars,
      issue_message =
        ''Found '' @ show_nat (length envVars) @ '' environment variable''
          @ (if length envVars > 1 then ''s'' else []) @ '' in your code'',
      issue_file = None, issue_line = None,
      issue_fix =
        \<lparr>description = ''Set these environment variables in Railway'',
         before = None, after = None,
         steps = Some [''Environment variables detected: '' @ join_with '', '' (take 10 otherVars)
                         @ (if length otherVars > 10 then ''...'' else []),
                       ''Go to your Railway project settings'',
                       ''Add each variable in the Variables section'',
                       ''Railway will inject these at runtime'']\<rparr>\<rparr>"

definition secrets_hygiene :: "fs_env \<Rightarrow> string \<Rightarrow> error + Issue list \<times> PassedCheck list" where
  \<comment> \<open>the two \<open>if\<close> statements on \<open>.env\<close> and \<open>.gitignore\<close>; \<open>.gitignore\<close> is read with no \<open>try\<close>
      around the read\<close>
  "secrets_hygiene env root =
     (let dotEnvPath = join env root ''.env''; gitignorePath = join env root ''.gitignore'';
          hasDotEnv = existsSync env dotEnvPath; hasGitignore = existsSync env gitignorePath
      in and_then
           (if hasDotEnv \<and> hasGitignore
            then and_then (readFileSync env gitignorePath)
                   (\<lambda>gitignoreContent.
                      if \<not> str_includes gitignoreContent ''.env''
                      then Inr ([env_file_not_ignored gitignorePath], [])
                      else Inr ([], [\<lparr>passed_id = ''env-file-ignored'', passed_category = ''env-vars'',
                                       passed_message =
                                         ''.env file is properly ignored in .gitignore''\<rparr>]))
            else Inr ([], []))
           (\<lambda>both.
              Inr (fst both,
                   snd both
                     @ (if \<not> hasDotEnv \<and> \<not> hasGitignore
                        then [\<lparr>passed_id = ''no-env-file'', passed_category = ''env-vars'',
                               passed_message =
                                 ''No .env file found (good - use Railway environment variables)''\<rparr>]
                        else []))))"

definition checkEnvVars ::
  "fs_env \<Rightarrow> string \<Rightarrow> Framework \<Rightarrow> error + Issue list \<times> PassedCheck list" where
  "checkEnvVars env root fw =
     (let envVars = findEnvVarReferences env root fw;
          otherVars =
            filter (\<lambda>v. v \<notin> set [''PORT'', ''NODE_ENV'', ''DATABASE_URL''] \<and> \<not> str_includes v ''npm_'')
              envVars
      in and_then (secrets_hygiene env root)
           (\<lambda>hygiene.
              Inr (fst hygiene
                     @ (if length envVars > 0 \<and> length otherVars > 0
                        then [env_vars_needed envVars otherVars]
                        else []),
                   snd hygiene)))"

section \<open>Database-configuration check (checks/databaseCheck.ts)\<close>

definition dedupe :: "'a list \<Rightarrow> 'a list" where
  \<comment> \<open>\<open>[...new Set(xs)]\<close>: the first occurrence of each element, in order\<close>
  "dedupe xs = fold set_add xs []"

definition dbLibs :: "(string \<times> string) list" where
  "dbLibs =
     [(''pg'', ''PostgreSQL''), (''postgres'', ''PostgreSQL''), (''mysql'', ''MySQL''),
      (''mysql2'', ''MySQL''), (''mongodb'', ''MongoDB''), (''mongoose'', ''MongoDB''),
      (''@prisma/client'', ''Prisma''), (''prisma'', ''Prisma''), (''typeorm'', ''TypeORM''),
      (''sequelize'', ''Sequelize''), (''knex'', ''Knex'')]"

definition node_libraries :: "fs_env \<Rightarrow> string \<Rightarrow> string list" where
  \<comment> \<open>the manifest is read and parsed inside \<open>try\<close>: a failed read gives no library\<close>
  "node_libraries env root =
     (case files env (join env root ''package.json'') of
        None \<Rightarrow> []
      | Some txt \<Rightarrow>
          (case JSON_parse env txt of
             None \<Rightarrow> []
           | Some packageJson \<Rightarrow>
               (let deps = dependencies packageJson ++ devDependencies packageJson
                in map snd (filter (\<lambda>(lib, label). truthy (deps lib)) dbLibs))))"

definition python_libraries :: "fs_env \<Rightarrow> string \<Rightarrow> error + string list" where
  \<comment> \<open>the dependency list is read with no \<open>try\<close> around the read\<close>
  "python_libraries env root =
     (if existsSync env (join env root ''requirements.txt'')
      then and_then (readFileSync env (join env root ''requirements.txt''))
             (\<lambda>txt.
                let requirements = toLowerCase txt
                in Inr ((if str_includes requirements ''psycopg'' \<or> str_includes requirements ''pg8000''
                         then [''PostgreSQL''] else [])
                        @ (if str_includes requirements ''pymongo'' then [''MongoDB''] else [])
                        @ (if str_includes requirements ''mysqlclient''
                              \<or> str_includes requirements ''pymysql''
                           then [''MySQL''] else [])
                        @ (if str_includes requirements ''sqlalchemy'' then [''SQLAlchemy''] else [])))
      else Inr [])"

definition detectDatabaseLibraries :: "fs_env \<Rightarrow> string \<Rightarrow> Framework \<Rightarrow> error + string list" where
  "detectDatabaseLibraries env root fw =
     and_then (if name fw \<in> set [Django, Flask, Fastapi] then python_libraries env root else Inr [])
       (\<lambda>pythonLibraries.
          Inr (dedupe
                 ((if name fw \<in> set [Express, Nextjs, Nestjs] then node_libraries env root else [])
                  @ pythonLibraries)))"

definition ascii_lower :: "char \<Rightarrow> char" where
  \<comment> \<open>the case folding of the \<open>i\<close> flag on the letters of the source's patterns: A to Z\<close>
  "ascii_lower c =
     (case map_of (zip ''ABCDEFGHIJKLMNOPQRSTUVWXYZ'' ''abcdefghijklmnopqrstuvwxyz'') c of
        None \<Rightarrow> c
      | Some l \<Rightarrow> l)"

fun strip_prefix_ci :: "string \<Rightarrow> string \<Rightarrow> string option" where
  "strip_prefix_ci [] s = Some s"
| "strip_prefix_ci (p # ps) [] = None"
| "strip_prefix_ci (p # ps) (c # cs) =
     (if ascii_lower p = ascii_lower c then strip_prefix_ci ps cs else None)"

definition strip_lit :: "bool \<Rightarrow> string \<Rightarrow> string \<Rightarrow> string option" where
  "strip_lit ci lit s = (if ci then strip_prefix_ci lit s else strip_prefix lit s)"

definition opt_quote :: "string \<Rightarrow> string" where
  \<comment> \<open>\<open>['"]?\<close> at the end of a pattern\<close>
  "opt_quote r = (case r of [] \<Rightarrow> [] | q # r' \<Rightarrow> if is_quote q then r' else r)"

definition optQuotedLiteral :: "bool \<Rightarrow> string \<Rightarrow> unit matcher" where
  \<comment> \<open>\<open>/['"]?lit['"]?/\<close>, with the \<open>i\<close> flag when \<open>ci\<close>: the leading quote is taken when the
      literal follows it, and left when the literal starts here\<close>
  "optQuotedLiteral ci lit s =
     (case (case s of [] \<Rightarrow> None | q # s' \<Rightarrow> if is_quote q then strip_lit ci lit s' else None) of
        Some r \<Rightarrow> Some ((), length s - length (opt_quote r))
      | None \<Rightarrow>
          (case strip_lit ci lit s of
             None \<Rightarrow> None
           | Some r \<Rightarrow> Some ((), length s - length (opt_quote r))))"

definition hostAssignment :: "string \<Rightarrow> unit matcher" where
  \<comment> \<open>\<open>/host\s*[:=]\s*['"]lit['"]/i\<close>\<close>
  "hostAssignment lit s =
     (case strip_prefix_ci ''host'' s of
        None \<Rightarrow> None
      | Some r1 \<Rightarrow>
          (case dropWhile is_space r1 of
             [] \<Rightarrow> None
           | c # r2 \<Rightarrow>
               if c \<noteq> CHR '':'' \<and> c \<noteq> CHR ''='' then None
               else (case dropWhile is_space r2 of
                       [] \<Rightarrow> None
                     | q # r3 \<Rightarrow>
                         if \<not> is_quote q then None
                         else (case strip_prefix_ci lit r3 of
                                 None \<Rightarrow> None
                               | Some r4 \<Rightarrow>
                                   (case r4 of
                                      [] \<Rightarrow> None
                                    | q' # r5 \<Rightarrow>
                                        if is_quote q' then Some ((), length s - length r5)
                                        else None)))))"

definition localhostPatterns :: "unit matcher list" where
  "localhostPatterns =
     [optQuotedLiteral True ''localhost'', optQuotedLiteral False ''127.0.0.1'',
      hostAssignment ''localhost'', hostAssignment ''127.0.0.1'']"

definition localhost_line :: "string \<Rightarrow> bool" where
  \<comment> \<open>the test of the inner loop over the patterns, on a non-empty line\<close>
  "localhost_line ln =
     ((\<exists>pattern \<in> set localhostPatterns. regex_test pattern ln)
      \<and> (str_includes ln ''connect'' \<or> str_includes ln ''host'' \<or> str_includes ln ''DATABASES''
         \<or> str_includes ln ''createConnection''))"

type_synonym localhost_state = "bool \<times> string option \<times> nat option"
  \<comment> \<open>hasLocalhost, localhostFile, localhostLine\<close>

fun line_loop :: "string \<Rightarrow> nat \<Rightarrow> string list \<Rightarrow> localhost_state \<Rightarrow> localhost_state" where
  \<comment> \<open>the loop over the lines of one file, from line index \<open>i\<close>: an empty line is passed over by
      \<open>continue\<close>, and after any other line the loop stops once \<open>hasLocalhost\<close> is set, also when
      an earlier file has set it\<close>
  "line_loop filename i [] st = st"
| "line_loop filename i (ln # lns) st =
     (if ln = [] then line_loop filename (Suc i) lns st
      else (let st' = (if localhost_line ln then (True, Some filename, Some (i + 1)) else st)
            in if fst st' then st' else line_loop filename (Suc i) lns st'))"

text \<open>The local variables of the scan; \<open>hasDbUrl\<close> is the source's \<open>hasDatabaseUrl\<close>.\<close>

record db_state =
  hasLocalhost :: bool
  hasSocketConnection :: bool
  hasDbUrl :: bool
  localhostFile :: "string option"
  localhostLine :: "nat option"

definition db_file_step :: "fs_env \<Rightarrow> string \<Rightarrow> string \<Rightarrow> db_state \<Rightarrow> db_state" where
  "db_file_step env root filename st =
     (case files env (join env root filename) of
        None \<Rightarrow> st
      | Some content \<Rightarrow>
          (case line_loop filename 0 (split_lines content)
                  (hasLocalhost st, localhostFile st, localhostLine st) of
             (h, f, l) \<Rightarrow>
               \<lparr>hasLocalhost = h,
                hasSocketConnection =
                  (hasSocketConnection st \<or> str_includes content ''/var/run/postgresql''
                   \<or> str_includes content ''/tmp/mysql.sock''),
                hasDbUrl =
                  (hasDbUrl st \<or> str_includes content ''DATABASE_URL''
                   \<or> str_includes content ''database_url''),
                localhostFile = f, localhostLine = l\<rparr>))"

definition database_localhost :: "fs_env \<Rightarrow> string \<Rightarrow> string list \<Rightarrow> db_state \<Rightarrow> Issue" where
  "database_localhost env root dbLibraries st =
     \<lparr>issue_id = ''database-localhost'', severity = Error, issue_category = Database,
      issue_message = ''Database connection uses localhost, which won't work on Railway'',
      issue_file =
        (case localhostFile st of None \<Rightarrow> None
         | Some f \<Rightarrow> if f = [] then None else Some (join env root f)),
      issue_line = localhostLine st,
      issue_fix =
        \<lparr>description = ''Use DATABASE_URL environment variable for database connection'',
         before = Some (''host: 'localhost'' @ [CHR 0x27]),
         after = Some ''connectionString: process.env.DATABASE_URL'',
         steps = Some [''Replace hardcoded localhost with DATABASE_URL env var'',
                       ''Railway provides DATABASE_URL automatically when you add a database'',
                       ''Example for '' @ join_with ''/'' dbLibraries @ '':'',
                       ''  const client = new Client({ connectionString: process.env.DATABASE_URL })'']\<rparr>\<rparr>"

definition database_socket :: Issue where
  "database_socket =
     \<lparr>issue_id = ''database-socket'', severity = Error, issue_category = Database,
      issue_message = ''Database connection uses Unix socket, which won't work on Railway'',
      issue_file = None, issue_line = None,
      issue_fix =
        \<lparr>description = ''Use TCP connection with DATABASE_URL instead of Unix socket'',
         before = None, after = None,
         steps = Some [''Remove socket file paths from database configuration'',
                       ''Use DATABASE_URL environment variable'',
                       ''Railway databases use TCP connections, not Unix sockets'']\<rparr>\<rparr>"

definition database_url_recommended :: "string list \<Rightarrow> Issue" where
  "database_url_recommended dbLibraries =
     \<lparr>issue_id = ''database-url-recommended'', severity = Info, issue_category = Database,
      issue_message =
        ''Detected '' @ join_with '', '' dbLibraries @ '' - ensure you're using DATABASE_URL on Railway'',
      issue_file = None, issue_line = None,
      issue_fix =
        \<lparr>description = ''Use DATABASE_URL environment variable'',
         before = None, after = None,
         steps = Some [''Add a database service in your Railway project'',
                       ''Railway will automatically inject DATABASE_URL'',
                       ''Use this variable in your database connection code'']\<rparr>\<rparr>"

definition findDatabaseConnectionIssues ::
    "fs_env \<Rightarrow> string \<Rightarrow> Framework \<Rightarrow> string list \<Rightarrow> Issue list" where
  "findDatabaseConnectionIssues env root fw dbLibraries =
     (case glob env (source_patterns fw) \<lparr>cwd = root, ignore = scan_ignore, maxDepth = 5\<rparr> of
        None \<Rightarrow> []
      | Some found \<Rightarrow>
          (let st = fold (db_file_step env root) (take 30 found)
                      \<lparr>hasLocalhost = False, hasSocketConnection = False, hasDbUrl = False,
                       localhostFile = None, localhostLine = None\<rparr>
           in (if hasLocalhost st \<and> \<not> hasDbUrl st
               then [database_localhost env root dbLibraries st] else [])
              @ (if hasSocketConnection st then [database_socket] else [])
              @ (if length dbLibraries > 0 \<and> \<not> hasDbUrl st \<and> \<not> hasLocalhost st
                 then [database_url_recommended dbLibraries] else [])))"

definition checkDatabaseConfig ::
  "fs_env \<Rightarrow> string \<Rightarrow> Framework \<Rightarrow> error + Issue list \<times> PassedCheck list" where
  "checkDatabaseConfig env root fw =
     and_then (detectDatabaseLibraries env root fw)
       (\<lambda>dbLibraries.
          if length dbLibraries = 0
          then Inr ([], [\<lparr>passed_id = ''no-database'', passed_category = ''database'',
                          passed_message = ''No database libraries detected''\<rparr>])
          else (let connectionIssues = findDatabaseConnectionIssues env root fw dbLibraries
                in Inr (connectionIssues,
                        if length connectionIssues = 0
                        then [\<lparr>passed_id = ''database-config-ok'', passed_category = ''database'',
                               passed_message = ''Database configuration looks good''\<rparr>]
                        else [])))"

section \<open>Python source analysis (scanner/pythonAnalyzer.ts)\<close>

record DjangoSettings =
  allowedHosts :: "string list"
  debug :: "bool option"
  hasWhitenoise :: bool
  hasDatabaseUrl :: bool
  hasStaticRoot :: bool
  csrfTrustedOrigins :: "string list"

record PythonFileAnalysis =
  hasFlaskApp :: bool
  hasFastAPIApp :: bool
  djangoSettings :: "DjangoSettings option"
  py_imports :: "string list"

definition is_module_char :: "char \<Rightarrow> bool" where
  \<comment> \<open>the class \<open>[a-zA-Z0-9_.]\<close>\<close>
  "is_module_char c = (is_word c \<or> c = CHR ''.'')"

definition importRegex :: "string matcher" where
  \<comment> \<open>\<open>/^(?:from|import)\s+([a-zA-Z0-9_.]+)/\<close>, tried at the start of a line only\<close>
  "importRegex s =
     (case strip_any [''from'', ''import''] s of
        None \<Rightarrow> None
      | Some r1 \<Rightarrow>
          (let r2 = dropWhile is_space r1
           in if length r2 = length r1 \<or> takeWhile is_module_char r2 = [] then None
              else Some (takeWhile is_module_char r2,
                         length s - length (dropWhile is_module_char r2))))"

definition assignCallRegex :: "string \<Rightarrow> unit matcher" where
  \<comment> \<open>\<open>/app\s*=\s*Ctor\s*\(/\<close> for the constructor name \<open>Ctor\<close>\<close>
  "assignCallRegex ctor s =
     (case strip_prefix ''app'' s of
        None \<Rightarrow> None
      | Some r1 \<Rightarrow>
          (case strip_prefix ''='' (dropWhile is_space r1) of
             None \<Rightarrow> None
           | Some r2 \<Rightarrow>
               (case strip_prefix ctor (dropWhile is_space r2) of
                  None \<Rightarrow> None
                | Some r3 \<Rightarrow>
                    (case strip_prefix ''('' (dropWhile is_space r3) of
                       None \<Rightarrow> None
                     | Some r4 \<Rightarrow> Some ((), length s - length r4)))))"

definition listSettingRegex :: "string \<Rightarrow> string matcher" where
  \<comment> \<open>\<open>/NAME\s*=\s*\[([^\]]*)\]/s\<close>\<close>
  "listSettingRegex setting s =
     (case strip_prefix setting s of
        None \<Rightarrow> None
      | Some r1 \<Rightarrow>
          (case strip_prefix ''='' (dropWhile is_space r1) of
             None \<Rightarrow> None
           | Some r2 \<Rightarrow>
               (case strip_prefix ''['' (dropWhile is_space r2) of
                  None \<Rightarrow> None
                | Some r3 \<Rightarrow>
                    (case strip_prefix '']'' (dropWhile (\<lambda>c. c \<noteq> CHR '']'') r3) of
                       None \<Rightarrow> None
                     | Some r4 \<Rightarrow>
                         Some (takeWhile (\<lambda>c. c \<noteq> CHR '']'') r3, length s - length r4)))))"

definition quotedItemRegex :: "string matcher" where
  \<comment> \<open>\<open>/['"]([^'"]+)['"]/g\<close>, capturing the whole match\<close>
  "quotedItemRegex s =
     (case s of
        [] \<Rightarrow> None
      | q # r1 \<Rightarrow>
          if \<not> is_quote q \<or> takeWhile (\<lambda>c. \<not> is_quote c) r1 = [] then None
          else (case dropWhile (\<lambda>c. \<not> is_quote c) r1 of
                  [] \<Rightarrow> None
                | q' # r2 \<Rightarrow> Some (take (length s - length r2) s, length s - length r2)))"

definition list_items :: "string \<Rightarrow> string list" where
  \<comment> \<open>\<open>str.match(/['"]([^'"]+)['"]/g)\<close>, each match with its quotes removed; no match leaves
      the empty default\<close>
  "list_items str = map (\<lambda>(index, h). filter (\<lambda>c. \<not> is_quote c) h) (exec_all quotedItemRegex 0 0 str)"

definition debugRegex :: "string matcher" where
  \<comment> \<open>\<open>/DEBUG\s*=\s*(True|False)/\<close>\<close>
  "debugRegex s =
     (case strip_prefix ''DEBUG'' s of
        None \<Rightarrow> None
      | Some r1 \<Rightarrow>
          (case strip_prefix ''='' (dropWhile is_space r1) of
             None \<Rightarrow> None
           | Some r2 \<Rightarrow>
               (case strip_prefix ''True'' (dropWhile is_space r2) of
                  Some r3 \<Rightarrow> Some (''True'', length s - length r3)
                | None \<Rightarrow>
                    (case strip_prefix ''False'' (dropWhile is_space r2) of
                       Some r3 \<Rightarrow> Some (''False'', length s - length r3)
                     | None \<Rightarrow> None))))"

definition staticRootRegex :: "unit matcher" where
  \<comment> \<open>\<open>/STATIC_ROOT\s*=/\<close>\<close>
  "staticRootRegex s =
     (case strip_prefix ''STATIC_ROOT'' s of
        None \<Rightarrow> None
      | Some r1 \<Rightarrow>
          (case strip_prefix ''='' (dropWhile is_space r1) of
             None \<Rightarrow> None
           | Some r2 \<Rightarrow> Some ((), length s - length r2)))"

definition parseDjangoSettings :: "string \<Rightarrow> DjangoSettings" where
  "parseDjangoSettings content =
     \<lparr>allowedHosts =
        (case find_first (listSettingRegex ''ALLOWED_HOSTS'') content of
           None \<Rightarrow> []
         | Some (index, hostsStr, len) \<Rightarrow> list_items hostsStr),
      debug =
        (case find_first debugRegex content of
           None \<Rightarrow> None
         | Some (index, v, len) \<Rightarrow> Some (v = ''True'')),
      hasWhitenoise = str_includes content ''whitenoise'',
      hasDatabaseUrl =
        (str_includes content ''DATABASE_URL'' \<or> str_includes content ''dj_database_url''
         \<or> str_includes content ''dj-database-url''),
      hasStaticRoot = regex_test staticRootRegex content,
      csrfTrustedOrigins =
        (case find_first (listSettingRegex ''CSRF_TRUSTED_ORIGINS'') content of
           None \<Rightarrow> []
         | Some (index, originsStr, len) \<Rightarrow> list_items originsStr)\<rparr>"

definition analyzePythonFile :: "fs_env \<Rightarrow> string \<Rightarrow> error + PythonFileAnalysis" where
  \<comment> \<open>a file that exists is read with no \<open>try\<close> around the read\<close>
  "analyzePythonFile env filePath =
     (if \<not> existsSync env filePath
      then Inr \<lparr>hasFlaskApp = False, hasFastAPIApp = False, djangoSettings = None, py_imports = []\<rparr>
      else and_then (readFileSync env filePath)
             (\<lambda>content.
                Inr \<lparr>hasFlaskApp = regex_test (assignCallRegex ''Flask'') content,
                     hasFastAPIApp = regex_test (assignCallRegex ''FastAPI'') content,
                     djangoSettings =
                       (if str_includes filePath ''settings.py'' then Some (parseDjangoSettings content)
                        else None),
                     py_imports =
                       concat (map (\<lambda>ln. case importRegex ln of None \<Rightarrow> [] | Some (m, len) \<Rightarrow> [m])
                                 (split_lines content))\<rparr>))"

definition python_ignore :: "string list" where
  "python_ignore = [''venv/**'', ''env/**'', ''.venv/**'', ''node_modules/**'']"

definition findDjangoSettings :: "fs_env \<Rightarrow> string \<Rightarrow> string option" where
  "findDjangoSettings env root =
     (case glob env [''**/settings.py''] \<lparr>cwd = root, ignore = python_ignore, maxDepth = 3\<rparr> of
        None \<Rightarrow> None
      | Some found \<Rightarrow> (case found of [] \<Rightarrow> None | f # _ \<Rightarrow> Some (join env root f)))"

definition findPythonMainFile :: "fs_env \<Rightarrow> string \<Rightarrow> string list \<Rightarrow> string option" where
  "findPythonMainFile env root candidates =
     (case first_existing env root candidates of
        Some candidate \<Rightarrow> Some (join env root candidate)
      | None \<Rightarrow>
          (case glob env [''**/{app,main,wsgi,application}.py'']
                  \<lparr>cwd = root, ignore = python_ignore, maxDepth = 3\<rparr> of
             None \<Rightarrow> None
           | Some found \<Rightarrow> (case found of [] \<Rightarrow> None | f # _ \<Rightarrow> Some (join env root f))))"

section \<open>Framework-specific checks (frameworks/django.ts, flask.ts, fastapi.ts)\<close>

definition mk_issue ::
    "string \<Rightarrow> severity \<Rightarrow> category \<Rightarrow> string \<Rightarrow> string option \<Rightarrow> FixSuggestion \<Rightarrow> Issue" where
  \<comment> \<open>an issue with no line number\<close>
  "mk_issue ident sev cat msg path fx =
     \<lparr>issue_id = ident, severity = sev, issue_category = cat, issue_message = msg,
      issue_file = path, issue_line = None, issue_fix = fx\<rparr>"

definition mk_fix :: "string \<Rightarrow> string option \<Rightarrow> string option \<Rightarrow> string list \<Rightarrow> FixSuggestion" where
  "mk_fix d b a st = \<lparr>description = d, before = b, after = a, steps = Some st\<rparr>"

definition mk_passed :: "string \<Rightarrow> string \<Rightarrow> string \<Rightarrow> PassedCheck" where
  "mk_passed ident cat msg = \<lparr>passed_id = ident, passed_category = cat, passed_message = msg\<rparr>"

definition django_no_settings :: Issue where
  "django_no_settings =
     mk_issue ''django-no-settings'' Error StartCommand ''Django settings.py file not found'' None
       (mk_fix ''Ensure your Django project has a settings.py file'' None None
          [''Verify your Django project structure is correct'',
           ''settings.py should be in your Django app directory''])"

definition django_allowed_hosts ::
    "string \<Rightarrow> DjangoSettings \<Rightarrow> Issue list \<times> PassedCheck list" where
  "django_allowed_hosts settingsPath settings =
     (if length (allowedHosts settings) = 0
         \<or> (length (allowedHosts settings) = 1 \<and> allowedHosts settings ! 0 = [])
      then ([mk_issue ''django-empty-allowed-hosts'' Error Host
               ''ALLOWED_HOSTS is empty - Django will reject all requests on Railway''
               (Some settingsPath)
               (mk_fix ''Add Railway domains to ALLOWED_HOSTS'' (Some ''ALLOWED_HOSTS = []'')
                  (Some ''ALLOWED_HOSTS = ['*']  # Or specify Railway domain'')
                  [''Update ALLOWED_HOSTS in settings.py'',
                   ''Use ['*'] for wildcard or add your Railway domain'',
                   ''Example: ALLOWED_HOSTS = ['.railway.app', 'yourdomain.com']''])], [])
      else if ''*'' \<notin> set (allowedHosts settings)
              \<and> \<not> (\<exists>h \<in> set (allowedHosts settings). str_includes h ''railway.app'')
      then ([mk_issue ''django-no-railway-hosts'' Warning Host
               ''ALLOWED_HOSTS doesn't include Railway domains'' (Some settingsPath)
               (mk_fix ''Add Railway domains to ALLOWED_HOSTS'' None None
                  [''Add '.railway.app' to ALLOWED_HOSTS'',
                   ''Or use ['*'] to allow all hosts'',
                   ''Current hosts: '' @ join_with '', '' (allowedHosts settings)])], [])
      else ([], [mk_passed ''django-allowed-hosts'' ''host'' ''ALLOWED_HOSTS configured correctly'']))"

definition django_debug :: "string \<Rightarrow> DjangoSettings \<Rightarrow> Issue list \<times> PassedCheck list" where
  "django_debug settingsPath settings =
     (case debug settings of
        Some True \<Rightarrow>
          ([mk_issue ''django-debug-true'' Warning StartCommand
              ''DEBUG is set to True - should be False in production'' (Some settingsPath)
              (mk_fix ''Set DEBUG based on environment variable'' (Some ''DEBUG = True'')
                 (Some (''DEBUG = os.environ.get('DEBUG', 'False') == 'True'' @ [CHR 0x27]))
                 [''Use environment variable to control DEBUG'',
                  ''Set DEBUG=False in Railway environment variables''])], [])
      | Some False \<Rightarrow>
          ([], [mk_passed ''django-debug-false'' ''start-command'' ''DEBUG is correctly set to False''])
      | None \<Rightarrow> ([], []))"

definition django_static :: "string \<Rightarrow> DjangoSettings \<Rightarrow> Issue list \<times> PassedCheck list" where
  "django_static settingsPath settings =
     ((if \<not> hasWhitenoise settings
       then [mk_issue ''django-no-whitenoise'' Error StaticFiles
               ''Whitenoise not detected - static files won't be served on Railway''
               (Some settingsPath)
               (mk_fix ''Install and configure whitenoise for static files'' None None
                  [''Add 'whitenoise' to requirements.txt'',
                   ''Add 'whitenoise.middleware.WhiteNoiseMiddleware' to MIDDLEWARE in settings.py'',
                   ''Add after SecurityMiddleware, before other middleware'',
                   ''Set STATIC_ROOT = BASE_DIR / 'staticfiles'' @ [CHR 0x27]])]
       else [])
      @ (if \<not> hasStaticRoot settings
         then [mk_issue ''django-no-static-root'' Warning StaticFiles ''STATIC_ROOT not set''
                 (Some settingsPath)
                 (mk_fix ''Set STATIC_ROOT for collectstatic'' None
                    (Some (''STATIC_ROOT = BASE_DIR / 'staticfiles'' @ [CHR 0x27]))
                    [''Add STATIC_ROOT to settings.py'',
                     ''Run 'python manage.py collectstatic' before deployment''])]
         else []),
      if \<not> hasWhitenoise settings then []
      else [mk_passed ''django-whitenoise'' ''static-files'' ''Whitenoise configured for static files''])"

definition django_database :: "string \<Rightarrow> DjangoSettings \<Rightarrow> Issue list \<times> PassedCheck list" where
  "django_database settingsPath settings =
     (if \<not> hasDatabaseUrl settings
      then ([mk_issue ''django-no-database-url'' Warning Database
               ''DATABASE_URL not detected - database configuration may be hardcoded''
               (Some settingsPath)
               (mk_fix ''Use dj-database-url for Railway database'' None None
                  [''Add 'dj-database-url' to requirements.txt'',
                   ''Import: import dj_database_url'',
                   ''Use: DATABASES['default'] = dj_database_url.config(conn_max_age=600)'',
                   ''Railway automatically provides DATABASE_URL''])], [])
      else ([], [mk_passed ''django-database-url'' ''database'' ''DATABASE_URL configuration detected'']))"

definition django_csrf :: "string \<Rightarrow> DjangoSettings \<Rightarrow> Issue list" where
  "django_csrf settingsPath settings =
     (if length (csrfTrustedOrigins settings) = 0
      then [mk_issue ''django-no-csrf-origins'' Info Host
              ''CSRF_TRUSTED_ORIGINS not set - may need for Django 4.0+'' (Some settingsPath)
              (mk_fix ''Add Railway domain to CSRF_TRUSTED_ORIGINS'' None
                 (Some ''CSRF_TRUSTED_ORIGINS = ['https://*.railway.app']'')
                 [''Required for Django 4.0+ on Railway'',
                  ''Add your Railway domain to CSRF_TRUSTED_ORIGINS''])]
      else [])"

definition django_gunicorn :: "fs_env \<Rightarrow> string \<Rightarrow> error + Issue list" where
  \<comment> \<open>the dependency list is read with no \<open>try\<close> around the read\<close>
  "django_gunicorn env root =
     (let requirementsPath = join env root ''requirements.txt''
      in if existsSync env requirementsPath
         then and_then (readFileSync env requirementsPath)
                (\<lambda>txt.
                   if \<not> str_includes (toLowerCase txt) ''gunicorn''
                   then Inr [mk_issue ''django-no-gunicorn'' Error StartCommand
                               ''gunicorn not found in requirements.txt'' (Some requirementsPath)
                               (mk_fix ''Add gunicorn for production server'' None (Some ''gunicorn'')
                                  [''Add 'gunicorn' to requirements.txt'',
                                   ''Gunicorn is required for Django production on Railway''])]
                   else Inr [])
         else Inr [])"

definition checkDjango ::
  "fs_env \<Rightarrow> string \<Rightarrow> Framework \<Rightarrow> error + Issue list \<times> PassedCheck list" where
  "checkDjango env root fw =
     (case findDjangoSettings env root of
        None \<Rightarrow> Inr ([django_no_settings], [])
      | Some settingsPath \<Rightarrow>
          if settingsPath = [] then Inr ([django_no_settings], [])
          else and_then (analyzePythonFile env settingsPath)
                 (\<lambda>analysis.
                    case djangoSettings analysis of
                      None \<Rightarrow> Inr ([], [])
                    | Some settings \<Rightarrow>
                        (let hosts = django_allowed_hosts settingsPath settings;
                             dbg = django_debug settingsPath settings;
                             static = django_static settingsPath settings;
                             db = django_database settingsPath settings
                         in and_then (django_gunicorn env root)
                              (\<lambda>gunicorn.
                                 Inr (fst hosts @ fst dbg @ fst static @ fst db
                                        @ django_csrf settingsPath settings @ gunicorn,
                                      snd hosts @ snd dbg @ snd static @ snd db)))))"

fun before_paren :: "(string \<Rightarrow> bool) \<Rightarrow> string \<Rightarrow> bool" where
  \<comment> \<open>\<open>[^)]*\<close> followed by a pattern \<open>p\<close>: \<open>p\<close> holds somewhere before the first closing
      parenthesis\<close>
  "before_paren p [] = p []"
| "before_paren p (c # cs) = (p (c # cs) \<or> (c \<noteq> CHR '')'' \<and> before_paren p cs))"

definition debugTrueRegex :: "unit matcher" where
  \<comment> \<open>\<open>/app\.run\([^)]*debug\s*=\s*True/\<close>; only whether it matches is used\<close>
  "debugTrueRegex s =
     (case strip_prefix ''app.run('' s of
        None \<Rightarrow> None
      | Some r \<Rightarrow>
          if before_paren
               (\<lambda>t. case strip_prefix ''debug'' t of
                       None \<Rightarrow> False
                     | Some t1 \<Rightarrow>
                         (case strip_prefix ''='' (dropWhile is_space t1) of
                            None \<Rightarrow> False
                          | Some t2 \<Rightarrow> strip_prefix ''True'' (dropWhile is_space t2) \<noteq> None)) r
          then Some ((), 0) else None)"

definition procfile_port :: "string \<Rightarrow> bool" where
  "procfile_port procfile = (str_includes procfile ''$PORT'' \<or> str_includes procfile ''${PORT}'')"

definition flask_source_issues :: "string \<Rightarrow> PythonFileAnalysis \<Rightarrow> string \<Rightarrow> Issue list" where
  "flask_source_issues mainPath analysis content =
     (if \<not> hasFlaskApp analysis
      then [mk_issue ''flask-no-app-init'' Warning StartCommand
              ''Flask app initialization not detected'' (Some mainPath)
              (mk_fix ''Ensure Flask app is properly initialized'' None (Some ''app = Flask(__name__)'')
                 [''Your Flask app should be initialized with Flask(__name__)''])]
      else [])
     @ (if str_includes content ''app.run(''
        then (if regex_test debugTrueRegex content
              then [mk_issue ''flask-debug-mode'' Error StartCommand
                      ''Flask debug mode detected - should not be used in production''
                      (Some mainPath)
                      (mk_fix ''Remove debug mode and use gunicorn for production''
                         (Some ''app.run(debug=True)'')
                         (Some ''app.run()  # Or remove entirely and use gunicorn'')
                         [''Remove debug=True from app.run()'',
                          ''Use gunicorn instead of Flask development server'',
                          ''Example Procfile: web: gunicorn app:app --bind 0.0.0.0:$PORT''])]
              else [])
             @ [mk_issue ''flask-dev-server'' Warning StartCommand
                  ''Flask development server (app.run()) detected'' (Some mainPath)
                  (mk_fix ''Use gunicorn for production instead of app.run()'' None None
                     [''Add gunicorn to requirements.txt'',
                      ''Create Procfile: web: gunicorn app:app --bind 0.0.0.0:$PORT'',
                      ''Remove or wrap app.run() in if __name__ == '__main__'' @ [CHR 0x27]])]
        else [])"

definition flask_requirements :: "fs_env \<Rightarrow> string \<Rightarrow> error + Issue list \<times> PassedCheck list" where
  \<comment> \<open>the dependency list is read with no \<open>try\<close> around the read\<close>
  "flask_requirements env root =
     (let requirementsPath = join env root ''requirements.txt''
      in if \<not> existsSync env requirementsPath then Inr ([], [])
         else and_then (readFileSync env requirementsPath)
           (\<lambda>txt.
              if \<not> str_includes (toLowerCase txt) ''gunicorn''
              then Inr ([mk_issue ''flask-no-gunicorn'' Error StartCommand
                       ''gunicorn not found in requirements.txt'' (Some requirementsPath)
                       (mk_fix ''Add gunicorn for production server'' None (Some ''gunicorn'')
                          [''Add 'gunicorn' to requirements.txt'',
                           ''Gunicorn is the recommended production server for Flask''])], [])
              else Inr ([], [mk_passed ''flask-has-gunicorn'' ''start-command''
                           ''Gunicorn found in requirements.txt''])))"

definition flask_procfile :: "fs_env \<Rightarrow> string \<Rightarrow> error + Issue list \<times> PassedCheck list" where
  \<comment> \<open>the Procfile is read with no \<open>try\<close> around the read\<close>
  "flask_procfile env root =
     (let procfilePath = join env root ''Procfile''
      in if \<not> existsSync env procfilePath then Inr ([], [])
         else and_then (readFileSync env procfilePath)
           (\<lambda>procfile.
              Inr ((if \<not> str_includes procfile ''gunicorn''
                then [mk_issue ''flask-procfile-no-gunicorn'' Error StartCommand
                        ''Procfile doesn't use gunicorn'' (Some procfilePath)
                        (mk_fix ''Use gunicorn in Procfile'' None
                           (Some ''web: gunicorn app:app --bind 0.0.0.0:$PORT'')
                           [''Update Procfile to use gunicorn'',
                            ''Format: web: gunicorn module:app --bind 0.0.0.0:$PORT'',
                            ''Replace 'module' with your Python file name (without .py)''])]
                else [])
               @ (if \<not> str_includes procfile ''0.0.0.0''
                  then [mk_issue ''flask-procfile-no-host'' Error Host
                          ''Procfile doesn't bind to 0.0.0.0'' (Some procfilePath)
                          (mk_fix ''Add --bind 0.0.0.0:$PORT to gunicorn command'' None None
                             [''Update Procfile to bind to 0.0.0.0'',
                              ''Example: web: gunicorn app:app --bind 0.0.0.0:$PORT''])]
                  else [])
               @ (if \<not> procfile_port procfile
                  then [mk_issue ''flask-procfile-no-port'' Error Port
                          ''Procfile doesn't use $PORT environment variable'' (Some procfilePath)
                          (mk_fix ''Use $PORT in gunicorn bind address'' None None
                             [''Update Procfile to use $PORT'',
                              ''Example: web: gunicorn app:app --bind 0.0.0.0:$PORT''])]
                  else []),
               if str_includes procfile ''gunicorn'' \<and> str_includes procfile ''0.0.0.0''
                  \<and> procfile_port procfile
               then [mk_passed ''flask-procfile-correct'' ''start-command''
                       ''Procfile configured correctly for Railway'']
               else [])))"

definition checkFlask ::
    "fs_env \<Rightarrow> string \<Rightarrow> Framework \<Rightarrow> error + Issue list \<times> PassedCheck list" where
  \<comment> \<open>the main file is analysed and read with no \<open>try\<close>: a file that cannot be read throws\<close>
  "checkFlask env root fw =
     (case findPythonMainFile env root [''app.py'', ''main.py'', ''wsgi.py'', ''application.py''] of
        None \<Rightarrow>
          Inr ([mk_issue ''flask-no-app-file'' Warning StartCommand
                  ''Could not find Flask app file (app.py, main.py, etc.)'' None
                  (mk_fix ''Ensure your Flask app file exists'' None None
                     [''Common Flask entry points: app.py, main.py, wsgi.py'',
                      ''Make sure your Flask app is properly defined''])], [])
      | Some mainPath \<Rightarrow>
          and_then (analyzePythonFile env mainPath)
            (\<lambda>analysis.
               and_then (readFileSync env mainPath)
                 (\<lambda>content.
                    and_then (flask_requirements env root)
                      (\<lambda>reqs.
                         and_then (flask_procfile env root)
                           (\<lambda>proc.
                              Inr (flask_source_issues mainPath analysis content
                                     @ fst reqs @ fst proc,
                                   snd reqs @ snd proc))))))"

definition fastapi_source_issues :: "string \<Rightarrow> PythonFileAnalysis \<Rightarrow> string \<Rightarrow> Issue list" where
  "fastapi_source_issues mainPath analysis content =
     (if \<not> hasFastAPIApp analysis
      then [mk_issue ''fastapi-no-app-init'' Warning StartCommand
              ''FastAPI app initialization not detected'' (Some mainPath)
              (mk_fix ''Ensure FastAPI app is properly initialized'' None (Some ''app = FastAPI()'')
                 [''Your FastAPI app should be initialized with FastAPI()''])]
      else [])
     @ (if str_includes content ''uvicorn.run(''
        then [mk_issue ''fastapi-dev-server'' Warning StartCommand
                ''uvicorn.run() detected - use command line uvicorn for production'' (Some mainPath)
                (mk_fix ''Use command line uvicorn instead of uvicorn.run()'' None None
                   [''Remove uvicorn.run() from your code'',
                    ''Use Procfile with: web: uvicorn main:app --host 0.0.0.0 --port $PORT'',
                    ''Or wrap in: if __name__ == '__main__': uvicorn.run()''])]
        else [])"

definition fastapi_requirements :: "fs_env \<Rightarrow> string \<Rightarrow> error + Issue list \<times> PassedCheck list" where
  \<comment> \<open>the dependency list is read with no \<open>try\<close> around the read\<close>
  "fastapi_requirements env root =
     (let requirementsPath = join env root ''requirements.txt''
      in if \<not> existsSync env requirementsPath then Inr ([], [])
         else and_then (readFileSync env requirementsPath)
           (\<lambda>txt.
              if \<not> str_includes (toLowerCase txt) ''uvicorn''
              then Inr ([mk_issue ''fastapi-no-uvicorn'' Error StartCommand
                       ''uvicorn not found in requirements.txt'' (Some requirementsPath)
                       (mk_fix ''Add uvicorn for ASGI server'' None (Some ''uvicorn[standard]'')
                          [''Add 'uvicorn[standard]' to requirements.txt'',
                           ''Uvicorn is the recommended ASGI server for FastAPI''])], [])
              else Inr ([], [mk_passed ''fastapi-has-uvicorn'' ''start-command''
                           ''Uvicorn found in requirements.txt''])))"

definition fastapi_procfile :: "fs_env \<Rightarrow> string \<Rightarrow> error + Issue list \<times> PassedCheck list" where
  \<comment> \<open>the Procfile is read with no \<open>try\<close> around the read\<close>
  "fastapi_procfile env root =
     (let procfilePath = join env root ''Procfile''
      in if \<not> existsSync env procfilePath then Inr ([], [])
         else and_then (readFileSync env procfilePath)
           (\<lambda>procfile.
              Inr ((if \<not> str_includes procfile ''uvicorn''
                then [mk_issue ''fastapi-procfile-no-uvicorn'' Error StartCommand
                        ''Procfile doesn't use uvicorn'' (Some procfilePath)
                        (mk_fix ''Use uvicorn in Procfile'' None
                           (Some ''web: uvicorn main:app --host 0.0.0.0 --port $PORT'')
                           [''Update Procfile to use uvicorn'',
                            ''Format: web: uvicorn module:app --host 0.0.0.0 --port $PORT'',
                            ''Replace 'module' with your Python file name (without .py)''])]
                else [])
               @ (if \<not> str_includes procfile ''0.0.0.0''
                  then [mk_issue ''fastapi-procfile-no-host'' Error Host
                          ''Procfile doesn't bind to 0.0.0.0'' (Some procfilePath)
                          (mk_fix ''Add --host 0.0.0.0 to uvicorn command'' None None
                             [''Update Procfile to bind to 0.0.0.0'',
                              ''Example: web: uvicorn main:app --host 0.0.0.0 --port $PORT''])]
                  else [])
               @ (if \<not> procfile_port procfile
                  then [mk_issue ''fastapi-procfile-no-port'' Error Port
                          ''Procfile doesn't use $PORT environment variable'' (Some procfilePath)
                          (mk_fix ''Use $PORT in uvicorn command'' None None
                             [''Update Procfile to use $PORT'',
                              ''Example: web: uvicorn main:app --host 0.0.0.0 --port $PORT''])]
                  else [])
               @ (if str_includes procfile ''uvicorn'' \<and> \<not> str_includes procfile ''--workers''
                  then [mk_issue ''fastapi-no-workers'' Info StartCommand
                          ''Consider adding workers for better performance'' (Some procfilePath)
                          (mk_fix ''Add workers to uvicorn for production'' None None
                             [''Add --workers flag to uvicorn command'',
                              ''Example: web: uvicorn main:app --host 0.0.0.0 --port $PORT --workers 4'',
                              ''Workers enable concurrent request handling''])]
                  else []),
               if str_includes procfile ''uvicorn'' \<and> str_includes procfile ''0.0.0.0''
                  \<and> procfile_port procfile
               then [mk_passed ''fastapi-procfile-correct'' ''start-command''
                       ''Procfile configured correctly for Railway'']
               else [])))"

definition checkFastAPI ::
    "fs_env \<Rightarrow> string \<Rightarrow> Framework \<Rightarrow> error + Issue list \<times> PassedCheck list" where
  "checkFastAPI env root fw =
     (case findPythonMainFile env root [''main.py'', ''app.py'', ''application.py''] of
        None \<Rightarrow>
          Inr ([mk_issue ''fastapi-no-app-file'' Warning StartCommand
                  ''Could not find FastAPI app file (main.py, app.py, etc.)'' None
                  (mk_fix ''Ensure your FastAPI app file exists'' None None
                     [''Common FastAPI entry points: main.py, app.py'',
                      ''Make sure your FastAPI app is properly defined''])], [])
      | Some mainPath \<Rightarrow>
          and_then (analyzePythonFile env mainPath)
            (\<lambda>analysis.
               and_then (readFileSync env mainPath)
                 (\<lambda>content.
                    and_then (fastapi_requirements env root)
                      (\<lambda>reqs.
                         and_then (fastapi_procfile env root)
                           (\<lambda>proc.
                              Inr (fastapi_source_issues mainPath analysis content
                                     @ fst reqs @ fst proc,
                                   snd reqs @ snd proc))))))"

section \<open>Scan orchestrator (scanner/index.ts)\<close>

definition generateSummary :: "Issue list \<Rightarrow> PassedCheck list \<Rightarrow> Summary" where
  "generateSummary iss pas =
     (let errs = length (filter (\<lambda>i. severity i = Error) iss);
          warns = length (filter (\<lambda>i. severity i = Warning) iss)
      in \<lparr>totalIssues = length iss, errors = errs, warnings_count = warns,
          passed_count = length pas,
          deploymentLikelihood =
            (if errs > 0 then WillFail else if warns > 0 then MightFail else ShouldSucceed)\<rparr>)"

definition frameworkChecks ::
    "fs_env \<Rightarrow> string \<Rightarrow> Framework \<Rightarrow> error + Issue list \<times> PassedCheck list" where
  \<comment> \<open>the framework-specific checks, when one is detected\<close>
  "frameworkChecks env root fw =
     (if name fw = Django then checkDjango env root fw
      else if name fw = Flask then checkFlask env root fw
      else if name fw = Fastapi then checkFastAPI env root fw
      else Inr ([], []))"

definition scanProject :: "fs_env \<Rightarrow> string \<Rightarrow> error + ScanResult" where
  \<comment> \<open>the checks run in the order of the source; an exception of any of them leaves the scan\<close>
  "scanProject env root =
     and_then (detectFramework env root)
       (\<lambda>fw.
          let portResult = checkPortUsage env root fw;
              hostResult = checkHostBinding env root fw
          in and_then (checkStartCommand env root fw)
               (\<lambda>startCommandIssues.
          and_then (checkEnvVars env root fw)
               (\<lambda>envVarsResult.
          and_then (checkDatabaseConfig env root fw)
               (\<lambda>databaseResult.
          and_then (frameworkChecks env root fw)
               (\<lambda>frameworkResult.
                   (let iss = fst portResult @ fst hostResult
                              @ (if length startCommandIssues > 0 then startCommandIssues else [])
                              @ fst envVarsResult @ fst databaseResult @ fst frameworkResult;
                        pas = snd portResult @ snd hostResult
                              @ (if length startCommandIssues > 0 then []
                                 else [mk_passed ''start-command-check'' ''start-command''
                                         ''Start command looks good''])
                              @ snd envVarsResult @ snd databaseResult @ snd frameworkResult
                    in Inr \<lparr>projectPath = root, framework = fw, issues = iss,
                            warnings = filter (\<lambda>i. severity i = Warning) iss,
                            passed = pas, summary = generateSummary iss pas\<rparr>))))))"

section \<open>Example projects\<close>

text \<open>
  A project with no manifest, no dependency list and no Procfile: one source file that listens on
  a literal port, and a \<open>.env\<close> file that \<open>.gitignore\<close> does not name.
\<close>

definition example_env :: fs_env where
  "example_env =
     \<lparr>files = [''/app/server.js'' \<mapsto> ''s.listen(8080)'', ''/app/.env'' \<mapsto> ''KEY=1'',
               ''/app/.gitignore'' \<mapsto> ''dist''],
      unreadable = (\<lambda>path. False), path_join = (\<lambda>dir leaf. dir @ ''/'' @ leaf),
      glob = (\<lambda>patterns opts.
                if patterns = [''**/*.{js,ts,jsx,tsx}''] then Some [''server.js''] else Some []),
      JSON_parse = (\<lambda>txt. None)\<rparr>"

definition unknown_framework :: Framework where
  "unknown_framework = \<lparr>name = Unknown, version = None, mainFile = None\<rparr>"

definition example_issues :: "Issue list" where
  "example_issues =
     [port_hardcoded ''server.js'' (Some 8080) (Some 1),
      host_binding ''server.js'' False (Some 1)
        (generateHostBindingFix unknown_framework (Some ''.listen(8080)'')),
      env_file_not_ignored ''/app/.gitignore'']"

definition example_passed :: "PassedCheck list" where
  "example_passed =
     [mk_passed ''start-command-check'' ''start-command'' ''Start command looks good'',
      mk_passed ''no-database'' ''database'' ''No database libraries detected'']"

definition example_result :: ScanResult where
  "example_result =
     \<lparr>projectPath = ''/app'', framework = unknown_framework, issues = example_issues,
      warnings = [host_binding ''server.js'' False (Some 1)
                    (generateHostBindingFix unknown_framework (Some ''.listen(8080)'')),
                  env_file_not_ignored ''/app/.gitignore''],
      passed = example_passed,
      summary = \<lparr>totalIssues = 3, errors = 1, warnings_count = 2, passed_count = 2,
                  deploymentLikelihood = WillFail\<rparr>\<rparr>"

text \<open>A Flask project whose package manifest is not valid JSON.\<close>

definition malformed_env :: fs_env where
  "malformed_env =
     \<lparr>files = [''/app/package.json'' \<mapsto> ''{'', ''/app/requirements.txt'' \<mapsto> ''Flask==3.0''],
      unreadable = (\<lambda>path. False), path_join = (\<lambda>dir leaf. dir @ ''/'' @ leaf),
      glob = (\<lambda>patterns opts. Some []),
      JSON_parse = (\<lambda>txt. None)\<rparr>"

text \<open>A Django project in which no \<open>settings.py\<close> is found.\<close>

definition django_framework :: Framework where
  "django_framework = \<lparr>name = Django, version = None, mainFile = None\<rparr>"

definition no_settings_env :: fs_env where
  "no_settings_env =
     \<lparr>files = [''/app/requirements.txt'' \<mapsto> ''django''],
      unreadable = (\<lambda>path. False), path_join = (\<lambda>dir leaf. dir @ ''/'' @ leaf),
      glob = (\<lambda>patterns opts. Some []),
      JSON_parse = (\<lambda>txt. None)\<rparr>"

text \<open>A project that holds at most a \<open>.env\<close> file and a \<open>.gitignore\<close> file.\<close>

definition hygiene_env :: "string option \<Rightarrow> string option \<Rightarrow> fs_env" where
  "hygiene_env dotEnv gitignore =
     \<lparr>files = (\<lambda>path. if path = ''/app/.env'' then dotEnv
                       else if path = ''/app/.gitignore'' then gitignore else None),
      unreadable = (\<lambda>path. False), path_join = (\<lambda>dir leaf. dir @ ''/'' @ leaf),
      glob = (\<lambda>patterns opts. Some []),
      JSON_parse = (\<lambda>txt. None)\<rparr>"

text \<open>
  The words of the database claim: the contents the scan reads, a localhost or loopback literal
  on a line, a connection keyword on a line, and the three findings over the scanned contents.
\<close>

definition scanned_contents :: "fs_env \<Rightarrow> string \<Rightarrow> string list \<Rightarrow> string list" where
  "scanned_contents env root found = List.map_filter (\<lambda>f. files env (join env root f)) (take 30 found)"

definition localhost_literal :: "string \<Rightarrow> bool" where
  "localhost_literal ln =
     (str_includes (map ascii_lower ln) ''localhost'' \<or> str_includes ln ''127.0.0.1'')"

definition connection_keyword :: "string \<Rightarrow> bool" where
  "connection_keyword ln =
     (str_includes ln ''connect'' \<or> str_includes ln ''host'' \<or> str_includes ln ''DATABASES''
      \<or> str_includes ln ''createConnection'')"

definition localhost_hit :: "string list \<Rightarrow> bool" where
  "localhost_hit contents =
     (\<exists>content \<in> set contents. \<exists>ln \<in> set (split_lines content).
        localhost_literal ln \<and> connection_keyword ln)"

definition database_url_reference :: "string list \<Rightarrow> bool" where
  "database_url_reference contents =
     (\<exists>content \<in> set contents.
        str_includes content ''DATABASE_URL'' \<or> str_includes content ''database_url'')"

definition socket_reference :: "string list \<Rightarrow> bool" where
  "socket_reference contents =
     (\<exists>content \<in> set contents.
        str_includes content ''/var/run/postgresql'' \<or> str_includes content ''/tmp/mysql.sock'')"

text \<open>An Express project that depends on \<open>pg\<close>, with one source file.\<close>

definition express_framework :: Framework where
  "express_framework = \<lparr>name = Express, version = Some ''4.18.2'', mainFile = Some ''db.js''\<rparr>"

definition db_manifest :: manifest where
  "db_manifest =
     \<lparr>dependencies = [''express'' \<mapsto> ''4.18.2'', ''pg'' \<mapsto> ''8.11.0''], devDependencies = Map.empty,
      scripts_start = Some ''node db.js'', scripts_build = None, main = None\<rparr>"

definition db_env :: "string \<Rightarrow> fs_env" where
  "db_env content =
     \<lparr>files = [''/app/package.json'' \<mapsto> ''{}'', ''/app/db.js'' \<mapsto> content],
      unreadable = (\<lambda>path. False), path_join = (\<lambda>dir leaf. dir @ ''/'' @ leaf),
      glob = (\<lambda>patterns opts. Some [''db.js'']),
      JSON_parse = (\<lambda>txt. Some db_manifest)\<rparr>"

text \<open>
  The port check and the host-binding check seen file by file: what one enumerated file
  contributes (nothing when it cannot be read), and the issues with a given identifier that a
  check reports on a given file.
\<close>

definition port_file_issues :: "fs_env \<Rightarrow> string \<Rightarrow> Framework \<Rightarrow> string \<Rightarrow> Issue list" where
  "port_file_issues env root fw f =
     (case files env (join env root f) of None \<Rightarrow> [] | Some code \<Rightarrow> scanFileForPortIssues code f fw)"

definition host_file_issues :: "fs_env \<Rightarrow> string \<Rightarrow> Framework \<Rightarrow> string \<Rightarrow> Issue list" where
  "host_file_issues env root fw f =
     (case files env (join env root f) of None \<Rightarrow> [] | Some code \<Rightarrow> scanFileForHostIssues code f fw)"

definition issues_of :: "string \<Rightarrow> string \<Rightarrow> Issue list \<Rightarrow> Issue list" where
  "issues_of ident f iss = filter (\<lambda>x. issue_id x = ident \<and> issue_file x = Some f) iss"

text \<open>A project with no manifest whose only source file, \<open>server.js\<close>, holds the given text.\<close>

definition one_file_env :: "string \<Rightarrow> fs_env" where
  "one_file_env code =
     \<lparr>files = [''/app/server.js'' \<mapsto> code],
      unreadable = (\<lambda>path. False), path_join = (\<lambda>dir leaf. dir @ ''/'' @ leaf),
      glob = (\<lambda>patterns opts. Some [''server.js'']),
      JSON_parse = (\<lambda>txt. None)\<rparr>"

text \<open>
  A project with no manifest and fifty-one source files: the glob returns fifty modules
  \<open>lib/m0.js\<close> to \<open>lib/m49.js\<close>, each holding \<open>export {}\<close>, and then \<open>server.js\<close>, which holds
  the given text.
\<close>

definition module_names :: "string list" where
  "module_names = map (\<lambda>n. ''lib/m'' @ show_nat n @ ''.js'') [0..<50]"

definition crowded_env :: "string \<Rightarrow> fs_env" where
  "crowded_env code =
     \<lparr>files = (\<lambda>path. if path = ''/app/server.js'' then Some code
                       else if path \<in> set (map (\<lambda>m. ''/app/'' @ m) module_names)
                       then Some ''export {}'' else None),
      unreadable = (\<lambda>path. False), path_join = (\<lambda>dir leaf. dir @ ''/'' @ leaf),
      glob = (\<lambda>patterns opts. Some (module_names @ [''server.js''])),
      JSON_parse = (\<lambda>txt. None)\<rparr>"

text \<open>
  The words of the host-binding claim: a \<open>.listen(\<close> call, with any white space before the
  parenthesis, and a literal between quotes of one of the given kinds.
\<close>

definition has_listen_call :: "string \<Rightarrow> bool" where
  "has_listen_call code =
     (\<exists>pre w post. code = pre @ ''.listen'' @ w @ ''('' @ post \<and> (\<forall>c \<in> set w. is_space c))"

definition quoted_in :: "string \<Rightarrow> string \<Rightarrow> string \<Rightarrow> bool" where
  "quoted_in quotes lit code = (\<exists>q \<in> set quotes. str_includes code ([q] @ lit @ [q]))"

definition nextjs_host_flag_missing :: "fs_env \<Rightarrow> string \<Rightarrow> Framework \<Rightarrow> bool" where
  \<comment> \<open>a Next.js project whose start script runs \<open>next start\<close> with no host name flag\<close>
  "nextjs_host_flag_missing env root fw =
     (name fw = Nextjs
      \<and> (case start_script env root of
            None \<Rightarrow> False
          | Some startScript \<Rightarrow>
              str_includes startScript ''next start''
              \<and> \<not> str_includes startScript ''--hostname 0.0.0.0''
              \<and> \<not> str_includes startScript ''-H 0.0.0.0''))"

definition host_check_passed :: PassedCheck where
  "host_check_passed = mk_passed ''host-check'' ''host'' ''Host binding configuration looks good''"

text \<open>
  A Next.js project whose only source file binds to 0.0.0.0; the start script of its manifest
  is a parameter.
\<close>

definition nextjs_manifest :: "string \<Rightarrow> manifest" where
  "nextjs_manifest startScript =
     \<lparr>dependencies = [''next'' \<mapsto> ''14.0.0''], devDependencies = Map.empty,
      scripts_start = Some startScript, scripts_build = Some ''next build'', main = None\<rparr>"

definition nextjs_framework :: Framework where
  "nextjs_framework = \<lparr>name = Nextjs, version = Some ''14.0.0'', mainFile = Some ''server.js''\<rparr>"

definition nextjs_env :: "string \<Rightarrow> fs_env" where
  "nextjs_env startScript =
     \<lparr>files = [''/app/package.json'' \<mapsto> ''{}'', ''/app/server.js'' \<mapsto> ''app.listen(port, '0.0.0.0')''],
      unreadable = (\<lambda>path. False), path_join = (\<lambda>dir leaf. dir @ ''/'' @ leaf),
      glob = (\<lambda>patterns opts. Some [''server.js'']),
      JSON_parse = (\<lambda>txt. Some (nextjs_manifest startScript))\<rparr>"

text \<open>
  The words of the port claim: at index \<open>i\<close> of the file a \<open>.listen(\<close> call takes the numeric
  literal \<open>ds\<close> (white space may stand before the parenthesis and before the literal, and the
  literal is the whole run of digits).
\<close>

definition listen_literal :: "string \<Rightarrow> nat \<Rightarrow> string \<Rightarrow> bool" where
  "listen_literal code i ds =
     (i \<le> length code
      \<and> (\<exists>w1 w2 post.
            drop i code = ''.listen'' @ w1 @ ''('' @ w2 @ ds @ post
            \<and> (\<forall>c \<in> set w1. is_space c) \<and> (\<forall>c \<in> set w2. is_space c)
            \<and> ds \<noteq> [] \<and> (\<forall>c \<in> set ds. is_digit c)
            \<and> (post = [] \<or> \<not> is_digit (hd post))))"

fun tails :: "string \<Rightarrow> string list" where
  \<comment> \<open>the text from each position of a file on\<close>
  "tails [] = [[]]"
| "tails (c # cs) = (c # cs) # tails cs"

definition no_port_assignment :: "string \<Rightarrow> bool" where
  \<comment> \<open>nowhere in the file does the pattern of a \<open>const\<close>, \<open>let\<close> or \<open>var\<close> assignment to a name
      containing \<open>port\<close> or \<open>Port\<close>, or the pattern of a \<open>port=\<close> argument of \<open>app.run\<close> or
      \<open>uvicorn.run\<close>, match a literal of 1000 or more\<close>
  "no_port_assignment code =
     (\<forall>t \<in> set (tails code).
        (case portVarRegex t of None \<Rightarrow> True | Some (ds, len) \<Rightarrow> parseInt ds < 1000)
        \<and> (case pythonPortRegex t of None \<Rightarrow> True | Some (ds, len) \<Rightarrow> parseInt ds < 1000))"

definition literals_exact :: "string \<Rightarrow> bool" where
  \<comment> \<open>every literal that one of the three patterns matches somewhere in the file is below
      \<open>2^53\<close>, so that \<open>parseInt\<close> returns it exactly and the template literal prints its digits\<close>
  "literals_exact code =
     (\<forall>t \<in> set (tails code). \<forall>regex \<in> set [listenCallRegex, portVarRegex, pythonPortRegex].
        case regex t of None \<Rightarrow> True | Some (ds, len) \<Rightarrow> parseInt ds < 2 ^ 53)"

definition cited_port :: "string \<Rightarrow> (nat \<times> nat) option" where
  \<comment> \<open>the number and the line that the error cites: the hit of the last of the three searches
      that has one, the search for \<open>port=\<close> arguments being the last, the search for
      assignments the second and the search for \<open>.listen(\<close> calls the first\<close>
  "cited_port code =
     (case first_hardcoded pythonPortRegex code of
        Some hit \<Rightarrow> Some hit
      | None \<Rightarrow>
          (case first_hardcoded portVarRegex code of
             Some hit \<Rightarrow> Some hit
           | None \<Rightarrow> first_hardcoded listenCallRegex code))"

definition nextjs_port_flag_missing :: "fs_env \<Rightarrow> string \<Rightarrow> Framework \<Rightarrow> bool" where
  \<comment> \<open>a Next.js project whose start script runs \<open>next start\<close> with no reference to \<open>PORT\<close>\<close>
  "nextjs_port_flag_missing env root fw =
     (name fw = Nextjs
      \<and> (case start_script env root of
            None \<Rightarrow> False
          | Some startScript \<Rightarrow>
              str_includes startScript ''next start''
              \<and> \<not> str_includes startScript ''$PORT''
              \<and> \<not> str_includes startScript ''${PORT''))"

definition port_check_passed :: PassedCheck where
  "port_check_passed = mk_passed ''port-check'' ''port'' ''PORT configuration looks good''"

section \<open>Evaluation of the example project\<close>

lemma exec_all_skip: "0 < skip \<Longrightarrow> exec_all m skip i (c # cs) = exec_all m (skip - 1) (Suc i) cs"
  by (cases skip) simp_all

lemmas port_eval =
  scanFileForPortIssues_def hasPortEnvVar_def first_hardcoded_def note_port_def
  listenCallRegex_def portVarRegex_def pythonPortRegex_def digits_then_def is_space_def is_digit_def
  parseInt_def digit_val_def line_of_def split_lines_def exec_all_skip Let_def

lemmas host_eval =
  scanFileForHostIssues_def hasCorrectBinding_def hasLocalhostBinding_def regex_test_def
  listenTest_def pythonServerTest_def listenRegex_def is_space_def line_of_def split_lines_def Let_def

lemma and_then_simps [simp]:
  "and_then (Inl e) f = Inl e"
  "and_then (Inr x) f = f x"
  by (simp_all add: and_then_def)

lemma and_then_Inr: "and_then m f = Inr y \<longleftrightarrow> (\<exists>x. m = Inr x \<and> f x = Inr y)"
  by (cases m) simp_all

lemma readFileSync_simps:
  "files env path = Some txt \<Longrightarrow> readFileSync env path = Inr txt"
  "files env path = None \<Longrightarrow> readFileSync env path = Inl FileReadError"
  by (simp_all add: readFileSync_def)

lemma example_detect: "detectFramework example_env ''/app'' = Inr unknown_framework"
  by (simp add: detectFramework_def detectPython_def existsSync_def example_env_def join_def
      unknown_framework_def)

lemma example_port_file:
  "scanFileForPortIssues ''s.listen(8080)'' ''server.js'' fw = [port_hardcoded ''server.js'' (Some 8080) (Some 1)]"
  by (simp add: port_eval)

lemma example_host_file:
  "scanFileForHostIssues ''s.listen(8080)'' ''server.js'' fw
     = [host_binding ''server.js'' False (Some 1) (generateHostBindingFix fw (Some ''.listen(8080)''))]"
  by (simp add: host_eval)

lemma example_port:
  "checkPortUsage example_env ''/app'' unknown_framework = ([port_hardcoded ''server.js'' (Some 8080) (Some 1)], [])"
  by (simp add: checkPortUsage_def source_patterns_def unknown_framework_def example_env_def
      port_file_step_def join_def example_port_file)

lemma example_host:
  "checkHostBinding example_env ''/app'' unknown_framework
     = ([host_binding ''server.js'' False (Some 1)
           (generateHostBindingFix unknown_framework (Some ''.listen(8080)''))], [])"
  by (simp add: checkHostBinding_def source_patterns_def unknown_framework_def example_env_def
      host_file_step_def join_def example_host_file)

lemma example_envvars:
  "checkEnvVars example_env ''/app'' unknown_framework
     = Inr ([env_file_not_ignored ''/app/.gitignore''], [])"
  by (simp add: checkEnvVars_def secrets_hygiene_def findEnvVarReferences_def env_file_step_def
      add_matches_def jsEnvRegex_def pyEnvRegex_def pyEnvBracketRegex_def existsSync_def
      readFileSync_def source_patterns_def unknown_framework_def example_env_def join_def Let_def)

lemma example_db:
  "checkDatabaseConfig example_env ''/app'' unknown_framework
     = Inr ([], [mk_passed ''no-database'' ''database'' ''No database libraries detected''])"
  by (simp add: checkDatabaseConfig_def detectDatabaseLibraries_def dedupe_def unknown_framework_def
      mk_passed_def)

lemma severity_simps [simp]:
  "severity (port_hardcoded f v l) = Error"
  "severity (host_binding f b ln fx) = (if b then Error else Warning)"
  "severity (env_file_not_ignored g) = Warning"
  by (simp_all add: port_hardcoded_def host_binding_def env_file_not_ignored_def)

lemma name_unknown [simp]: "name unknown_framework = Unknown"
  by (simp add: unknown_framework_def)

lemma example_scan: "scanProject example_env ''/app'' = Inr example_result"
  by (simp add: scanProject_def example_detect Let_def example_port example_host example_envvars
      example_db checkStartCommand_def frameworkChecks_def generateSummary_def example_result_def
      example_issues_def example_passed_def)

section \<open>The summary of a scan\<close>

lemma scanProject_result:
  assumes "scanProject env root = Inr r"
  obtains fw startCommandIssues envVarsResult databaseResult frameworkResult
  where "detectFramework env root = Inr fw"
    and "checkStartCommand env root fw = Inr startCommandIssues"
    and "checkEnvVars env root fw = Inr envVarsResult"
    and "checkDatabaseConfig env root fw = Inr databaseResult"
    and "frameworkChecks env root fw = Inr frameworkResult"
    and "framework r = fw"
    and "issues r = fst (checkPortUsage env root fw) @ fst (checkHostBinding env root fw)
                    @ startCommandIssues @ fst envVarsResult @ fst databaseResult
                    @ fst frameworkResult"
    and "passed r = snd (checkPortUsage env root fw) @ snd (checkHostBinding env root fw)
                    @ (if length startCommandIssues > 0 then []
                       else [mk_passed ''start-command-check'' ''start-command''
                               ''Start command looks good''])
                    @ snd envVarsResult @ snd databaseResult @ snd frameworkResult"
    and "summary r = generateSummary (issues r) (passed r)"
    and "warnings r = filter (\<lambda>i. severity i = Warning) (issues r)"
  using assms
  by (auto simp: scanProject_def Let_def and_then_Inr)

lemma scanProject_summary:
  assumes "scanProject env root = Inr r"
  shows "summary r = generateSummary (issues r) (passed r)"
    and "warnings r = filter (\<lambda>i. severity i = Warning) (issues r)"
  using assms
  by (auto elim: scanProject_result)

lemma severity_partition:
  "length (filter (\<lambda>i. severity i = Error) xs) + length (filter (\<lambda>i. severity i = Warning) xs)
     + length (filter (\<lambda>i. severity i = Info) xs) = length xs"
proof (induction xs)
  case Nil
  show ?case by simp
next
  case (Cons x xs)
  then show ?case by (cases "severity x") simp_all
qed

text \<open>
  C1. For every result that \<open>scanProject\<close> returns, the verdict is "will-fail" exactly when some
  issue has severity error; otherwise "might-fail" exactly when some issue has severity warning;
  otherwise "should-succeed". The three cases are exhaustive.
\<close>

theorem scan_likelihood:
  assumes "scanProject env root = Inr r"
  shows "(deploymentLikelihood (summary r) = WillFail
            \<longleftrightarrow> 0 < length (filter (\<lambda>i. severity i = Error) (issues r)))
       \<and> (deploymentLikelihood (summary r) = MightFail
            \<longleftrightarrow> length (filter (\<lambda>i. severity i = Error) (issues r)) = 0
                \<and> 0 < length (filter (\<lambda>i. severity i = Warning) (issues r)))
       \<and> (deploymentLikelihood (summary r) = ShouldSucceed
            \<longleftrightarrow> length (filter (\<lambda>i. severity i = Error) (issues r)) = 0
                \<and> length (filter (\<lambda>i. severity i = Warning) (issues r)) = 0)"
  unfolding scanProject_summary(1)[OF assms] generateSummary_def Let_def
  by simp

theorem scan_likelihood_witness:
  "scanProject example_env ''/app'' = Inr example_result
   \<and> deploymentLikelihood (summary example_result) = WillFail
   \<and> 0 < length (filter (\<lambda>i. severity i = Error) (issues example_result))"
  using scan_likelihood [OF example_scan] example_scan
  by (simp add: example_result_def)

text \<open>
  C2. For every result that \<open>scanProject\<close> returns, \<open>totalIssues\<close> is the number of issues; the
  error count, the warning count and the number of info issues add up to it; and the \<open>warnings\<close>
  field is the issues of severity warning, in their order.
\<close>

theorem scan_summary_counts:
  assumes "scanProject env root = Inr r"
  shows "totalIssues (summary r) = length (issues r)
       \<and> errors (summary r) = length (filter (\<lambda>i. severity i = Error) (issues r))
       \<and> warnings_count (summary r) = length (filter (\<lambda>i. severity i = Warning) (issues r))
       \<and> errors (summary r) + warnings_count (summary r)
            + length (filter (\<lambda>i. severity i = Info) (issues r)) = totalIssues (summary r)
       \<and> warnings r = filter (\<lambda>i. severity i = Warning) (issues r)
       \<and> subseq (warnings r) (issues r)"
  unfolding scanProject_summary[OF assms] generateSummary_def Let_def
  by (simp add: severity_partition)

theorem scan_summary_counts_witness:
  "scanProject example_env ''/app'' = Inr example_result
   \<and> totalIssues (summary example_result) = 3
   \<and> length (issues example_result) = 3
   \<and> length (warnings example_result) = 2"
  using scan_summary_counts [OF example_scan] example_scan
  by (simp add: example_result_def example_issues_def)

section \<open>Framework detection on a malformed manifest\<close>

lemma detectFramework_throws:
  assumes "files env (join env root ''package.json'') = Some txt" and "JSON_parse env txt = None"
  shows "detectFramework env root = Inl JsonSyntaxError"
  using assms by (simp add: detectFramework_def existsSync_def readFileSync_def)

lemma detectFramework_unreadable:
  assumes "existsSync env (join env root ''package.json'')"
    and "files env (join env root ''package.json'') = None"
  shows "detectFramework env root = Inl FileReadError"
  using assms by (simp add: detectFramework_def readFileSync_def)

lemma scanProject_throws:
  "detectFramework env root = Inl e \<Longrightarrow> scanProject env root = Inl e"
  by (simp add: scanProject_def)

text \<open>
  C3. The claim: a malformed package manifest is treated as the absence of Node frameworks, and
  detection falls through to the Python dependency list with no exception leaving
  \<open>detectFramework\<close>. On a Flask project whose manifest does not parse, the code lets the syntax
  error of \<open>JSON.parse\<close> leave \<open>detectFramework\<close> and end the scan, where the Python
  detection alone would have found Flask.
\<close>

theorem detectFramework_malformed_manifest:
  "detectFramework malformed_env ''/app'' = Inl JsonSyntaxError
   \<and> scanProject malformed_env ''/app'' = Inl JsonSyntaxError
   \<and> detectPython malformed_env ''/app'' = Inr \<lparr>name = Flask, version = None, mainFile = None\<rparr>"
proof -
  have d: "detectFramework malformed_env ''/app'' = Inl JsonSyntaxError"
    by (simp add: detectFramework_def existsSync_def readFileSync_def malformed_env_def join_def)
  have p: "detectPython malformed_env ''/app'' = Inr \<lparr>name = Flask, version = None, mainFile = None\<rparr>"
    by (simp add: detectPython_def existsSync_def readFileSync_def malformed_env_def join_def
        toLowerCase_def toLowerChar_def upper_letters_def lower_letters_def findEntryPoint_def
        main_field_entry_def)
  from d p scanProject_throws [OF d] show ?thesis by simp
qed

section \<open>Django without a settings file\<close>

text \<open>
  C7, as claimed: when no settings file is found, the Django check emits a single issue of severity
  warning. On a Django project with no \<open>settings.py\<close> the single issue has severity error.
\<close>

theorem django_no_settings_is_error:
  "findDjangoSettings no_settings_env ''/app'' = None
   \<and> checkDjango no_settings_env ''/app'' django_framework = Inr ([django_no_settings], [])
   \<and> map severity [django_no_settings] = [Error]"
  by (simp add: findDjangoSettings_def checkDjango_def no_settings_env_def django_no_settings_def
      mk_issue_def)

text \<open>
  C7, amended: when no settings file is found, the Django check returns at once with the single
  issue "django-no-settings", of severity error, carrying two generic remediation steps, and with
  no passed check; no exception is raised and no other Django check runs.
\<close>

theorem django_no_settings_early_return:
  assumes "findDjangoSettings env root = None"
  shows "checkDjango env root fw = Inr ([django_no_settings], [])
       \<and> issue_id django_no_settings = ''django-no-settings''
       \<and> severity django_no_settings = Error
       \<and> steps (issue_fix django_no_settings)
           = Some [''Verify your Django project structure is correct'',
                   ''settings.py should be in your Django app directory'']"
  using assms by (simp add: checkDjango_def django_no_settings_def mk_issue_def mk_fix_def)

theorem django_no_settings_early_return_witness:
  "findDjangoSettings no_settings_env ''/app'' = None
   \<and> checkDjango no_settings_env ''/app'' django_framework = Inr ([django_no_settings], [])"
proof -
  have h: "findDjangoSettings no_settings_env ''/app'' = None"
    by (simp add: findDjangoSettings_def no_settings_env_def)
  from django_no_settings_early_return [OF h, of django_framework] h show ?thesis by simp
qed

section \<open>Secrets hygiene\<close>

lemma checkEnvVars_hygiene:
  "checkEnvVars env root fw = Inr (iss, pas)
     \<longleftrightarrow> (\<exists>hiss. secrets_hygiene env root = Inr (hiss, pas)
              \<and> iss = hiss @ (let envVars = findEnvVarReferences env root fw;
                                  otherVars =
                                    filter (\<lambda>v. v \<notin> set [''PORT'', ''NODE_ENV'', ''DATABASE_URL'']
                                                \<and> \<not> str_includes v ''npm_'') envVars
                              in if length envVars > 0 \<and> length otherVars > 0
                                 then [env_vars_needed envVars otherVars] else []))"
  by (auto simp: checkEnvVars_def Let_def and_then_Inr)

lemma checkEnvVars_hygiene_issues:
  assumes "secrets_hygiene env root = Inr (hiss, pas)"
    and "\<forall>i \<in> set hiss. issue_id i \<noteq> ''env-vars-needed''"
  shows "\<exists>iss. checkEnvVars env root fw = Inr (iss, pas)
               \<and> filter (\<lambda>i. issue_id i \<noteq> ''env-vars-needed'') iss = hiss"
  using assms by (auto simp: checkEnvVars_hygiene Let_def env_vars_needed_def)

text \<open>
  C8. The secrets-hygiene part of the environment-variable check: with both \<open>.env\<close> and
  \<open>.gitignore\<close> present, a \<open>.gitignore\<close> that does not mention \<open>.env\<close> gives the warning
  "env-file-not-ignored" and one that does gives the pass "env-file-ignored"; with neither file
  present the pass "no-env-file" is given; with \<open>.gitignore\<close> present and \<open>.env\<close> absent
  neither an issue nor a pass is given. In each case the check returns. (The only other output
  of the check is the informational issue "env-vars-needed" of the usage inventory.)
\<close>

theorem env_file_hygiene:
  "(existsSync env (join env root ''.env'') \<and> files env (join env root ''.gitignore'') = Some gitignore
      \<and> \<not> str_includes gitignore ''.env''
     \<longrightarrow> (\<exists>iss. checkEnvVars env root fw = Inr (iss, [])
               \<and> filter (\<lambda>i. issue_id i \<noteq> ''env-vars-needed'') iss
                   = [env_file_not_ignored (join env root ''.gitignore'')])
         \<and> severity (env_file_not_ignored (join env root ''.gitignore'')) = Warning
         \<and> issue_id (env_file_not_ignored (join env root ''.gitignore'')) = ''env-file-not-ignored'')
   \<and> (existsSync env (join env root ''.env'') \<and> files env (join env root ''.gitignore'') = Some gitignore
      \<and> str_includes gitignore ''.env''
     \<longrightarrow> (\<exists>iss pas. checkEnvVars env root fw = Inr (iss, pas)
               \<and> filter (\<lambda>i. issue_id i \<noteq> ''env-vars-needed'') iss = []
               \<and> map passed_id pas = [''env-file-ignored'']))
   \<and> (\<not> existsSync env (join env root ''.env'') \<and> \<not> existsSync env (join env root ''.gitignore'')
     \<longrightarrow> (\<exists>iss pas. checkEnvVars env root fw = Inr (iss, pas)
               \<and> filter (\<lambda>i. issue_id i \<noteq> ''env-vars-needed'') iss = []
               \<and> map passed_id pas = [''no-env-file'']))
   \<and> (\<not> existsSync env (join env root ''.env'') \<and> existsSync env (join env root ''.gitignore'')
     \<longrightarrow> (\<exists>iss. checkEnvVars env root fw = Inr (iss, [])
               \<and> filter (\<lambda>i. issue_id i \<noteq> ''env-vars-needed'') iss = []))"
proof (intro conjI impI)
  assume h: "existsSync env (join env root ''.env'')
             \<and> files env (join env root ''.gitignore'') = Some gitignore
             \<and> \<not> str_includes gitignore ''.env''"
  then have "secrets_hygiene env root = Inr ([env_file_not_ignored (join env root ''.gitignore'')], [])"
    by (simp add: secrets_hygiene_def existsSync_def readFileSync_def Let_def)
  from checkEnvVars_hygiene_issues [OF this, of fw]
  show "\<exists>iss. checkEnvVars env root fw = Inr (iss, [])
              \<and> filter (\<lambda>i. issue_id i \<noteq> ''env-vars-needed'') iss
                  = [env_file_not_ignored (join env root ''.gitignore'')]"
    by (simp add: env_file_not_ignored_def)
next
  assume h: "existsSync env (join env root ''.env'')
             \<and> files env (join env root ''.gitignore'') = Some gitignore
             \<and> str_includes gitignore ''.env''"
  then have "\<exists>pas. secrets_hygiene env root = Inr ([], pas) \<and> map passed_id pas = [''env-file-ignored'']"
    by (simp add: secrets_hygiene_def existsSync_def readFileSync_def Let_def)
  then obtain pas where p: "secrets_hygiene env root = Inr ([], pas)"
    and q: "map passed_id pas = [''env-file-ignored'']"
    by auto
  have "\<exists>iss. checkEnvVars env root fw = Inr (iss, pas)
              \<and> filter (\<lambda>i. issue_id i \<noteq> ''env-vars-needed'') iss = []"
    using checkEnvVars_hygiene_issues [OF p, of fw] by simp
  then obtain iss where i: "checkEnvVars env root fw = Inr (iss, pas)"
    and f: "filter (\<lambda>i. issue_id i \<noteq> ''env-vars-needed'') iss = []"
    by (elim exE conjE)
  show "\<exists>iss pas. checkEnvVars env root fw = Inr (iss, pas)
              \<and> filter (\<lambda>i. issue_id i \<noteq> ''env-vars-needed'') iss = []
              \<and> map passed_id pas = [''env-file-ignored'']"
    by (intro exI conjI) (rule i, rule f, rule q)
next
  assume h: "\<not> existsSync env (join env root ''.env'') \<and> \<not> existsSync env (join env root ''.gitignore'')"
  then have "\<exists>pas. secrets_hygiene env root = Inr ([], pas) \<and> map passed_id pas = [''no-env-file'']"
    by (simp add: secrets_hygiene_def Let_def)
  then obtain pas where p: "secrets_hygiene env root = Inr ([], pas)"
    and q: "map passed_id pas = [''no-env-file'']"
    by auto
  have "\<exists>iss. checkEnvVars env root fw = Inr (iss, pas)
              \<and> filter (\<lambda>i. issue_id i \<noteq> ''env-vars-needed'') iss = []"
    using checkEnvVars_hygiene_issues [OF p, of fw] by simp
  then obtain iss where i: "checkEnvVars env root fw = Inr (iss, pas)"
    and f: "filter (\<lambda>i. issue_id i \<noteq> ''env-vars-needed'') iss = []"
    by (elim exE conjE)
  show "\<exists>iss pas. checkEnvVars env root fw = Inr (iss, pas)
              \<and> filter (\<lambda>i. issue_id i \<noteq> ''env-vars-needed'') iss = []
              \<and> map passed_id pas = [''no-env-file'']"
    by (intro exI conjI) (rule i, rule f, rule q)
next
  assume h: "\<not> existsSync env (join env root ''.env'') \<and> existsSync env (join env root ''.gitignore'')"
  then have "secrets_hygiene env root = Inr ([], [])"
    by (simp add: secrets_hygiene_def Let_def)
  from checkEnvVars_hygiene_issues [OF this, of fw]
  show "\<exists>iss. checkEnvVars env root fw = Inr (iss, [])
              \<and> filter (\<lambda>i. issue_id i \<noteq> ''env-vars-needed'') iss = []"
    by simp
qed (simp_all add: env_file_not_ignored_def)

theorem env_file_hygiene_witness:
  "checkEnvVars (hygiene_env (Some ''KEY=1'') (Some ''dist'')) ''/app'' unknown_framework
     = Inr ([env_file_not_ignored ''/app/.gitignore''], [])
   \<and> (\<exists>iss pas. checkEnvVars (hygiene_env (Some ''KEY=1'') (Some ''.env'')) ''/app'' unknown_framework
                  = Inr (iss, pas)
          \<and> map passed_id pas = [''env-file-ignored''])
   \<and> (\<exists>iss pas. checkEnvVars (hygiene_env None None) ''/app'' unknown_framework = Inr (iss, pas)
          \<and> map passed_id pas = [''no-env-file''])
   \<and> checkEnvVars (hygiene_env None (Some ''dist'')) ''/app'' unknown_framework = Inr ([], [])"
proof -
  have inv: "findEnvVarReferences (hygiene_env d g) ''/app'' unknown_framework = []" for d g
    by (simp add: findEnvVarReferences_def hygiene_env_def)
  have noinv: "checkEnvVars (hygiene_env d g) ''/app'' unknown_framework = Inr (iss, pas)
      \<Longrightarrow> filter (\<lambda>i. issue_id i \<noteq> ''env-vars-needed'') iss = iss" for d g iss pas
    by (auto simp: checkEnvVars_hygiene inv Let_def secrets_hygiene_def and_then_Inr
        env_file_not_ignored_def split: if_splits)
  have a: "checkEnvVars (hygiene_env (Some ''KEY=1'') (Some ''dist'')) ''/app'' unknown_framework
             = Inr ([env_file_not_ignored ''/app/.gitignore''], [])"
    using env_file_hygiene [of "hygiene_env (Some ''KEY=1'') (Some ''dist'')" "''/app''" "''dist''"
        unknown_framework] noinv [of "Some ''KEY=1''" "Some ''dist''"]
    by (auto simp: hygiene_env_def join_def existsSync_def)
  have b: "\<exists>iss pas. checkEnvVars (hygiene_env (Some ''KEY=1'') (Some ''.env'')) ''/app''
             unknown_framework = Inr (iss, pas) \<and> map passed_id pas = [''env-file-ignored'']"
    using env_file_hygiene [of "hygiene_env (Some ''KEY=1'') (Some ''.env'')" "''/app''" "''.env''"
        unknown_framework]
    by (auto simp: hygiene_env_def join_def existsSync_def)
  have c: "\<exists>iss pas. checkEnvVars (hygiene_env None None) ''/app'' unknown_framework = Inr (iss, pas)
             \<and> map passed_id pas = [''no-env-file'']"
    using env_file_hygiene [of "hygiene_env None None" "''/app''" _ unknown_framework]
    by (auto simp: hygiene_env_def join_def existsSync_def)
  have d: "checkEnvVars (hygiene_env None (Some ''dist'')) ''/app'' unknown_framework = Inr ([], [])"
    using env_file_hygiene [of "hygiene_env None (Some ''dist'')" "''/app''" _ unknown_framework]
      noinv [of None "Some ''dist''"]
    by (auto simp: hygiene_env_def join_def existsSync_def)
  from a b c d show ?thesis by simp
qed

section \<open>Start command of an unknown framework\<close>

lemma unknown_checks:
  assumes "name fw = Unknown"
  shows "checkStartCommand env root fw = Inr []"
    and "\<exists>res. checkDatabaseConfig env root fw = Inr res"
    and "frameworkChecks env root fw = Inr ([], [])"
  using assms
  by (simp_all add: checkStartCommand_def checkDatabaseConfig_def detectDatabaseLibraries_def
      dedupe_def frameworkChecks_def)

lemma checkEnvVars_returns:
  "(\<exists>res. checkEnvVars env root fw = Inr res)
     \<longleftrightarrow> \<not> (existsSync env (join env root ''.env'') \<and> existsSync env (join env root ''.gitignore'')
            \<and> files env (join env root ''.gitignore'') = None)"
  by (auto simp: checkEnvVars_def secrets_hygiene_def Let_def readFileSync_def and_then_def
      split: option.splits sum.splits)

lemma scan_unreadable_gitignore:
  assumes "detectFramework env root = Inr fw" and "name fw = Unknown"
    and "existsSync env (join env root ''.env'')" and "existsSync env (join env root ''.gitignore'')"
    and "files env (join env root ''.gitignore'') = None"
  shows "scanProject env root = Inl FileReadError"
  using assms unknown_checks(1) [OF assms(2), of env root]
  by (simp add: scanProject_def Let_def checkEnvVars_def secrets_hygiene_def readFileSync_def)

text \<open>
  C10. For a framework of the "unknown" variant \<open>checkStartCommand\<close> returns no issue, and every
  result of a scan that detects the unknown variant holds "start-command-check" among its passed
  checks, whatever files exist. Such a scan returns a result unless \<open>.env\<close> exists and
  \<open>.gitignore\<close> exists but cannot be read (the read of \<open>.gitignore\<close> in the
  environment-variable check, which runs after the start-command step, then throws).
\<close>

theorem unknown_start_command_passes:
  "(name fw = Unknown \<longrightarrow> checkStartCommand env root fw = Inr [])
   \<and> (scanProject env root = Inr r \<and> name (framework r) = Unknown
        \<longrightarrow> mk_passed ''start-command-check'' ''start-command'' ''Start command looks good''
              \<in> set (passed r))
   \<and> (detectFramework env root = Inr fw \<and> name fw = Unknown
        \<and> \<not> (existsSync env (join env root ''.env'') \<and> existsSync env (join env root ''.gitignore'')
              \<and> files env (join env root ''.gitignore'') = None)
        \<longrightarrow> (\<exists>r. scanProject env root = Inr r \<and> framework r = fw))"
proof (intro conjI impI)
  assume "name fw = Unknown"
  then show "checkStartCommand env root fw = Inr []"
    by (rule unknown_checks(1))
next
  assume h: "scanProject env root = Inr r \<and> name (framework r) = Unknown"
  then have s: "scanProject env root = Inr r" and u: "name (framework r) = Unknown"
    by simp_all
  from s u unknown_checks(1) [of "framework r" env root]
  show "mk_passed ''start-command-check'' ''start-command'' ''Start command looks good''
          \<in> set (passed r)"
    by (auto elim!: scanProject_result)
next
  assume h: "detectFramework env root = Inr fw \<and> name fw = Unknown
        \<and> \<not> (existsSync env (join env root ''.env'') \<and> existsSync env (join env root ''.gitignore'')
              \<and> files env (join env root ''.gitignore'') = None)"
  then obtain res where e: "checkEnvVars env root fw = Inr res"
    using checkEnvVars_returns [of env root fw] by blast
  from h obtain dres where d: "checkDatabaseConfig env root fw = Inr dres"
    using unknown_checks(2) [of fw env root] by blast
  from h e d unknown_checks(1) [of fw env root] unknown_checks(3) [of fw env root]
  show "\<exists>r. scanProject env root = Inr r \<and> framework r = fw"
    by (simp add: scanProject_def Let_def)
qed

theorem unknown_start_command_passes_witness:
  "detectFramework example_env ''/app'' = Inr unknown_framework
   \<and> name unknown_framework = Unknown
   \<and> \<not> existsSync example_env (join example_env ''/app'' ''package.json'')
   \<and> \<not> existsSync example_env (join example_env ''/app'' ''Procfile'')
   \<and> checkStartCommand example_env ''/app'' unknown_framework = Inr []
   \<and> scanProject example_env ''/app'' = Inr example_result
   \<and> mk_passed ''start-command-check'' ''start-command'' ''Start command looks good''
       \<in> set (passed example_result)"
  using unknown_start_command_passes [of unknown_framework example_env "''/app''" example_result]
    example_detect example_scan
  by (simp add: example_env_def join_def existsSync_def example_result_def unknown_framework_def)

section \<open>Substrings and pattern search\<close>

lemma str_includes_iff: "str_includes s sub \<longleftrightarrow> (\<exists>t. suffix t s \<and> prefix sub t)"
proof (induction s)
  case Nil
  show ?case by auto
next
  case (Cons c cs)
  show ?case
  proof
    assume "str_includes (c # cs) sub"
    then consider "prefix sub (c # cs)" | "str_includes cs sub" by auto
    then show "\<exists>t. suffix t (c # cs) \<and> prefix sub t"
    proof cases
      case 1
      then show ?thesis by (intro exI [of _ "c # cs"]) simp
    next
      case 2
      with Cons.IH obtain t where "suffix t cs" "prefix sub t" by blast
      then show ?thesis by (intro exI [of _ t]) (simp add: suffix_ConsI)
    qed
  next
    assume "\<exists>t. suffix t (c # cs) \<and> prefix sub t"
    then obtain t where t: "suffix t (c # cs)" "prefix sub t" by blast
    from t(1) have "t = c # cs \<or> suffix t cs" by (simp add: suffix_Cons)
    with t(2) Cons.IH show "str_includes (c # cs) sub" by auto
  qed
qed

lemma str_includes_append: "str_includes (pre @ sub @ post) sub"
  unfolding str_includes_iff
  by (intro exI [of _ "sub @ post"]) (simp add: suffix_def)

lemma find_first_iff: "find_first m s \<noteq> None \<longleftrightarrow> (\<exists>t. suffix t s \<and> m t \<noteq> None)"
proof (induction s)
  case Nil
  show ?case by (auto split: option.splits)
next
  case (Cons c cs)
  show ?case
  proof (cases "m (c # cs)")
    case None
    have "(\<exists>t. suffix t (c # cs) \<and> m t \<noteq> None) \<longleftrightarrow> (\<exists>t. suffix t cs \<and> m t \<noteq> None)"
      using None by (auto simp: suffix_Cons)
    with None Cons.IH show ?thesis by (auto split: option.splits)
  next
    case (Some r)
    then have "\<exists>t. suffix t (c # cs) \<and> m t \<noteq> None"
      by (intro exI [of _ "c # cs"]) simp
    with Some show ?thesis by simp
  qed
qed

lemma regex_test_iff: "regex_test m s \<longleftrightarrow> (\<exists>t. suffix t s \<and> m t \<noteq> None)"
  unfolding regex_test_def by (rule find_first_iff)

lemma strip_prefix_iff: "strip_prefix p s = Some r \<longleftrightarrow> s = p @ r"
  by (induction p s rule: strip_prefix.induct) auto

lemma strip_prefix_None_iff: "strip_prefix p s \<noteq> None \<longleftrightarrow> prefix p s"
  by (induction p s rule: strip_prefix.induct) auto

lemma strip_prefix_ci_prefix:
  "strip_prefix_ci p s \<noteq> None \<longleftrightarrow> prefix (map ascii_lower p) (map ascii_lower s)"
  by (induction p s rule: strip_prefix_ci.induct) auto

lemma strip_prefix_ci_suffix: "strip_prefix_ci p s = Some r \<Longrightarrow> suffix r s"
  by (induction p s rule: strip_prefix_ci.induct) (auto simp: suffix_ConsI split: if_splits)

lemma suffix_map_iff: "(\<exists>t. suffix t (map f s) \<and> P t) \<longleftrightarrow> (\<exists>u. suffix u s \<and> P (map f u))"
proof
  assume "\<exists>t. suffix t (map f s) \<and> P t"
  then obtain t where t: "suffix t (map f s)" "P t" by blast
  from t(1) obtain us where "map f s = us @ t" by (auto simp: suffix_def)
  then have "t = map f (drop (length us) s)"
    by (metis append_eq_conv_conj drop_map)
  with t(2) show "\<exists>u. suffix u s \<and> P (map f u)"
    by (intro exI [of _ "drop (length us) s"]) (simp add: suffix_drop)
next
  assume "\<exists>u. suffix u s \<and> P (map f u)"
  then obtain u where "suffix u s" "P (map f u)" by blast
  then show "\<exists>t. suffix t (map f s) \<and> P t"
    by (intro exI [of _ "map f u"]) (simp add: map_mono_suffix)
qed

lemma includes_lower_iff:
  "str_includes (map ascii_lower s) (map ascii_lower lit)
     \<longleftrightarrow> (\<exists>t. suffix t s \<and> strip_prefix_ci lit t \<noteq> None)"
  unfolding str_includes_iff strip_prefix_ci_prefix
  by (rule suffix_map_iff)

section \<open>Database connection scan\<close>

lemma ascii_lower_cases:
  "ascii_lower d = d
   \<or> (ascii_lower d \<in> set ''abcdefghijklmnopqrstuvwxyz'' \<and> d \<in> set ''ABCDEFGHIJKLMNOPQRSTUVWXYZ'')"
proof (cases "map_of (zip ''ABCDEFGHIJKLMNOPQRSTUVWXYZ'' ''abcdefghijklmnopqrstuvwxyz'') d")
  case None
  then show ?thesis by (simp add: ascii_lower_def)
next
  case (Some l)
  then have "(d, l) \<in> set (zip ''ABCDEFGHIJKLMNOPQRSTUVWXYZ'' ''abcdefghijklmnopqrstuvwxyz'')"
    by (rule map_of_SomeD)
  then have "d \<in> set ''ABCDEFGHIJKLMNOPQRSTUVWXYZ''" "l \<in> set ''abcdefghijklmnopqrstuvwxyz''"
    by (rule set_zip_leftD, rule set_zip_rightD)
  with Some show ?thesis by (simp add: ascii_lower_def)
qed

lemma digit_not_letter:
  assumes "c \<in> set ''0123456789.''"
  shows "c \<notin> set ''abcdefghijklmnopqrstuvwxyz''" and "c \<notin> set ''ABCDEFGHIJKLMNOPQRSTUVWXYZ''"
  using assms by auto

lemma ascii_lower_fixed:
  assumes "c \<in> set ''0123456789.''"
  shows "ascii_lower d = c \<longleftrightarrow> d = c"
  using ascii_lower_cases [of d] ascii_lower_cases [of c] digit_not_letter [OF assms]
  by metis

lemma prefix_lower_digits:
  "set lit \<subseteq> set ''0123456789.'' \<Longrightarrow> prefix lit (map ascii_lower t) \<longleftrightarrow> prefix lit t"
proof (induction lit arbitrary: t)
  case Nil
  show ?case by simp
next
  case (Cons a lit)
  show ?case
  proof (cases t)
    case Nil
    then show ?thesis by simp
  next
    case (Cons d t')
    from Cons.prems have a: "a \<in> set ''0123456789.''" and l: "set lit \<subseteq> set ''0123456789.''"
      by auto
    from ascii_lower_fixed [OF a, of d] Cons.IH [OF l, of t'] Cons show ?thesis
      by auto
  qed
qed

lemma strip_lit_iff:
  "strip_lit ci lit t \<noteq> None
     \<longleftrightarrow> (if ci then prefix (map ascii_lower lit) (map ascii_lower t) else prefix lit t)"
  by (simp add: strip_lit_def strip_prefix_ci_prefix strip_prefix_None_iff del: not_None_eq)

lemma optQuotedLiteral_test:
  "regex_test (optQuotedLiteral ci lit) s \<longleftrightarrow> (\<exists>t. suffix t s \<and> strip_lit ci lit t \<noteq> None)"
proof
  assume "regex_test (optQuotedLiteral ci lit) s"
  then obtain t where t: "suffix t s" "optQuotedLiteral ci lit t \<noteq> None"
    unfolding regex_test_iff by blast
  show "\<exists>t. suffix t s \<and> strip_lit ci lit t \<noteq> None"
  proof (cases "strip_lit ci lit t")
    case (Some r)
    with t(1) show ?thesis by (intro exI [of _ t]) simp
  next
    case None
    with t(2) obtain q t' where q: "t = q # t'" "strip_lit ci lit t' \<noteq> None"
      by (auto simp: optQuotedLiteral_def split: list.splits if_splits option.splits)
    from t(1) q(1) have "suffix t' s" by (metis suffix_ConsD)
    with q(2) show ?thesis by blast
  qed
next
  assume "\<exists>t. suffix t s \<and> strip_lit ci lit t \<noteq> None"
  then obtain t where t: "suffix t s" "strip_lit ci lit t \<noteq> None" by blast
  then have "optQuotedLiteral ci lit t \<noteq> None"
    by (auto simp: optQuotedLiteral_def split: list.splits option.splits)
  with t(1) show "regex_test (optQuotedLiteral ci lit) s"
    unfolding regex_test_iff by blast
qed

lemma hostAssignment_literal:
  assumes "regex_test (hostAssignment lit) s"
  shows "\<exists>t. suffix t s \<and> strip_prefix_ci lit t \<noteq> None"
proof -
  from assms obtain t where t: "suffix t s" "hostAssignment lit t \<noteq> None"
    unfolding regex_test_iff by blast
  from t(2) obtain r1 c r2 q r3 where
    r: "strip_prefix_ci ''host'' t = Some r1" "dropWhile is_space r1 = c # r2"
       "dropWhile is_space r2 = q # r3" "strip_prefix_ci lit r3 \<noteq> None"
    by (auto simp: hostAssignment_def split: option.splits list.splits if_splits)
  have "suffix r1 t" using r(1) by (rule strip_prefix_ci_suffix)
  moreover have "suffix (c # r2) r1" using suffix_dropWhile [of is_space r1] r(2) by simp
  moreover have "suffix r2 (c # r2)" by (simp add: suffix_ConsI)
  moreover have "suffix (q # r3) r2" using suffix_dropWhile [of is_space r2] r(3) by simp
  moreover have "suffix r3 (q # r3)" by (simp add: suffix_ConsI)
  ultimately have "suffix r3 s" using t(1) by (meson suffix_order.trans)
  with r(4) show ?thesis by blast
qed

lemma localhost_patterns_iff:
  "(\<exists>pattern \<in> set localhostPatterns. regex_test pattern ln) \<longleftrightarrow> localhost_literal ln"
proof -
  have lo: "map ascii_lower ''localhost'' = ''localhost''"
    by (simp add: ascii_lower_def)
  have ip: "map ascii_lower ''127.0.0.1'' = ''127.0.0.1''"
    by (simp add: ascii_lower_def)
  have inc: "str_includes (map ascii_lower ln) ''localhost''
               \<longleftrightarrow> (\<exists>t. suffix t ln \<and> strip_prefix_ci ''localhost'' t \<noteq> None)"
    using includes_lower_iff [of ln "''localhost''"] unfolding lo .
  have p1: "regex_test (optQuotedLiteral True ''localhost'') ln
              \<longleftrightarrow> str_includes (map ascii_lower ln) ''localhost''"
    unfolding optQuotedLiteral_test strip_lit_def inc by simp
  have p2: "regex_test (optQuotedLiteral False ''127.0.0.1'') ln \<longleftrightarrow> str_includes ln ''127.0.0.1''"
    by (simp add: optQuotedLiteral_test strip_lit_def strip_prefix_None_iff str_includes_iff
        del: not_None_eq)
  have p3: "regex_test (hostAssignment ''localhost'') ln
              \<Longrightarrow> str_includes (map ascii_lower ln) ''localhost''"
    using hostAssignment_literal [of "''localhost''" ln] inc by blast
  have p4: "regex_test (hostAssignment ''127.0.0.1'') ln \<Longrightarrow> str_includes ln ''127.0.0.1''"
  proof -
    assume "regex_test (hostAssignment ''127.0.0.1'') ln"
    then obtain t where t: "suffix t ln" "strip_prefix_ci ''127.0.0.1'' t \<noteq> None"
      using hostAssignment_literal by blast
    from t(2) have "prefix ''127.0.0.1'' (map ascii_lower t)"
      unfolding strip_prefix_ci_prefix ip .
    then have "prefix ''127.0.0.1'' t"
      by (subst (asm) prefix_lower_digits) auto
    with t(1) show ?thesis unfolding str_includes_iff by blast
  qed
  show ?thesis
    using p3 p4 by (auto simp: localhostPatterns_def localhost_literal_def p1 p2)
qed

lemma localhost_line_iff: "localhost_line ln \<longleftrightarrow> localhost_literal ln \<and> connection_keyword ln"
  by (simp add: localhost_line_def localhost_patterns_iff connection_keyword_def)

lemma localhost_line_Nil: "\<not> localhost_line []"
  by (simp add: localhost_line_def)

lemma line_loop_hit:
  "fst (line_loop filename i lns st) \<longleftrightarrow> fst st \<or> (\<exists>ln \<in> set lns. localhost_line ln)"
proof (induction lns arbitrary: i st)
  case Nil
  show ?case by simp
next
  case (Cons ln lns)
  show ?case
  proof (cases "ln = []")
    case True
    with Cons.IH [of "Suc i" st] show ?thesis by (simp add: localhost_line_Nil)
  next
    case False
    with Cons.IH [of "Suc i" st] show ?thesis by (auto simp: Let_def)
  qed
qed

lemma db_file_step_flags:
  "hasLocalhost (db_file_step env root f st)
     \<longleftrightarrow> hasLocalhost st \<or> localhost_hit (List.map_filter (\<lambda>f. files env (join env root f)) [f])"
  "hasDbUrl (db_file_step env root f st)
     \<longleftrightarrow> hasDbUrl st \<or> database_url_reference (List.map_filter (\<lambda>f. files env (join env root f)) [f])"
  "hasSocketConnection (db_file_step env root f st)
     \<longleftrightarrow> hasSocketConnection st
         \<or> socket_reference (List.map_filter (\<lambda>f. files env (join env root f)) [f])"
proof -
  show "hasLocalhost (db_file_step env root f st)
     \<longleftrightarrow> hasLocalhost st \<or> localhost_hit (List.map_filter (\<lambda>f. files env (join env root f)) [f])"
  proof (cases "files env (join env root f)")
    case None
    then show ?thesis by (simp add: db_file_step_def localhost_hit_def map_filter_simps)
  next
    case (Some content)
    have "hasLocalhost (db_file_step env root f st)
            = fst (line_loop f 0 (split_lines content) (hasLocalhost st, localhostFile st, localhostLine st))"
      using Some by (simp add: db_file_step_def split: prod.splits)
    with Some show ?thesis
      by (simp add: line_loop_hit localhost_hit_def map_filter_simps localhost_line_iff)
  qed
  show "hasDbUrl (db_file_step env root f st)
     \<longleftrightarrow> hasDbUrl st \<or> database_url_reference (List.map_filter (\<lambda>f. files env (join env root f)) [f])"
    by (cases "files env (join env root f)")
       (auto simp: db_file_step_def database_url_reference_def map_filter_simps split: prod.splits)
  show "hasSocketConnection (db_file_step env root f st)
     \<longleftrightarrow> hasSocketConnection st
         \<or> socket_reference (List.map_filter (\<lambda>f. files env (join env root f)) [f])"
    by (cases "files env (join env root f)")
       (auto simp: db_file_step_def socket_reference_def map_filter_simps split: prod.splits)
qed

lemma map_filter_Cons_append:
  "List.map_filter g (x # xs) = List.map_filter g [x] @ List.map_filter g xs"
  by (simp add: map_filter_simps split: option.splits)

lemma hit_append:
  "localhost_hit (xs @ ys) \<longleftrightarrow> localhost_hit xs \<or> localhost_hit ys"
  "database_url_reference (xs @ ys) \<longleftrightarrow> database_url_reference xs \<or> database_url_reference ys"
  "socket_reference (xs @ ys) \<longleftrightarrow> socket_reference xs \<or> socket_reference ys"
  by (auto simp: localhost_hit_def database_url_reference_def socket_reference_def)

lemma db_fold_flags:
  "hasLocalhost (fold (db_file_step env root) fs st)
     \<longleftrightarrow> hasLocalhost st \<or> localhost_hit (List.map_filter (\<lambda>f. files env (join env root f)) fs)"
  "hasDbUrl (fold (db_file_step env root) fs st)
     \<longleftrightarrow> hasDbUrl st \<or> database_url_reference (List.map_filter (\<lambda>f. files env (join env root f)) fs)"
  "hasSocketConnection (fold (db_file_step env root) fs st)
     \<longleftrightarrow> hasSocketConnection st
         \<or> socket_reference (List.map_filter (\<lambda>f. files env (join env root f)) fs)"
proof (induction fs arbitrary: st)
  case Nil
  {
    case 1
    show ?case by (simp add: localhost_hit_def map_filter_simps)
  next
    case 2
    show ?case by (simp add: database_url_reference_def map_filter_simps)
  next
    case 3
    show ?case by (simp add: socket_reference_def map_filter_simps)
  }
next
  case (Cons f fs)
  {
    case 1
    show ?case
      using Cons.IH(1) [of "db_file_step env root f st"]
      by (subst map_filter_Cons_append) (simp add: db_file_step_flags hit_append)
  next
    case 2
    show ?case
      using Cons.IH(2) [of "db_file_step env root f st"]
      by (subst map_filter_Cons_append) (simp add: db_file_step_flags hit_append)
  next
    case 3
    show ?case
      using Cons.IH(3) [of "db_file_step env root f st"]
      by (subst map_filter_Cons_append) (simp add: db_file_step_flags hit_append)
  }
qed

lemma db_issue_simps:
  "issue_id (database_localhost env root libs st) = ''database-localhost''"
  "severity (database_localhost env root libs st) = Error"
  "issue_id database_socket = ''database-socket''"
  "severity database_socket = Error"
  "issue_id (database_url_recommended libs) = ''database-url-recommended''"
  "severity (database_url_recommended libs) = Info"
  by (simp_all add: database_localhost_def database_socket_def database_url_recommended_def)

text \<open>
  C6. The connection-string scan runs when a database library is detected. Over the scanned files
  (the first thirty that the glob returns and that can be read): a line holding a localhost or
  loopback literal together with a connection keyword gives the error "database-localhost" unless
  some scanned file refers to \<open>DATABASE_URL\<close>; a reference to a Unix-socket path gives the error
  "database-socket" in every case; and the informational "database-url-recommended" is given
  exactly when there is neither such a line nor a reference to \<open>DATABASE_URL\<close>. No other issue
  is given.
\<close>

theorem database_connection_issues:
  assumes "glob env (source_patterns fw) \<lparr>cwd = root, ignore = scan_ignore, maxDepth = 5\<rparr> = Some found"
    and "detectDatabaseLibraries env root fw = Inr libs" and "libs \<noteq> []"
  shows "\<exists>iss pas. checkDatabaseConfig env root fw = Inr (iss, pas)
         \<and> map (\<lambda>i. (issue_id i, severity i)) iss
         = (if localhost_hit (scanned_contents env root found)
               \<and> \<not> database_url_reference (scanned_contents env root found)
            then [(''database-localhost'', Error)] else [])
           @ (if socket_reference (scanned_contents env root found)
              then [(''database-socket'', Error)] else [])
           @ (if \<not> localhost_hit (scanned_contents env root found)
                 \<and> \<not> database_url_reference (scanned_contents env root found)
              then [(''database-url-recommended'', Info)] else [])"
proof -
  have "\<exists>pas. checkDatabaseConfig env root fw
          = Inr (findDatabaseConnectionIssues env root fw libs, pas)"
    using assms(2,3) by (simp add: checkDatabaseConfig_def Let_def)
  then obtain pas where
    c: "checkDatabaseConfig env root fw = Inr (findDatabaseConnectionIssues env root fw libs, pas)"
    by (elim exE)
  have "map (\<lambda>i. (issue_id i, severity i)) (findDatabaseConnectionIssues env root fw libs)
         = (if localhost_hit (scanned_contents env root found)
               \<and> \<not> database_url_reference (scanned_contents env root found)
            then [(''database-localhost'', Error)] else [])
           @ (if socket_reference (scanned_contents env root found)
              then [(''database-socket'', Error)] else [])
           @ (if \<not> localhost_hit (scanned_contents env root found)
                 \<and> \<not> database_url_reference (scanned_contents env root found)
              then [(''database-url-recommended'', Info)] else [])"
    using assms(1,3)
    by (simp add: findDatabaseConnectionIssues_def Let_def db_fold_flags scanned_contents_def
        db_issue_simps)
  with c show ?thesis by blast
qed

lemma db_env_libraries:
  "detectDatabaseLibraries (db_env content) ''/app'' express_framework = Inr [''PostgreSQL'']"
  by (simp add: detectDatabaseLibraries_def node_libraries_def db_env_def db_manifest_def
      express_framework_def join_def dbLibs_def truthy_def dedupe_def set_add_def)

lemma db_env_scanned:
  "scanned_contents (db_env content) ''/app'' [''db.js''] = [content]"
  by (simp add: scanned_contents_def db_env_def join_def map_filter_simps)

theorem database_connection_issues_witness:
  "(\<exists>iss pas. checkDatabaseConfig (db_env ''connect({ host: 'localhost' })'') ''/app'' express_framework
                 = Inr (iss, pas)
        \<and> map (\<lambda>i. (issue_id i, severity i)) iss = [(''database-localhost'', Error)])
   \<and> (\<exists>iss pas. checkDatabaseConfig (db_env ''connect(process.env.DATABASE_URL)'') ''/app''
                   express_framework = Inr (iss, pas)
        \<and> map (\<lambda>i. (issue_id i, severity i)) iss = [])
   \<and> (\<exists>iss pas. checkDatabaseConfig (db_env ''x = '/tmp/mysql.sock' '') ''/app'' express_framework
                 = Inr (iss, pas)
        \<and> map (\<lambda>i. (issue_id i, severity i)) iss
            = [(''database-socket'', Error), (''database-url-recommended'', Info)])"
proof -
  have g: "glob (db_env content) (source_patterns express_framework)
             \<lparr>cwd = ''/app'', ignore = scan_ignore, maxDepth = 5\<rparr> = Some [''db.js'']" for content
    by (simp add: db_env_def)
  have l: "[''PostgreSQL''] \<noteq> []"
    by simp
  note k = database_connection_issues [OF g db_env_libraries l, unfolded db_env_scanned]
  have a: "\<exists>iss pas. checkDatabaseConfig (db_env ''connect({ host: 'localhost' })'') ''/app''
                 express_framework = Inr (iss, pas)
        \<and> map (\<lambda>i. (issue_id i, severity i)) iss = [(''database-localhost'', Error)]"
    using k [of "''connect({ host: 'localhost' })''"]
    by (simp add: localhost_hit_def database_url_reference_def socket_reference_def
        localhost_literal_def connection_keyword_def split_lines_def ascii_lower_def)
  have b: "\<exists>iss pas. checkDatabaseConfig (db_env ''connect(process.env.DATABASE_URL)'') ''/app''
                   express_framework = Inr (iss, pas)
        \<and> map (\<lambda>i. (issue_id i, severity i)) iss = []"
    using k [of "''connect(process.env.DATABASE_URL)''"]
    by (simp add: localhost_hit_def database_url_reference_def socket_reference_def
        localhost_literal_def connection_keyword_def split_lines_def ascii_lower_def)
  have c: "\<exists>iss pas. checkDatabaseConfig (db_env ''x = '/tmp/mysql.sock' '') ''/app'' express_framework
                 = Inr (iss, pas)
        \<and> map (\<lambda>i. (issue_id i, severity i)) iss
            = [(''database-socket'', Error), (''database-url-recommended'', Info)]"
    using k [of "''x = '/tmp/mysql.sock' ''"]
    by (simp add: localhost_hit_def database_url_reference_def socket_reference_def
        localhost_literal_def connection_keyword_def split_lines_def ascii_lower_def)
  from a b c show ?thesis by (intro conjI)
qed

section \<open>Host binding\<close>

lemma suffix_iff_append: "suffix t s \<longleftrightarrow> (\<exists>pre. s = pre @ t)"
  by (auto simp: suffix_def)

lemma listenTest_iff:
  "listenTest t \<noteq> None
     \<longleftrightarrow> (\<exists>w post. t = ''.listen'' @ w @ ''('' @ post \<and> (\<forall>c \<in> set w. is_space c))"
proof
  assume "listenTest t \<noteq> None"
  then obtain r1 r2 where r: "strip_prefix ''.listen'' t = Some r1"
      "strip_prefix ''('' (dropWhile is_space r1) = Some r2"
    by (auto simp: listenTest_def split: option.splits)
  from r(2) have d: "dropWhile is_space r1 = ''('' @ r2" by (simp only: strip_prefix_iff)
  have "r1 = takeWhile is_space r1 @ dropWhile is_space r1" by simp
  with d have "r1 = takeWhile is_space r1 @ ''('' @ r2" by simp
  moreover from r(1) have "t = ''.listen'' @ r1" by (simp only: strip_prefix_iff)
  moreover have "\<forall>c \<in> set (takeWhile is_space r1). is_space c" by (auto dest: set_takeWhileD)
  ultimately show "\<exists>w post. t = ''.listen'' @ w @ ''('' @ post \<and> (\<forall>c \<in> set w. is_space c)"
    by blast
next
  assume "\<exists>w post. t = ''.listen'' @ w @ ''('' @ post \<and> (\<forall>c \<in> set w. is_space c)"
  then obtain w post where t: "t = ''.listen'' @ w @ ''('' @ post" and w: "\<forall>c \<in> set w. is_space c"
    by blast
  have "\<not> is_space CHR ''(''" by (simp add: is_space_def)
  with w have "dropWhile is_space (w @ CHR ''('' # post) = CHR ''('' # post"
    by (simp add: dropWhile_append3)
  with t show "listenTest t \<noteq> None"
    by (simp add: listenTest_def)
qed

lemma listen_call_test: "regex_test listenTest code \<longleftrightarrow> has_listen_call code"
  unfolding regex_test_iff listenTest_iff suffix_iff_append has_listen_call_def
  by auto

lemma hasCorrectBinding_iff:
  "hasCorrectBinding code \<longleftrightarrow> quoted_in [CHR 0x22, CHR 0x27, CHR 0x60] ''0.0.0.0'' code"
  by (simp add: hasCorrectBinding_def quoted_in_def)

lemma hasLocalhostBinding_iff:
  "hasLocalhostBinding code
     \<longleftrightarrow> quoted_in [CHR 0x22, CHR 0x27] ''localhost'' code
         \<or> quoted_in [CHR 0x22, CHR 0x27] ''127.0.0.1'' code"
  by (auto simp: hasLocalhostBinding_def quoted_in_def)

lemma quoted_in_mono: "set qs \<subseteq> set qs' \<Longrightarrow> quoted_in qs lit code \<Longrightarrow> quoted_in qs' lit code"
  by (auto simp: quoted_in_def)

lemma host_file_issue:
  assumes "has_listen_call code" and "\<not> hasCorrectBinding code"
  shows "\<exists>ln fx. scanFileForHostIssues code filename fw
                   = [host_binding filename (hasLocalhostBinding code) ln fx]"
  using assms by (simp add: scanFileForHostIssues_def listen_call_test Let_def) blast

lemma host_file_clean: "hasCorrectBinding code \<Longrightarrow> scanFileForHostIssues code filename fw = []"
  by (simp add: scanFileForHostIssues_def Let_def)

lemma host_fold_clean:
  assumes "\<forall>f \<in> set fs. \<forall>code. files env (join env root f) = Some code
             \<longrightarrow> scanFileForHostIssues code f fw = []"
  shows "fold (host_file_step env root fw) fs st = st"
  using assms
proof (induction fs arbitrary: st)
  case Nil
  show ?case by simp
next
  case (Cons f fs)
  then have "host_file_step env root fw f st = st"
    by (cases st) (auto simp: host_file_step_def split: option.splits)
  with Cons show ?case by simp
qed

lemma host_check_clean:
  assumes "glob env (source_patterns fw)
             \<lparr>cwd = root, ignore = scan_ignore @ [''*.test.*'', ''*.spec.*''], maxDepth = 5\<rparr>
           = Some found"
    and "\<forall>f \<in> set (take 50 found). \<forall>code. files env (join env root f) = Some code
             \<longrightarrow> scanFileForHostIssues code f fw = []"
  shows "checkHostBinding env root fw
         = (if nextjs_host_flag_missing env root fw then ([nextjs_host_flag], [])
            else ([], [host_check_passed]))"
  using assms(1) host_fold_clean [OF assms(2), of "([], False)"]
  by (auto simp: checkHostBinding_def nextjs_host_flag_missing_def host_check_passed_def
      mk_passed_def Let_def split: option.splits)

lemma host_binding_simps:
  "issue_id (host_binding f b ln fx) = ''host-binding''"
  "issue_file (host_binding f b ln fx) = Some f"
  by (simp_all add: host_binding_def)

lemma nextjs_detect: "detectFramework (nextjs_env s) ''/app'' = Inr nextjs_framework"
  by (simp add: detectFramework_def detectNode_def findEntryPoint_def main_field_entry_def
      nextjs_env_def nextjs_manifest_def nextjs_framework_def join_def truthy_def existsSync_def
      readFileSync_def)

lemma bound_file_clean:
  "scanFileForHostIssues ''app.listen(port, '0.0.0.0')'' ''server.js'' fw = []"
  by (rule host_file_clean) (simp add: hasCorrectBinding_def)

lemma nextjs_env_glob:
  "glob (nextjs_env s) (source_patterns nextjs_framework)
     \<lparr>cwd = ''/app'', ignore = scan_ignore @ [''*.test.*'', ''*.spec.*''], maxDepth = 5\<rparr>
   = Some [''server.js'']"
  by (simp add: nextjs_env_def)

lemma nextjs_env_files:
  "\<forall>f \<in> set (take 50 [''server.js'']). \<forall>code.
     files (nextjs_env s) (join (nextjs_env s) ''/app'' f) = Some code
     \<longrightarrow> scanFileForHostIssues code f nextjs_framework = []"
  by (simp add: nextjs_env_def join_def bound_file_clean)

lemma nextjs_env_flag:
  "nextjs_host_flag_missing (nextjs_env ''next start'') ''/app'' nextjs_framework"
  "\<not> nextjs_host_flag_missing (nextjs_env ''next start --hostname 0.0.0.0 --port $PORT'') ''/app''
       nextjs_framework"
  by (simp_all add: nextjs_host_flag_missing_def start_script_def nextjs_env_def nextjs_manifest_def
      nextjs_framework_def join_def)

text \<open>
  Two more paths of the check. The test for a localhost literal looks at double and single
  quotes only, so \<open>localhost\<close> between backticks leaves the severity at warning; and when the
  glob library throws, the check returns neither an issue nor a pass.
\<close>

lemma backtick_localhost_is_warning:
  "map severity (scanFileForHostIssues ''app.listen(port, `localhost`)'' ''server.js'' unknown_framework)
     = [Warning]"
  by (simp add: host_eval host_binding_def)

lemma host_check_glob_failure:
  assumes "glob env (source_patterns fw)
             \<lparr>cwd = root, ignore = scan_ignore @ [''*.test.*'', ''*.spec.*''], maxDepth = 5\<rparr> = None"
  shows "checkHostBinding env root fw = ([], [])"
  using assms by (simp add: checkHostBinding_def)

text \<open>The issues that a check reports on one file, among those of all the files it scans.\<close>

lemma issues_of_append: "issues_of ident f (xs @ ys) = issues_of ident f xs @ issues_of ident f ys"
  by (simp add: issues_of_def)

lemma issues_of_other:
  assumes "f \<notin> set fs" and "\<forall>g \<in> set fs. \<forall>x \<in> set (per g). issue_file x = Some g"
  shows "issues_of ident f (concat (map per fs)) = []"
  using assms by (induction fs) (auto simp: issues_of_def)

lemma issues_of_file:
  assumes "distinct fs" and "f \<in> set fs"
    and "\<forall>g \<in> set fs. \<forall>x \<in> set (per g). issue_id x = ident \<and> issue_file x = Some g"
  shows "issues_of ident f (concat (map per fs)) = per f"
  using assms
proof (induction fs)
  case Nil
  then show ?case by simp
next
  case (Cons g fs)
  show ?case
  proof (cases "g = f")
    case True
    with Cons.prems have "f \<notin> set fs" and "\<forall>g \<in> set fs. \<forall>x \<in> set (per g). issue_file x = Some g"
      by auto
    then have "issues_of ident f (concat (map per fs)) = []"
      by (rule issues_of_other)
    moreover from Cons.prems True have "issues_of ident f (per f) = per f"
      by (auto simp: issues_of_def filter_id_conv)
    ultimately show ?thesis
      using True by (simp add: issues_of_append)
  next
    case False
    with Cons.prems have "issues_of ident f (per g) = []"
      by (auto simp: issues_of_def filter_empty_conv)
    moreover from Cons False have "issues_of ident f (concat (map per fs)) = per f"
      by auto
    ultimately show ?thesis
      by (simp add: issues_of_append)
  qed
qed

lemma host_fold:
  "fold (host_file_step env root fw) fs (iss, found)
     = (iss @ concat (map (host_file_issues env root fw) fs),
        found \<or> concat (map (host_file_issues env root fw) fs) \<noteq> [])"
proof (induction fs arbitrary: iss found)
  case Nil
  show ?case by simp
next
  case (Cons f fs)
  have "host_file_step env root fw f (iss, found)
          = (iss @ host_file_issues env root fw f, found \<or> host_file_issues env root fw f \<noteq> [])"
    by (cases "files env (join env root f)")
      (auto simp: host_file_step_def host_file_issues_def Let_def)
  then show ?case
    by (simp add: Cons.IH)
qed

lemma host_check_issues:
  assumes "glob env (source_patterns fw)
             \<lparr>cwd = root, ignore = scan_ignore @ [''*.test.*'', ''*.spec.*''], maxDepth = 5\<rparr>
           = Some found"
  shows "fst (checkHostBinding env root fw)
         = concat (map (host_file_issues env root fw) (take 50 found))
           @ (if nextjs_host_flag_missing env root fw then [nextjs_host_flag] else [])"
    and "snd (checkHostBinding env root fw)
         = (if fst (checkHostBinding env root fw) = [] then [host_check_passed] else [])"
  using assms
  by (auto simp: checkHostBinding_def host_fold nextjs_host_flag_missing_def host_check_passed_def
      mk_passed_def Let_def split: option.splits)

lemma host_file_shape:
  "\<forall>x \<in> set (host_file_issues env root fw g). issue_id x = ''host-binding'' \<and> issue_file x = Some g"
  by (auto simp: host_file_issues_def scanFileForHostIssues_def host_binding_simps Let_def
      split: option.splits)

lemma host_issues_of_file:
  assumes "glob env (source_patterns fw)
             \<lparr>cwd = root, ignore = scan_ignore @ [''*.test.*'', ''*.spec.*''], maxDepth = 5\<rparr>
           = Some found"
    and "distinct (take 50 found)" and "f \<in> set (take 50 found)"
    and "files env (join env root f) = Some code"
  shows "issues_of ''host-binding'' f (fst (checkHostBinding env root fw))
         = scanFileForHostIssues code f fw"
proof -
  have "issues_of ''host-binding'' f (concat (map (host_file_issues env root fw) (take 50 found)))
          = host_file_issues env root fw f"
    using assms(2,3) host_file_shape by (intro issues_of_file) auto
  moreover have "issues_of ''host-binding'' f [nextjs_host_flag] = []"
    by (simp add: issues_of_def nextjs_host_flag_def)
  ultimately show ?thesis
    using assms(4)
    by (simp add: host_check_issues(1) [OF assms(1)] issues_of_append host_file_issues_def
        issues_of_def)
qed

text \<open>The project of fifty-one files: the fifty modules yield no issue.\<close>

lemma crowded_glob:
  "glob (crowded_env code) (source_patterns unknown_framework)
     \<lparr>cwd = ''/app'', ignore = scan_ignore @ [''*.test.*'', ''*.spec.*''], maxDepth = 5\<rparr>
   = Some (module_names @ [''server.js''])"
  by (simp add: crowded_env_def)

lemma crowded_take: "take 50 (module_names @ [''server.js'']) = module_names"
  by (simp add: module_names_def)

lemma crowded_detect: "detectFramework (crowded_env code) ''/app'' = Inr unknown_framework"
  by (auto simp: detectFramework_def detectPython_def existsSync_def crowded_env_def join_def
      unknown_framework_def module_names_def)

lemma crowded_module:
  assumes "f \<in> set module_names"
    and "files (crowded_env code) (join (crowded_env code) ''/app'' f) = Some content"
  shows "content = ''export {}''"
  using assms
  by (auto simp: crowded_env_def join_def module_names_def split: if_splits)

lemma crowded_modules_host:
  "\<forall>f \<in> set (take 50 (module_names @ [''server.js''])). \<forall>content.
      files (crowded_env code) (join (crowded_env code) ''/app'' f) = Some content
      \<longrightarrow> scanFileForHostIssues content f unknown_framework = []"
  unfolding crowded_take
proof (intro ballI allI impI)
  fix f content
  assume "f \<in> set module_names"
    and "files (crowded_env code) (join (crowded_env code) ''/app'' f) = Some content"
  then have "content = ''export {}''"
    by (rule crowded_module)
  then show "scanFileForHostIssues content f unknown_framework = []"
    by (simp add: host_eval)
qed

text \<open>
  C5, as claimed: every file with a \<open>.listen(\<close> call and no quoted 0.0.0.0 literal gets a
  "host-binding" issue. In a project whose glob returns fifty modules and then \<open>server.js\<close>,
  which holds \<open>app.listen(3000, 'localhost')\<close>, the check reads the first fifty names only: it
  emits no issue for \<open>server.js\<close> and contributes the pass.
\<close>

theorem host_issue_beyond_file_cap:
  "detectFramework (crowded_env ''app.listen(3000, 'localhost')'') ''/app'' = Inr unknown_framework
   \<and> glob (crowded_env ''app.listen(3000, 'localhost')'') (source_patterns unknown_framework)
        \<lparr>cwd = ''/app'', ignore = scan_ignore @ [''*.test.*'', ''*.spec.*''], maxDepth = 5\<rparr>
      = Some (module_names @ [''server.js''])
   \<and> files (crowded_env ''app.listen(3000, 'localhost')'') ''/app/server.js''
      = Some ''app.listen(3000, 'localhost')''
   \<and> has_listen_call ''app.listen(3000, 'localhost')''
   \<and> \<not> quoted_in [CHR 0x22, CHR 0x27, CHR 0x60] ''0.0.0.0'' ''app.listen(3000, 'localhost')''
   \<and> checkHostBinding (crowded_env ''app.listen(3000, 'localhost')'') ''/app'' unknown_framework
      = ([], [host_check_passed])"
proof -
  have l: "has_listen_call ''app.listen(3000, 'localhost')''"
    unfolding listen_call_test [symmetric]
    by (simp add: regex_test_def listenTest_def is_space_def)
  have q: "\<not> quoted_in [CHR 0x22, CHR 0x27, CHR 0x60] ''0.0.0.0'' ''app.listen(3000, 'localhost')''"
    by (simp add: quoted_in_def)
  have f: "files (crowded_env ''app.listen(3000, 'localhost')'') ''/app/server.js''
             = Some ''app.listen(3000, 'localhost')''"
    by (simp add: crowded_env_def)
  have c: "checkHostBinding (crowded_env ''app.listen(3000, 'localhost')'') ''/app'' unknown_framework
             = ([], [host_check_passed])"
    using host_check_clean [OF crowded_glob crowded_modules_host]
    by (simp add: nextjs_host_flag_missing_def)
  from crowded_detect crowded_glob l q f c show ?thesis
    by (intro conjI)
qed

text \<open>
  C5, amended. The check scans the first fifty names that the glob returns, and of these the
  files that can be read. For a scanned file with a \<open>.listen(\<close> call and no 0.0.0.0 literal in
  double, single or backtick quotes the check emits one "host-binding" issue; its severity is
  error when the file holds \<open>localhost\<close> or \<open>127.0.0.1\<close> in double or single quotes, and warning
  when it holds neither of them in any of the three quotes. For a scanned file with a quoted
  0.0.0.0 literal it emits no "host-binding" issue. The issues of the check are those of the
  scanned files, in order, followed in a Next.js project whose start script runs \<open>next start\<close>
  with no host name flag by the error "nextjs-host-flag"; the check contributes the single pass
  "host-check" exactly when it emits no issue. So when no scanned file yields an issue the pass
  is contributed, unless the Next.js error is emitted in its place.
\<close>

theorem host_binding_issue:
  assumes "glob env (source_patterns fw)
             \<lparr>cwd = root, ignore = scan_ignore @ [''*.test.*'', ''*.spec.*''], maxDepth = 5\<rparr>
           = Some found"
  shows "(distinct (take 50 found) \<and> f \<in> set (take 50 found)
            \<and> files env (join env root f) = Some code
            \<and> has_listen_call code \<and> \<not> quoted_in [CHR 0x22, CHR 0x27, CHR 0x60] ''0.0.0.0'' code
          \<longrightarrow> (\<exists>i. issues_of ''host-binding'' f (fst (checkHostBinding env root fw)) = [i]
                  \<and> (quoted_in [CHR 0x22, CHR 0x27] ''localhost'' code
                        \<or> quoted_in [CHR 0x22, CHR 0x27] ''127.0.0.1'' code
                      \<longrightarrow> severity i = Error)
                  \<and> (\<not> quoted_in [CHR 0x22, CHR 0x27, CHR 0x60] ''localhost'' code
                        \<and> \<not> quoted_in [CHR 0x22, CHR 0x27, CHR 0x60] ''127.0.0.1'' code
                      \<longrightarrow> severity i = Warning)))
       \<and> (distinct (take 50 found) \<and> f \<in> set (take 50 found)
            \<and> files env (join env root f) = Some code
            \<and> quoted_in [CHR 0x22, CHR 0x27, CHR 0x60] ''0.0.0.0'' code
          \<longrightarrow> issues_of ''host-binding'' f (fst (checkHostBinding env root fw)) = [])
       \<and> fst (checkHostBinding env root fw)
           = concat (map (host_file_issues env root fw) (take 50 found))
             @ (if nextjs_host_flag_missing env root fw then [nextjs_host_flag] else [])
       \<and> snd (checkHostBinding env root fw)
           = (if fst (checkHostBinding env root fw) = [] then [host_check_passed] else [])
       \<and> ((\<forall>f \<in> set (take 50 found). \<forall>content. files env (join env root f) = Some content
               \<longrightarrow> scanFileForHostIssues content f fw = [])
          \<longrightarrow> checkHostBinding env root fw
              = (if nextjs_host_flag_missing env root fw then ([nextjs_host_flag], [])
                 else ([], [host_check_passed])))"
proof (intro conjI impI)
  assume a: "distinct (take 50 found) \<and> f \<in> set (take 50 found)
            \<and> files env (join env root f) = Some code
            \<and> has_listen_call code \<and> \<not> quoted_in [CHR 0x22, CHR 0x27, CHR 0x60] ''0.0.0.0'' code"
  then have s: "issues_of ''host-binding'' f (fst (checkHostBinding env root fw))
                  = scanFileForHostIssues code f fw"
    using host_issues_of_file [OF assms] by blast
  from a obtain ln fx where
    i: "scanFileForHostIssues code f fw = [host_binding f (hasLocalhostBinding code) ln fx]"
    using host_file_issue [of code f fw] by (auto simp: hasCorrectBinding_iff)
  have e: "quoted_in [CHR 0x22, CHR 0x27] ''localhost'' code
             \<or> quoted_in [CHR 0x22, CHR 0x27] ''127.0.0.1'' code
           \<longrightarrow> severity (host_binding f (hasLocalhostBinding code) ln fx) = Error"
    by (simp add: hasLocalhostBinding_iff host_binding_def)
  have w: "\<not> quoted_in [CHR 0x22, CHR 0x27, CHR 0x60] ''localhost'' code
             \<and> \<not> quoted_in [CHR 0x22, CHR 0x27, CHR 0x60] ''127.0.0.1'' code
           \<longrightarrow> severity (host_binding f (hasLocalhostBinding code) ln fx) = Warning"
    by (auto simp: hasLocalhostBinding_iff host_binding_def quoted_in_def)
  from s i e w show "\<exists>i. issues_of ''host-binding'' f (fst (checkHostBinding env root fw)) = [i]
              \<and> (quoted_in [CHR 0x22, CHR 0x27] ''localhost'' code
                    \<or> quoted_in [CHR 0x22, CHR 0x27] ''127.0.0.1'' code
                  \<longrightarrow> severity i = Error)
              \<and> (\<not> quoted_in [CHR 0x22, CHR 0x27, CHR 0x60] ''localhost'' code
                    \<and> \<not> quoted_in [CHR 0x22, CHR 0x27, CHR 0x60] ''127.0.0.1'' code
                  \<longrightarrow> severity i = Warning)"
    by simp
next
  assume a: "distinct (take 50 found) \<and> f \<in> set (take 50 found)
            \<and> files env (join env root f) = Some code
            \<and> quoted_in [CHR 0x22, CHR 0x27, CHR 0x60] ''0.0.0.0'' code"
  then have "issues_of ''host-binding'' f (fst (checkHostBinding env root fw))
               = scanFileForHostIssues code f fw"
    using host_issues_of_file [OF assms] by blast
  with a show "issues_of ''host-binding'' f (fst (checkHostBinding env root fw)) = []"
    by (simp add: host_file_clean hasCorrectBinding_iff)
next
  show "fst (checkHostBinding env root fw)
           = concat (map (host_file_issues env root fw) (take 50 found))
             @ (if nextjs_host_flag_missing env root fw then [nextjs_host_flag] else [])"
    by (rule host_check_issues(1) [OF assms])
next
  show "snd (checkHostBinding env root fw)
           = (if fst (checkHostBinding env root fw) = [] then [host_check_passed] else [])"
    by (rule host_check_issues(2) [OF assms])
next
  assume "\<forall>f \<in> set (take 50 found). \<forall>content. files env (join env root f) = Some content
               \<longrightarrow> scanFileForHostIssues content f fw = []"
  then show "checkHostBinding env root fw
          = (if nextjs_host_flag_missing env root fw then ([nextjs_host_flag], [])
             else ([], [host_check_passed]))"
    using host_check_clean [OF assms] by blast
qed

lemma one_file_glob:
  "glob (one_file_env code) (source_patterns fw)
     \<lparr>cwd = ''/app'', ignore = scan_ignore @ [''*.test.*'', ''*.spec.*''], maxDepth = 5\<rparr>
   = Some [''server.js'']"
  by (simp add: one_file_env_def)

lemma one_file_scanned:
  "distinct (take 50 [''server.js'']) \<and> ''server.js'' \<in> set (take 50 [''server.js''])
   \<and> files (one_file_env code) (join (one_file_env code) ''/app'' ''server.js'') = Some code"
  by (simp add: one_file_env_def join_def)

theorem host_binding_issue_witness:
  "glob (one_file_env ''app.listen(port, 'localhost')'') (source_patterns unknown_framework)
     \<lparr>cwd = ''/app'', ignore = scan_ignore @ [''*.test.*'', ''*.spec.*''], maxDepth = 5\<rparr>
     = Some [''server.js'']
   \<and> has_listen_call ''app.listen(port, 'localhost')''
   \<and> \<not> quoted_in [CHR 0x22, CHR 0x27, CHR 0x60] ''0.0.0.0'' ''app.listen(port, 'localhost')''
   \<and> map severity (issues_of ''host-binding'' ''server.js''
         (fst (checkHostBinding (one_file_env ''app.listen(port, 'localhost')'') ''/app''
                 unknown_framework))) = [Error]
   \<and> map severity (issues_of ''host-binding'' ''server.js''
         (fst (checkHostBinding (one_file_env ''s.listen(8080)'') ''/app'' unknown_framework)))
       = [Warning]
   \<and> issues_of ''host-binding'' ''server.js''
         (fst (checkHostBinding (one_file_env ''app.listen(port, '0.0.0.0')'') ''/app''
                 unknown_framework)) = []
   \<and> checkHostBinding (nextjs_env ''next start --hostname 0.0.0.0 --port $PORT'') ''/app''
         nextjs_framework = ([], [host_check_passed])"
proof -
  have l1: "has_listen_call ''app.listen(port, 'localhost')''"
    unfolding listen_call_test [symmetric]
    by (simp add: regex_test_def listenTest_def is_space_def)
  have l2: "has_listen_call ''s.listen(8080)''"
    unfolding listen_call_test [symmetric]
    by (simp add: regex_test_def listenTest_def is_space_def)
  have q1: "\<not> quoted_in [CHR 0x22, CHR 0x27, CHR 0x60] ''0.0.0.0'' ''app.listen(port, 'localhost')''"
    by (simp add: quoted_in_def)
  have q2: "\<not> quoted_in [CHR 0x22, CHR 0x27, CHR 0x60] ''0.0.0.0'' ''s.listen(8080)''"
    by (simp add: quoted_in_def)
  have e: "quoted_in [CHR 0x22, CHR 0x27] ''localhost'' ''app.listen(port, 'localhost')''"
    by (simp add: quoted_in_def)
  have w: "\<not> quoted_in [CHR 0x22, CHR 0x27, CHR 0x60] ''localhost'' ''s.listen(8080)''
           \<and> \<not> quoted_in [CHR 0x22, CHR 0x27, CHR 0x60] ''127.0.0.1'' ''s.listen(8080)''"
    by (simp add: quoted_in_def)
  have a: "map severity (issues_of ''host-binding'' ''server.js''
         (fst (checkHostBinding (one_file_env ''app.listen(port, 'localhost')'') ''/app''
                 unknown_framework))) = [Error]"
  proof -
    from conjunct1 [OF host_binding_issue [OF one_file_glob, of "''server.js''"
          "''app.listen(port, 'localhost')''"]] one_file_scanned l1 q1
    obtain i where "issues_of ''host-binding'' ''server.js''
         (fst (checkHostBinding (one_file_env ''app.listen(port, 'localhost')'') ''/app''
                 unknown_framework)) = [i]"
      and "quoted_in [CHR 0x22, CHR 0x27] ''localhost'' ''app.listen(port, 'localhost')''
            \<or> quoted_in [CHR 0x22, CHR 0x27] ''127.0.0.1'' ''app.listen(port, 'localhost')''
           \<longrightarrow> severity i = Error"
      by blast
    with e show ?thesis by simp
  qed
  have b: "map severity (issues_of ''host-binding'' ''server.js''
         (fst (checkHostBinding (one_file_env ''s.listen(8080)'') ''/app'' unknown_framework)))
       = [Warning]"
  proof -
    from conjunct1 [OF host_binding_issue [OF one_file_glob, of "''server.js''"
          "''s.listen(8080)''"]] one_file_scanned l2 q2
    obtain i where "issues_of ''host-binding'' ''server.js''
         (fst (checkHostBinding (one_file_env ''s.listen(8080)'') ''/app'' unknown_framework)) = [i]"
      and "\<not> quoted_in [CHR 0x22, CHR 0x27, CHR 0x60] ''localhost'' ''s.listen(8080)''
           \<and> \<not> quoted_in [CHR 0x22, CHR 0x27, CHR 0x60] ''127.0.0.1'' ''s.listen(8080)''
           \<longrightarrow> severity i = Warning"
      by blast
    with w show ?thesis by simp
  qed
  have c: "issues_of ''host-binding'' ''server.js''
         (fst (checkHostBinding (one_file_env ''app.listen(port, '0.0.0.0')'') ''/app''
                 unknown_framework)) = []"
  proof -
    have "quoted_in [CHR 0x22, CHR 0x27, CHR 0x60] ''0.0.0.0'' ''app.listen(port, '0.0.0.0')''"
      by (simp add: quoted_in_def)
    with conjunct1 [OF conjunct2 [OF host_binding_issue [OF one_file_glob, of "''server.js''"
            "''app.listen(port, '0.0.0.0')''"]]] one_file_scanned
    show ?thesis by blast
  qed
  have d: "checkHostBinding (nextjs_env ''next start --hostname 0.0.0.0 --port $PORT'') ''/app''
             nextjs_framework = ([], [host_check_passed])"
  proof -
    from conjunct2 [OF conjunct2 [OF conjunct2 [OF conjunct2 [OF host_binding_issue
              [OF nextjs_env_glob]]]]] nextjs_env_files
    have "checkHostBinding (nextjs_env ''next start --hostname 0.0.0.0 --port $PORT'') ''/app''
             nextjs_framework
          = (if nextjs_host_flag_missing (nextjs_env ''next start --hostname 0.0.0.0 --port $PORT'')
                  ''/app'' nextjs_framework
             then ([nextjs_host_flag], []) else ([], [host_check_passed]))"
      by blast
    with nextjs_env_flag(2) show ?thesis by simp
  qed
  from one_file_glob l1 q1 a b c d show ?thesis by (intro conjI)
qed

section \<open>Hardcoded ports\<close>

lemma exec_all_sound:
  "(i, cap) \<in> set (exec_all m k b s)
     \<Longrightarrow> \<exists>j len. i = b + j \<and> j < length s \<and> m (drop j s) = Some (cap, len)"
proof (induction m k b s rule: exec_all.induct)
  case (1 m skip i0)
  then show ?case by simp
next
  case (2 m skip i0 c cs)
  then obtain j len where "i = Suc i0 + j" "j < length cs" "m (drop j cs) = Some (cap, len)"
    by auto
  then show ?case by (intro exI [of _ "Suc j"] exI [of _ len]) simp
next
  case (3 m i0 c cs)
  show ?case
  proof (cases "m (c # cs)")
    case None
    with 3 obtain j len where "i = Suc i0 + j" "j < length cs" "m (drop j cs) = Some (cap, len)"
      by auto
    then show ?thesis by (intro exI [of _ "Suc j"] exI [of _ len]) simp
  next
    case (Some r)
    obtain cap0 len0 where r: "r = (cap0, len0)" by (cases r)
    from "3.prems" Some r
    consider "(i, cap) = (i0, cap0)" | "(i, cap) \<in> set (exec_all m (len0 - 1) (Suc i0) cs)"
      by auto
    then show ?thesis
    proof cases
      case 1
      with Some r show ?thesis by (intro exI [of _ 0] exI [of _ len0]) simp
    next
      case 2
      from "3.IH"(2) [OF Some r [symmetric] 2] obtain j len
        where "i = Suc i0 + j" "j < length cs" "m (drop j cs) = Some (cap, len)"
        by auto
      then show ?thesis by (intro exI [of _ "Suc j"] exI [of _ len]) simp
    qed
  qed
qed

lemma exec_all_first:
  assumes no_overlap: "\<And>t cap len j. m t = Some (cap, len) \<Longrightarrow> 0 < j \<Longrightarrow> j < len
                          \<Longrightarrow> m (drop j t) = None"
    and "m (drop d s) = Some (cap, len)" and "P cap" and "d < length s" and "k \<le> d"
    and "\<And>j cap' len'. j < d \<Longrightarrow> m (drop j s) = Some (cap', len') \<Longrightarrow> \<not> P cap'"
  shows "find (\<lambda>(i, c). P c) (exec_all m k b s) = Some (b + d, cap)"
  using assms(2-)
proof (induction s arbitrary: k b d)
  case Nil
  then show ?case by simp
next
  case (Cons c cs)
  show ?case
  proof (cases k)
    case (Suc k')
    with Cons.prems(4) obtain d' where d: "d = Suc d'" by (cases d) auto
    have "find (\<lambda>(i, c). P c) (exec_all m k' (Suc b) cs) = Some (Suc b + d', cap)"
    proof (rule Cons.IH)
      show "m (drop d' cs) = Some (cap, len)" using Cons.prems(1) d by simp
      show "P cap" by fact
      show "d' < length cs" using Cons.prems(3) d by simp
      show "k' \<le> d'" using Cons.prems(4) d Suc by simp
      show "\<not> P cap'" if "j < d'" "m (drop j cs) = Some (cap', len')" for j cap' len'
        using Cons.prems(5) [of "Suc j" cap' len'] that d by simp
    qed
    with Suc d show ?thesis by simp
  next
    case 0
    show ?thesis
    proof (cases d)
      case d0: 0
      with Cons.prems(1) have "m (c # cs) = Some (cap, len)" by simp
      with 0 d0 Cons.prems(2) show ?thesis by simp
    next
      case (Suc d')
      show ?thesis
      proof (cases "m (c # cs)")
        case None
        have "find (\<lambda>(i, c). P c) (exec_all m 0 (Suc b) cs) = Some (Suc b + d', cap)"
        proof (rule Cons.IH)
          show "m (drop d' cs) = Some (cap, len)" using Cons.prems(1) Suc by simp
          show "P cap" by fact
          show "d' < length cs" using Cons.prems(3) Suc by simp
          show "0 \<le> d'" by simp
          show "\<not> P cap'" if "j < d'" "m (drop j cs) = Some (cap', len')" for j cap' len'
            using Cons.prems(5) [of "Suc j" cap' len'] that Suc by simp
        qed
        with None 0 Suc show ?thesis by simp
      next
        case (Some r)
        obtain cap0 len0 where r: "r = (cap0, len0)" by (cases r)
        have np: "\<not> P cap0"
          using Cons.prems(5) [of 0 cap0 len0] Some r Suc by simp
        have le: "len0 - 1 \<le> d'"
        proof (rule ccontr)
          assume "\<not> len0 - 1 \<le> d'"
          then have "d < len0" using Suc by simp
          with no_overlap [of "c # cs" cap0 len0 d] Some r Suc
          have "m (drop d (c # cs)) = None" by simp
          with Cons.prems(1) show False by simp
        qed
        have "find (\<lambda>(i, c). P c) (exec_all m (len0 - 1) (Suc b) cs) = Some (Suc b + d', cap)"
        proof (rule Cons.IH)
          show "m (drop d' cs) = Some (cap, len)" using Cons.prems(1) Suc by simp
          show "P cap" by fact
          show "d' < length cs" using Cons.prems(3) Suc by simp
          show "len0 - 1 \<le> d'" by fact
          show "\<not> P cap'" if "j < d'" "m (drop j cs) = Some (cap', len')" for j cap' len'
            using Cons.prems(5) [of "Suc j" cap' len'] that Suc by simp
        qed
        with Some r 0 Suc np show ?thesis by simp
      qed
    qed
  qed
qed

lemma digit_not_space: "is_digit c \<Longrightarrow> \<not> is_space c"
  by (auto simp: is_digit_def is_space_def)

lemma takeWhile_run:
  assumes "\<forall>c \<in> set xs. P c" and "post = [] \<or> \<not> P (hd post)"
  shows "takeWhile P (xs @ post) = xs" and "dropWhile P (xs @ post) = post"
proof -
  show "takeWhile P (xs @ post) = xs"
  proof (cases post)
    case Nil
    with assms(1) show ?thesis by simp
  next
    case (Cons p ps)
    with assms show ?thesis by (simp add: takeWhile_tail)
  qed
  show "dropWhile P (xs @ post) = post"
  proof (cases post)
    case Nil
    with assms(1) show ?thesis by simp
  next
    case (Cons p ps)
    with assms show ?thesis by (simp add: dropWhile_append3)
  qed
qed

lemma digits_then_iff:
  "digits_then s r = Some (ds, len)
     \<longleftrightarrow> (\<exists>w post. r = w @ ds @ post \<and> (\<forall>c \<in> set w. is_space c) \<and> ds \<noteq> []
            \<and> (\<forall>c \<in> set ds. is_digit c) \<and> (post = [] \<or> \<not> is_digit (hd post))
            \<and> len = length s - length post)"
proof
  assume a: "digits_then s r = Some (ds, len)"
  let ?r' = "dropWhile is_space r"
  from a have ds: "ds = takeWhile is_digit ?r'" "ds \<noteq> []"
      and len: "len = length s - length (dropWhile is_digit ?r')"
    by (auto simp: digits_then_def Let_def split: if_splits)
  have "r = takeWhile is_space r @ ds @ dropWhile is_digit ?r'"
    using ds(1) by simp
  moreover have "\<forall>c \<in> set (takeWhile is_space r). is_space c" by (auto dest: set_takeWhileD)
  moreover have "\<forall>c \<in> set ds. is_digit c" using ds(1) by (auto dest: set_takeWhileD)
  moreover have "dropWhile is_digit ?r' = [] \<or> \<not> is_digit (hd (dropWhile is_digit ?r'))"
    using hd_dropWhile [of is_digit ?r'] by blast
  ultimately show "\<exists>w post. r = w @ ds @ post \<and> (\<forall>c \<in> set w. is_space c) \<and> ds \<noteq> []
            \<and> (\<forall>c \<in> set ds. is_digit c) \<and> (post = [] \<or> \<not> is_digit (hd post))
            \<and> len = length s - length post"
    using ds(2) len by blast
next
  assume "\<exists>w post. r = w @ ds @ post \<and> (\<forall>c \<in> set w. is_space c) \<and> ds \<noteq> []
            \<and> (\<forall>c \<in> set ds. is_digit c) \<and> (post = [] \<or> \<not> is_digit (hd post))
            \<and> len = length s - length post"
  then obtain w post where r: "r = w @ ds @ post" and w: "\<forall>c \<in> set w. is_space c"
    and ds: "ds \<noteq> []" "\<forall>c \<in> set ds. is_digit c" and post: "post = [] \<or> \<not> is_digit (hd post)"
    and len: "len = length s - length post"
    by blast
  from ds have "\<not> is_space (hd (ds @ post))" by (cases ds) (auto dest: digit_not_space)
  moreover from ds(1) have "ds @ post \<noteq> []" by simp
  ultimately have "dropWhile is_space (w @ ds @ post) = ds @ post"
    using takeWhile_run(2) [OF w, of "ds @ post"] by simp
  with r takeWhile_run [OF ds(2) post] ds(1) len show "digits_then s r = Some (ds, len)"
    by (simp add: digits_then_def Let_def)
qed

lemma listenCallRegex_iff:
  "listenCallRegex s = Some (ds, len)
     \<longleftrightarrow> (\<exists>w1 w2 post. s = ''.listen'' @ w1 @ ''('' @ w2 @ ds @ post
            \<and> (\<forall>c \<in> set w1. is_space c) \<and> (\<forall>c \<in> set w2. is_space c) \<and> ds \<noteq> []
            \<and> (\<forall>c \<in> set ds. is_digit c) \<and> (post = [] \<or> \<not> is_digit (hd post))
            \<and> len = length s - length post)"
proof
  assume a: "listenCallRegex s = Some (ds, len)"
  then obtain r1 r2 where r1: "strip_prefix ''.listen'' s = Some r1"
    and r2: "strip_prefix ''('' (dropWhile is_space r1) = Some r2"
    and d: "digits_then s r2 = Some (ds, len)"
    by (auto simp: listenCallRegex_def split: option.splits)
  from r1 have s: "s = ''.listen'' @ r1" by (simp only: strip_prefix_iff)
  from r2 have "dropWhile is_space r1 = ''('' @ r2" by (simp only: strip_prefix_iff)
  then have "r1 = takeWhile is_space r1 @ ''('' @ r2"
    using takeWhile_dropWhile_id [of is_space r1] by simp
  moreover have "\<forall>c \<in> set (takeWhile is_space r1). is_space c" by (auto dest: set_takeWhileD)
  moreover from d obtain w2 post where "r2 = w2 @ ds @ post" "\<forall>c \<in> set w2. is_space c" "ds \<noteq> []"
      "\<forall>c \<in> set ds. is_digit c" "post = [] \<or> \<not> is_digit (hd post)" "len = length s - length post"
    unfolding digits_then_iff by blast
  ultimately show "\<exists>w1 w2 post. s = ''.listen'' @ w1 @ ''('' @ w2 @ ds @ post
            \<and> (\<forall>c \<in> set w1. is_space c) \<and> (\<forall>c \<in> set w2. is_space c) \<and> ds \<noteq> []
            \<and> (\<forall>c \<in> set ds. is_digit c) \<and> (post = [] \<or> \<not> is_digit (hd post))
            \<and> len = length s - length post"
    using s by (metis append_assoc)
next
  assume "\<exists>w1 w2 post. s = ''.listen'' @ w1 @ ''('' @ w2 @ ds @ post
            \<and> (\<forall>c \<in> set w1. is_space c) \<and> (\<forall>c \<in> set w2. is_space c) \<and> ds \<noteq> []
            \<and> (\<forall>c \<in> set ds. is_digit c) \<and> (post = [] \<or> \<not> is_digit (hd post))
            \<and> len = length s - length post"
  then obtain w1 w2 post where s: "s = ''.listen'' @ w1 @ ''('' @ w2 @ ds @ post"
    and w1: "\<forall>c \<in> set w1. is_space c" and w2: "\<forall>c \<in> set w2. is_space c"
    and rest: "ds \<noteq> []" "\<forall>c \<in> set ds. is_digit c" "post = [] \<or> \<not> is_digit (hd post)"
      "len = length s - length post"
    by blast
  have r1: "strip_prefix ''.listen'' s = Some (w1 @ ''('' @ w2 @ ds @ post)"
    unfolding strip_prefix_iff using s by simp
  have "\<not> is_space CHR ''(''" by (simp add: is_space_def)
  with w1 have "dropWhile is_space (w1 @ ''('' @ w2 @ ds @ post) = ''('' @ w2 @ ds @ post"
    by (simp add: dropWhile_append3)
  then have r2: "strip_prefix ''('' (dropWhile is_space (w1 @ ''('' @ w2 @ ds @ post))
                   = Some (w2 @ ds @ post)"
    by simp
  have "digits_then s (w2 @ ds @ post) = Some (ds, len)"
    unfolding digits_then_iff using w2 rest by blast
  with r1 r2 show "listenCallRegex s = Some (ds, len)"
    by (simp add: listenCallRegex_def)
qed

lemma listen_literal_iff:
  "listen_literal code i ds \<longleftrightarrow> i \<le> length code \<and> (\<exists>len. listenCallRegex (drop i code) = Some (ds, len))"
  unfolding listen_literal_def listenCallRegex_iff by auto

lemma drop_in_tails: "drop j s \<in> set (tails s)"
proof (induction s arbitrary: j)
  case Nil
  show ?case by simp
next
  case (Cons c cs)
  show ?case
  proof (cases j)
    case 0
    then show ?thesis by simp
  next
    case (Suc j')
    with Cons [of j'] show ?thesis by simp
  qed
qed

lemma not_dot:
  "is_space c \<Longrightarrow> c \<noteq> CHR ''.''" "is_digit c \<Longrightarrow> c \<noteq> CHR ''.''"
  by (auto simp: is_space_def is_digit_def)

lemma listen_no_overlap:
  assumes "listenCallRegex t = Some (cap, len)" and "0 < j" and "j < len"
  shows "listenCallRegex (drop j t) = None"
proof -
  from assms(1) obtain w1 w2 post where t: "t = ''.listen'' @ w1 @ ''('' @ w2 @ cap @ post"
    and w1: "\<forall>c \<in> set w1. is_space c" and w2: "\<forall>c \<in> set w2. is_space c"
    and cap: "\<forall>c \<in> set cap. is_digit c" and len: "len = length t - length post"
    unfolding listenCallRegex_iff by blast
  define body where "body = ''listen'' @ w1 @ ''('' @ w2 @ cap"
  have t': "t = CHR ''.'' # body @ post" using t by (simp add: body_def)
  have nodot: "\<forall>c \<in> set body. c \<noteq> CHR ''.''"
    using w1 w2 cap by (auto simp: body_def dest: not_dot)
  from len t' have "len = Suc (length body)" by simp
  with assms(2,3) obtain j' where j: "j = Suc j'" "j' < length body" by (cases j) auto
  then have "drop j t = (body ! j') # drop (Suc j') body @ post"
    using t' by (simp add: Cons_nth_drop_Suc)
  moreover have "body ! j' \<noteq> CHR ''.''" using nodot j(2) by simp
  ultimately show ?thesis by (simp add: listenCallRegex_def)
qed

lemma first_hardcoded_listen:
  assumes "listen_literal code i ds" and "1000 \<le> parseInt ds"
    and "\<forall>j ds'. j < i \<and> listen_literal code j ds' \<longrightarrow> parseInt ds' < 1000"
  shows "first_hardcoded listenCallRegex code = Some (parseInt ds, line_of code i)"
proof -
  from assms(1) obtain len where m: "listenCallRegex (drop i code) = Some (ds, len)"
    and i: "i \<le> length code"
    unfolding listen_literal_iff by blast
  have "listenCallRegex [] = None" by (simp add: listenCallRegex_def)
  with m i have lt: "i < length code" by (cases "i = length code") auto
  have ne: "ds \<noteq> []" using m unfolding listenCallRegex_iff by blast
  have "find (\<lambda>(index, c). c \<noteq> [] \<and> 1000 \<le> parseInt c) (exec_all listenCallRegex 0 0 code)
          = Some (0 + i, ds)"
  proof (rule exec_all_first [where len = len])
    show "listenCallRegex (drop j t) = None"
      if "listenCallRegex t = Some (cap, len)" "0 < j" "j < len" for t cap len j
      using that by (rule listen_no_overlap)
    show "listenCallRegex (drop i code) = Some (ds, len)" by fact
    show "ds \<noteq> [] \<and> 1000 \<le> parseInt ds" using ne assms(2) by simp
    show "i < length code" by fact
    show "0 \<le> i" by simp
    show "\<not> (cap' \<noteq> [] \<and> 1000 \<le> parseInt cap')"
      if "j < i" "listenCallRegex (drop j code) = Some (cap', len')" for j cap' len'
    proof -
      from that i have "listen_literal code j cap'" unfolding listen_literal_iff by auto
      with assms(3) that(1) have "parseInt cap' < 1000" by blast
      then show ?thesis by simp
    qed
  qed
  then show ?thesis by (simp add: first_hardcoded_def)
qed

lemma first_hardcoded_listen_exists:
  assumes "listen_literal code i ds" and "1000 \<le> parseInt ds"
  shows "\<exists>v ln. first_hardcoded listenCallRegex code = Some (v, ln) \<and> 1000 \<le> v"
proof -
  define Q where "Q k \<longleftrightarrow> (\<exists>ds'. listen_literal code k ds' \<and> 1000 \<le> parseInt ds')" for k
  from assms have "Q i" unfolding Q_def by blast
  then have least: "Q (LEAST k. Q k)" by (rule LeastI)
  have minimal: "\<not> Q j" if "j < (LEAST k. Q k)" for j
    using that by (rule not_less_Least)
  from least obtain ds0 where d: "listen_literal code (LEAST k. Q k) ds0" "1000 \<le> parseInt ds0"
    unfolding Q_def by blast
  have "\<forall>j ds'. j < (LEAST k. Q k) \<and> listen_literal code j ds' \<longrightarrow> parseInt ds' < 1000"
    using minimal unfolding Q_def by (meson not_le)
  from first_hardcoded_listen [OF d this] d(2) show ?thesis by blast
qed

lemma first_hardcoded_ge:
  assumes "first_hardcoded regex code = Some (v, ln)"
  shows "1000 \<le> v"
proof -
  from assms obtain index ds where
    f: "find (\<lambda>(index, ds). ds \<noteq> [] \<and> 1000 \<le> parseInt ds) (exec_all regex 0 0 code) = Some (index, ds)"
    and v: "v = parseInt ds"
    by (auto simp: first_hardcoded_def split: option.splits)
  from f have "1000 \<le> parseInt ds" by (auto simp: find_Some_iff)
  with v show ?thesis by simp
qed

lemma first_hardcoded_None:
  assumes "\<forall>t \<in> set (tails code). case regex t of None \<Rightarrow> True | Some (ds, len) \<Rightarrow> parseInt ds < 1000"
  shows "first_hardcoded regex code = None"
proof -
  have "\<not> (ds \<noteq> [] \<and> 1000 \<le> parseInt ds)" if "(index, ds) \<in> set (exec_all regex 0 0 code)"
    for index ds
  proof -
    from exec_all_sound [OF that] obtain j len where "regex (drop j code) = Some (ds, len)"
      by blast
    with assms drop_in_tails [of j code] have "parseInt ds < 1000" by fastforce
    then show ?thesis by simp
  qed
  then have "find (\<lambda>(index, ds). ds \<noteq> [] \<and> 1000 \<le> parseInt ds) (exec_all regex 0 0 code) = None"
    by (auto simp: find_None_iff)
  then show ?thesis by (simp add: first_hardcoded_def)
qed

lemma port_hardcoded_simps:
  "issue_id (port_hardcoded f v ln) = ''port-hardcoded''"
  "issue_file (port_hardcoded f v ln) = Some f"
  "issue_line (port_hardcoded f v ln) = ln"
  "issue_category (port_hardcoded f v ln) = Port"
  "0 < n \<Longrightarrow> issue_message (port_hardcoded f (Some n) ln)
                 = ''Hardcoded port '' @ show_nat n @ ''. Railway requires process.env.PORT''"
  by (simp_all add: port_hardcoded_def or_default_def)

lemma scan_port_env: "hasPortEnvVar code \<Longrightarrow> scanFileForPortIssues code filename fw = []"
  by (simp add: scanFileForPortIssues_def Let_def note_port_def split: option.splits prod.splits)

lemma first_hardcoded_sound:
  assumes "first_hardcoded regex code = Some (v, ln)"
  shows "\<exists>j ds len. j < length code \<and> regex (drop j code) = Some (ds, len)
           \<and> v = parseInt ds \<and> ln = line_of code j \<and> 1000 \<le> v"
proof -
  from assms obtain index ds where
    f: "find (\<lambda>(index, ds). ds \<noteq> [] \<and> 1000 \<le> parseInt ds) (exec_all regex 0 0 code) = Some (index, ds)"
    and v: "v = parseInt ds" "ln = line_of code index"
    by (auto simp: first_hardcoded_def split: option.splits)
  from f have "(index, ds) \<in> set (exec_all regex 0 0 code)" and g: "1000 \<le> parseInt ds"
    by (auto simp: find_Some_iff in_set_conv_nth)
  from exec_all_sound [OF this(1)] obtain j len
    where "index = j" "j < length code" "regex (drop j code) = Some (ds, len)"
    by auto
  with v g show ?thesis by blast
qed

lemma scan_port_cited:
  assumes "\<not> hasPortEnvVar code"
  shows "scanFileForPortIssues code filename fw
         = (case cited_port code of
              None \<Rightarrow> []
            | Some (v, ln) \<Rightarrow> [port_hardcoded filename (Some v) (Some ln)])"
  using assms
  by (auto simp: scanFileForPortIssues_def cited_port_def Let_def note_port_def
      split: option.splits)

lemma cited_port_exists:
  assumes "first_hardcoded listenCallRegex code = Some hit"
  shows "\<exists>v ln. cited_port code = Some (v, ln)"
  using assms by (auto simp: cited_port_def split: option.splits)

lemma cited_port_listen_only:
  assumes "no_port_assignment code"
  shows "cited_port code = first_hardcoded listenCallRegex code"
proof -
  have "first_hardcoded portVarRegex code = None"
    by (rule first_hardcoded_None) (use assms in \<open>auto simp: no_port_assignment_def\<close>)
  moreover have "first_hardcoded pythonPortRegex code = None"
    by (rule first_hardcoded_None) (use assms in \<open>auto simp: no_port_assignment_def\<close>)
  ultimately show ?thesis
    by (simp add: cited_port_def)
qed

lemma cited_port_sound:
  assumes "cited_port code = Some (v, ln)"
  shows "\<exists>regex \<in> set [listenCallRegex, portVarRegex, pythonPortRegex].
           \<exists>j ds len. j < length code \<and> regex (drop j code) = Some (ds, len)
             \<and> v = parseInt ds \<and> ln = line_of code j \<and> 1000 \<le> v"
proof -
  from assms consider "first_hardcoded pythonPortRegex code = Some (v, ln)"
    | "first_hardcoded portVarRegex code = Some (v, ln)"
    | "first_hardcoded listenCallRegex code = Some (v, ln)"
    by (auto simp: cited_port_def split: option.splits)
  then show ?thesis
  proof cases
    case 1
    from first_hardcoded_sound [OF this] show ?thesis by simp
  next
    case 2
    from first_hardcoded_sound [OF this] show ?thesis by simp
  next
    case 3
    from first_hardcoded_sound [OF this] show ?thesis by simp
  qed
qed

lemma cited_port_exact:
  assumes "literals_exact code" and "cited_port code = Some (v, ln)"
  shows "1000 \<le> v \<and> v < 2 ^ 53"
proof -
  from cited_port_sound [OF assms(2)] obtain regex j ds len
    where r: "regex \<in> set [listenCallRegex, portVarRegex, pythonPortRegex]"
      and m: "regex (drop j code) = Some (ds, len)" and v: "v = parseInt ds" "1000 \<le> v"
    by blast
  from assms(1) r drop_in_tails [of j code]
  have "case regex (drop j code) of None \<Rightarrow> True | Some (ds, len) \<Rightarrow> parseInt ds < 2 ^ 53"
    unfolding literals_exact_def by blast
  with m v show ?thesis by simp
qed

lemma port_fold:
  "fold (port_file_step env root fw) fs (iss, found)
     = (iss @ concat (map (port_file_issues env root fw) fs),
        found \<or> concat (map (port_file_issues env root fw) fs) \<noteq> [])"
proof (induction fs arbitrary: iss found)
  case Nil
  show ?case by simp
next
  case (Cons f fs)
  have "port_file_step env root fw f (iss, found)
          = (iss @ port_file_issues env root fw f, found \<or> port_file_issues env root fw f \<noteq> [])"
    by (cases "files env (join env root f)")
      (auto simp: port_file_step_def port_file_issues_def Let_def)
  then show ?case
    by (simp add: Cons.IH)
qed

lemma port_check_issues:
  assumes "glob env (source_patterns fw)
             \<lparr>cwd = root, ignore = scan_ignore @ [''*.test.*'', ''*.spec.*''], maxDepth = 5\<rparr>
           = Some found"
  shows "fst (checkPortUsage env root fw)
         = concat (map (port_file_issues env root fw) (take 50 found))
           @ (if nextjs_port_flag_missing env root fw then [nextjs_port_flag] else [])"
    and "snd (checkPortUsage env root fw)
         = (if fst (checkPortUsage env root fw) = [] then [port_check_passed] else [])"
  using assms
  by (auto simp: checkPortUsage_def port_fold nextjs_port_flag_missing_def port_check_passed_def
      mk_passed_def Let_def split: option.splits)

lemma port_file_shape:
  "\<forall>x \<in> set (port_file_issues env root fw g). issue_id x = ''port-hardcoded'' \<and> issue_file x = Some g"
  by (auto simp: port_file_issues_def scanFileForPortIssues_def port_hardcoded_simps Let_def
      split: option.splits prod.splits)

lemma port_issues_of_file:
  assumes "glob env (source_patterns fw)
             \<lparr>cwd = root, ignore = scan_ignore @ [''*.test.*'', ''*.spec.*''], maxDepth = 5\<rparr>
           = Some found"
    and "distinct (take 50 found)" and "f \<in> set (take 50 found)"
    and "files env (join env root f) = Some code"
  shows "issues_of ''port-hardcoded'' f (fst (checkPortUsage env root fw))
         = scanFileForPortIssues code f fw"
proof -
  have "issues_of ''port-hardcoded'' f (concat (map (port_file_issues env root fw) (take 50 found)))
          = port_file_issues env root fw f"
    using assms(2,3) port_file_shape by (intro issues_of_file) auto
  moreover have "issues_of ''port-hardcoded'' f [nextjs_port_flag] = []"
    by (simp add: issues_of_def nextjs_port_flag_def)
  ultimately show ?thesis
    using assms(4)
    by (simp add: port_check_issues(1) [OF assms(1)] issues_of_append port_file_issues_def
        issues_of_def)
qed

text \<open>The two example files of the claim, evaluated.\<close>

lemma variable_file_listen:
  "listen_literal ''const port = 8080; app.listen(3000)'' 22 ''3000''"
  unfolding listen_literal_iff
  by (simp add: listenCallRegex_def digits_then_def is_space_def is_digit_def)

lemma variable_file_scan:
  "scanFileForPortIssues ''const port = 8080; app.listen(3000)'' ''server.js'' fw
     = [port_hardcoded ''server.js'' (Some 8080) (Some 1)]"
  by (simp add: port_eval is_word_def strip_prefix_iff)

lemma one_file_port:
  "checkPortUsage (one_file_env code) ''/app'' unknown_framework
     = (scanFileForPortIssues code ''server.js'' unknown_framework,
        if scanFileForPortIssues code ''server.js'' unknown_framework = []
        then [port_check_passed] else [])"
  by (simp add: checkPortUsage_def source_patterns_def one_file_env_def port_file_step_def join_def
      port_check_passed_def mk_passed_def Let_def)

text \<open>
  In the project of fifty-one files the port check, too, reads the first fifty names only: a
  hardcoded port in \<open>server.js\<close> is not reported.
\<close>

lemma port_issue_beyond_file_cap:
  "checkPortUsage (crowded_env ''app.listen(3000)'') ''/app'' unknown_framework
     = ([], [port_check_passed])"
proof -
  have "port_file_issues (crowded_env ''app.listen(3000)'') ''/app'' unknown_framework f = []"
    if "f \<in> set module_names" for f
  proof (cases "files (crowded_env ''app.listen(3000)'')
                  (join (crowded_env ''app.listen(3000)'') ''/app'' f)")
    case None
    then show ?thesis by (simp add: port_file_issues_def)
  next
    case (Some content)
    with that have "content = ''export {}''"
      by (rule crowded_module)
    with Some show ?thesis
      by (simp add: port_file_issues_def port_eval)
  qed
  then have "concat (map (port_file_issues (crowded_env ''app.listen(3000)'') ''/app''
                 unknown_framework) module_names) = []"
    by simp
  with port_check_issues [OF crowded_glob, of "''app.listen(3000)''", unfolded crowded_take]
  show ?thesis
    by (simp add: nextjs_port_flag_missing_def prod_eq_iff)
qed

text \<open>
  C4, as claimed: a file in which a \<open>.listen(\<close> call takes a literal of 1000 or more, and with no
  reference to the PORT variable, gets one "port-hardcoded" error citing that literal. The file
  \<open>const port = 8080; app.listen(3000)\<close> has the call \<open>.listen(3000)\<close> at index 22 and no PORT
  reference; the one error of the port check cites 8080, the literal assigned to the variable
  \<open>port\<close>.
\<close>

theorem port_error_cites_variable_literal:
  "files (one_file_env ''const port = 8080; app.listen(3000)'') ''/app/server.js''
     = Some ''const port = 8080; app.listen(3000)''
   \<and> listen_literal ''const port = 8080; app.listen(3000)'' 22 ''3000''
   \<and> parseInt ''3000'' = 3000
   \<and> \<not> hasPortEnvVar ''const port = 8080; app.listen(3000)''
   \<and> scanFileForPortIssues ''const port = 8080; app.listen(3000)'' ''server.js'' unknown_framework
       = [port_hardcoded ''server.js'' (Some 8080) (Some 1)]
   \<and> checkPortUsage (one_file_env ''const port = 8080; app.listen(3000)'') ''/app'' unknown_framework
       = ([port_hardcoded ''server.js'' (Some 8080) (Some 1)], [])
   \<and> issue_message (port_hardcoded ''server.js'' (Some 8080) (Some 1))
       = ''Hardcoded port 8080. Railway requires process.env.PORT''"
proof -
  have f: "files (one_file_env ''const port = 8080; app.listen(3000)'') ''/app/server.js''
             = Some ''const port = 8080; app.listen(3000)''"
    by (simp add: one_file_env_def)
  have c: "checkPortUsage (one_file_env ''const port = 8080; app.listen(3000)'') ''/app''
             unknown_framework = ([port_hardcoded ''server.js'' (Some 8080) (Some 1)], [])"
    by (simp add: one_file_port variable_file_scan)
  have r: "parseInt ''3000'' = 3000 \<and> \<not> hasPortEnvVar ''const port = 8080; app.listen(3000)''
           \<and> issue_message (port_hardcoded ''server.js'' (Some 8080) (Some 1))
               = ''Hardcoded port 8080. Railway requires process.env.PORT''"
    by (simp add: port_hardcoded_simps show_nat.simps hasPortEnvVar_def parseInt_def digit_val_def)
  from f variable_file_listen variable_file_scan [of unknown_framework] c r show ?thesis
    by (intro conjI) simp_all
qed

text \<open>
  C4, amended. The check scans the first fifty names that the glob returns, and of these the
  files that can be read. Take a scanned file, all of whose matched literals are below \<open>2^53\<close>,
  in which a \<open>.listen(\<close> call takes a literal of 1000 or more and which has no reference to the
  PORT variable (\<open>process.env.PORT\<close>, its two bracket forms, or the \<open>os.environ.get\<close> and
  \<open>os.getenv\<close> calls). The check emits exactly one "port-hardcoded" error for it. The error
  cites the number and the line of the last of three searches that finds a literal of 1000 or
  more: for \<open>.listen(\<close> calls; then for \<open>const\<close>, \<open>let\<close> or \<open>var\<close> assignments to a name that
  contains \<open>port\<close> or \<open>Port\<close>; then for \<open>port=\<close> arguments of \<open>app.run\<close> or \<open>uvicorn.run\<close>. Each
  search goes through the successive matches of its pattern from the left and stops at the first
  literal of 1000 or more; so the cited number is a literal that one of the patterns matches in
  the file, and it is the literal of the left-most \<open>.listen(\<close> call with a literal of 1000 or
  more when neither of the other two patterns matches a literal of 1000 or more anywhere in the
  file. For a scanned file with a PORT reference the check emits no "port-hardcoded" issue. The
  issues of the check are those of the scanned files, in order, followed in a Next.js project
  whose start script runs \<open>next start\<close> with no reference to PORT by the error
  "nextjs-port-flag"; the pass "port-check" is contributed exactly when there is no issue.
\<close>

theorem port_hardcoded_issue:
  assumes "glob env (source_patterns fw)
             \<lparr>cwd = root, ignore = scan_ignore @ [''*.test.*'', ''*.spec.*''], maxDepth = 5\<rparr>
           = Some found"
  shows "(distinct (take 50 found) \<and> f \<in> set (take 50 found)
            \<and> files env (join env root f) = Some code \<and> literals_exact code
            \<and> listen_literal code i ds \<and> 1000 \<le> parseInt ds \<and> \<not> hasPortEnvVar code
          \<longrightarrow> (\<exists>v ln. issues_of ''port-hardcoded'' f (fst (checkPortUsage env root fw))
                         = [port_hardcoded f (Some v) (Some ln)]
                  \<and> cited_port code = Some (v, ln) \<and> 1000 \<le> v \<and> v < 2 ^ 53
                  \<and> severity (port_hardcoded f (Some v) (Some ln)) = Error
                  \<and> issue_message (port_hardcoded f (Some v) (Some ln))
                      = ''Hardcoded port '' @ show_nat v @ ''. Railway requires process.env.PORT''))
       \<and> (distinct (take 50 found) \<and> f \<in> set (take 50 found)
            \<and> files env (join env root f) = Some code \<and> literals_exact code
            \<and> listen_literal code i ds \<and> 1000 \<le> parseInt ds \<and> \<not> hasPortEnvVar code
            \<and> (\<forall>j ds'. j < i \<and> listen_literal code j ds' \<longrightarrow> parseInt ds' < 1000)
            \<and> no_port_assignment code
          \<longrightarrow> issues_of ''port-hardcoded'' f (fst (checkPortUsage env root fw))
                = [port_hardcoded f (Some (parseInt ds)) (Some (line_of code i))])
       \<and> (cited_port code = Some (v, ln)
          \<longrightarrow> (\<exists>regex \<in> set [listenCallRegex, portVarRegex, pythonPortRegex].
                 \<exists>j ds' len. j < length code \<and> regex (drop j code) = Some (ds', len)
                   \<and> v = parseInt ds' \<and> ln = line_of code j \<and> 1000 \<le> v))
       \<and> (distinct (take 50 found) \<and> f \<in> set (take 50 found)
            \<and> files env (join env root f) = Some code \<and> hasPortEnvVar code
          \<longrightarrow> issues_of ''port-hardcoded'' f (fst (checkPortUsage env root fw)) = [])
       \<and> fst (checkPortUsage env root fw)
           = concat (map (port_file_issues env root fw) (take 50 found))
             @ (if nextjs_port_flag_missing env root fw then [nextjs_port_flag] else [])
       \<and> snd (checkPortUsage env root fw)
           = (if fst (checkPortUsage env root fw) = [] then [port_check_passed] else [])"
proof (intro conjI impI)
  assume a: "distinct (take 50 found) \<and> f \<in> set (take 50 found)
            \<and> files env (join env root f) = Some code \<and> literals_exact code
            \<and> listen_literal code i ds \<and> 1000 \<le> parseInt ds \<and> \<not> hasPortEnvVar code"
  then have s: "issues_of ''port-hardcoded'' f (fst (checkPortUsage env root fw))
                  = scanFileForPortIssues code f fw"
    using port_issues_of_file [OF assms] by blast
  from a obtain v0 ln0 where "first_hardcoded listenCallRegex code = Some (v0, ln0)"
    using first_hardcoded_listen_exists [of code i ds] by blast
  then obtain v ln where c: "cited_port code = Some (v, ln)"
    using cited_port_exists by blast
  from a c have e: "1000 \<le> v \<and> v < 2 ^ 53"
    using cited_port_exact by blast
  from a c have "scanFileForPortIssues code f fw = [port_hardcoded f (Some v) (Some ln)]"
    by (simp add: scan_port_cited)
  with s c e show "\<exists>v ln. issues_of ''port-hardcoded'' f (fst (checkPortUsage env root fw))
                         = [port_hardcoded f (Some v) (Some ln)]
                  \<and> cited_port code = Some (v, ln) \<and> 1000 \<le> v \<and> v < 2 ^ 53
                  \<and> severity (port_hardcoded f (Some v) (Some ln)) = Error
                  \<and> issue_message (port_hardcoded f (Some v) (Some ln))
                      = ''Hardcoded port '' @ show_nat v @ ''. Railway requires process.env.PORT''"
    by (intro exI [of _ v] exI [of _ ln]) (simp add: port_hardcoded_simps)
next
  assume a: "distinct (take 50 found) \<and> f \<in> set (take 50 found)
            \<and> files env (join env root f) = Some code \<and> literals_exact code
            \<and> listen_literal code i ds \<and> 1000 \<le> parseInt ds \<and> \<not> hasPortEnvVar code
            \<and> (\<forall>j ds'. j < i \<and> listen_literal code j ds' \<longrightarrow> parseInt ds' < 1000)
            \<and> no_port_assignment code"
  then have s: "issues_of ''port-hardcoded'' f (fst (checkPortUsage env root fw))
                  = scanFileForPortIssues code f fw"
    using port_issues_of_file [OF assms] by blast
  from a have "first_hardcoded listenCallRegex code = Some (parseInt ds, line_of code i)"
    using first_hardcoded_listen [of code i ds] by blast
  with a have "cited_port code = Some (parseInt ds, line_of code i)"
    by (simp add: cited_port_listen_only)
  with a s show "issues_of ''port-hardcoded'' f (fst (checkPortUsage env root fw))
                = [port_hardcoded f (Some (parseInt ds)) (Some (line_of code i))]"
    by (simp add: scan_port_cited)
next
  assume "cited_port code = Some (v, ln)"
  then show "\<exists>regex \<in> set [listenCallRegex, portVarRegex, pythonPortRegex].
                 \<exists>j ds' len. j < length code \<and> regex (drop j code) = Some (ds', len)
                   \<and> v = parseInt ds' \<and> ln = line_of code j \<and> 1000 \<le> v"
    by (rule cited_port_sound)
next
  assume a: "distinct (take 50 found) \<and> f \<in> set (take 50 found)
            \<and> files env (join env root f) = Some code \<and> hasPortEnvVar code"
  then have "issues_of ''port-hardcoded'' f (fst (checkPortUsage env root fw))
               = scanFileForPortIssues code f fw"
    using port_issues_of_file [OF assms] by blast
  with a show "issues_of ''port-hardcoded'' f (fst (checkPortUsage env root fw)) = []"
    by (simp add: scan_port_env)
next
  show "fst (checkPortUsage env root fw)
           = concat (map (port_file_issues env root fw) (take 50 found))
             @ (if nextjs_port_flag_missing env root fw then [nextjs_port_flag] else [])"
    by (rule port_check_issues(1) [OF assms])
next
  show "snd (checkPortUsage env root fw)
           = (if fst (checkPortUsage env root fw) = [] then [port_check_passed] else [])"
    by (rule port_check_issues(2) [OF assms])
qed

theorem port_hardcoded_issue_witness:
  "glob (one_file_env ''app.listen(3000)'') (source_patterns unknown_framework)
     \<lparr>cwd = ''/app'', ignore = scan_ignore @ [''*.test.*'', ''*.spec.*''], maxDepth = 5\<rparr>
     = Some [''server.js'']
   \<and> listen_literal ''app.listen(3000)'' 3 ''3000''
   \<and> literals_exact ''app.listen(3000)''
   \<and> \<not> hasPortEnvVar ''app.listen(3000)''
   \<and> issues_of ''port-hardcoded'' ''server.js''
        (fst (checkPortUsage (one_file_env ''app.listen(3000)'') ''/app'' unknown_framework))
       = [port_hardcoded ''server.js'' (Some 3000) (Some 1)]
   \<and> issue_message (port_hardcoded ''server.js'' (Some 3000) (Some 1))
       = ''Hardcoded port 3000. Railway requires process.env.PORT''
   \<and> severity (port_hardcoded ''server.js'' (Some 3000) (Some 1)) = Error
   \<and> cited_port ''const port = 8080; app.listen(3000)'' = Some (8080, 1)
   \<and> issues_of ''port-hardcoded'' ''server.js''
        (fst (checkPortUsage (one_file_env ''const port = 8080; app.listen(3000)'') ''/app''
                unknown_framework))
       = [port_hardcoded ''server.js'' (Some 8080) (Some 1)]
   \<and> hasPortEnvVar ''p = process.env.PORT; app.listen(3000)''
   \<and> issues_of ''port-hardcoded'' ''server.js''
        (fst (checkPortUsage (one_file_env ''p = process.env.PORT; app.listen(3000)'') ''/app''
                unknown_framework)) = []"
proof -
  have l: "listen_literal ''app.listen(3000)'' 3 ''3000''"
    unfolding listen_literal_iff
    by (simp add: listenCallRegex_def digits_then_def is_space_def is_digit_def)
  have p: "parseInt ''3000'' = 3000"
    by (simp add: parseInt_def digit_val_def)
  have x: "literals_exact ''app.listen(3000)''"
    by (simp add: literals_exact_def listenCallRegex_def portVarRegex_def pythonPortRegex_def
        digits_then_def is_space_def is_digit_def parseInt_def digit_val_def)
  have e: "\<not> hasPortEnvVar ''app.listen(3000)''"
    by (simp add: hasPortEnvVar_def)
  have f: "\<forall>j ds'. j < 3 \<and> listen_literal ''app.listen(3000)'' j ds' \<longrightarrow> parseInt ds' < 1000"
  proof (intro allI impI)
    fix j ds'
    assume a: "j < 3 \<and> listen_literal ''app.listen(3000)'' j ds'"
    then have "j = 0 \<or> j = 1 \<or> j = 2" by auto
    with a show "parseInt ds' < 1000"
      by (auto simp: listen_literal_iff listenCallRegex_def)
  qed
  have n: "no_port_assignment ''app.listen(3000)''"
    by (simp add: no_port_assignment_def portVarRegex_def pythonPortRegex_def)
  have ln: "line_of ''app.listen(3000)'' 3 = 1"
    by (simp add: line_of_def split_lines_def)
  have a: "issues_of ''port-hardcoded'' ''server.js''
        (fst (checkPortUsage (one_file_env ''app.listen(3000)'') ''/app'' unknown_framework))
       = [port_hardcoded ''server.js'' (Some 3000) (Some 1)]"
    using conjunct1 [OF conjunct2 [OF port_hardcoded_issue
            [OF one_file_glob [of "''app.listen(3000)''" unknown_framework],
              where f = "''server.js''" and code = "''app.listen(3000)''" and i = 3
                and ds = "''3000''"]]]
      one_file_scanned l p x e f n ln
    by simp
  have x2: "literals_exact ''const port = 8080; app.listen(3000)''"
    by (simp add: literals_exact_def listenCallRegex_def portVarRegex_def pythonPortRegex_def
        digits_then_def is_space_def is_digit_def is_word_def parseInt_def digit_val_def)
  have e2: "\<not> hasPortEnvVar ''const port = 8080; app.listen(3000)''"
    by (simp add: hasPortEnvVar_def)
  have c2: "cited_port ''const port = 8080; app.listen(3000)'' = Some (8080, 1)"
    by (simp add: cited_port_def port_eval is_word_def strip_prefix_iff)
  from conjunct1 [OF port_hardcoded_issue
        [OF one_file_glob [of "''const port = 8080; app.listen(3000)''" unknown_framework],
          where f = "''server.js''" and code = "''const port = 8080; app.listen(3000)''"
            and i = 22 and ds = "''3000''"]]
    one_file_scanned variable_file_listen p x2 e2
  obtain v lnv where b0: "issues_of ''port-hardcoded'' ''server.js''
        (fst (checkPortUsage (one_file_env ''const port = 8080; app.listen(3000)'') ''/app''
                unknown_framework)) = [port_hardcoded ''server.js'' (Some v) (Some lnv)]"
    and b1: "cited_port ''const port = 8080; app.listen(3000)'' = Some (v, lnv)"
    and b2: "severity (port_hardcoded ''server.js'' (Some v) (Some lnv)) = Error"
    by auto
  from b0 b1 c2 have b: "issues_of ''port-hardcoded'' ''server.js''
        (fst (checkPortUsage (one_file_env ''const port = 8080; app.listen(3000)'') ''/app''
                unknown_framework)) = [port_hardcoded ''server.js'' (Some 8080) (Some 1)]"
    by simp
  have m: "issue_message (port_hardcoded ''server.js'' (Some 3000) (Some 1))
             = ''Hardcoded port 3000. Railway requires process.env.PORT''
           \<and> severity (port_hardcoded ''server.js'' (Some 3000) (Some 1)) = Error"
    by (simp add: port_hardcoded_simps show_nat.simps)
  have h: "hasPortEnvVar ''p = process.env.PORT; app.listen(3000)''"
    by (simp add: hasPortEnvVar_def)
  have c: "issues_of ''port-hardcoded'' ''server.js''
        (fst (checkPortUsage (one_file_env ''p = process.env.PORT; app.listen(3000)'') ''/app''
                unknown_framework)) = []"
    using conjunct1 [OF conjunct2 [OF conjunct2 [OF conjunct2 [OF port_hardcoded_issue
              [OF one_file_glob [of "''p = process.env.PORT; app.listen(3000)''" unknown_framework],
                where f = "''server.js''"
                  and code = "''p = process.env.PORT; app.listen(3000)''"]]]]]
      one_file_scanned h
    by simp
  from one_file_glob l x e a m c2 b h c show ?thesis by (intro conjI) simp_all
qed

end
